theory Spec2Isabelle
  imports Complex_Main
begin

section \<open>Scan-matching localization plugin (localization\_plugin2.cpp)\<close>

text \<open>
  A shallow embedding of \<^verbatim>\<open>LocalizationPlugin::process\<close>. Range readings are C++
  doubles that may be NaN or infinite, so they get their own type. The variables of the
  sampling loops are doubles as well: their additions are rounded as IEEE binary64
  rounds them, so the model takes the steps the program takes. Poses, segment endpoints
  and sums of errors are finite and are taken as reals; the rounding of their products,
  sines and cosines is not modelled. The geometry library (geolib) and the laser range
  finder's line renderer are not part of this repository: the pose algebra is written
  out below, the renderer is a parameter.
\<close>

subsection \<open>Doubles\<close>

text \<open>A double: a finite value, plus or minus infinity, or NaN.\<close>

datatype dbl = Fin real | PInf | NInf | NaN

text \<open>The comparison \<^verbatim>\<open>a < b\<close>: false as soon as one side is NaN.\<close>

fun dbl_lt :: "dbl \<Rightarrow> dbl \<Rightarrow> bool" where
  "dbl_lt (Fin a) (Fin b) = (a < b)"
| "dbl_lt (Fin a) PInf = True"
| "dbl_lt NInf (Fin b) = True"
| "dbl_lt NInf PInf = True"
| "dbl_lt _ _ = False"

definition dbl_gt :: "dbl \<Rightarrow> dbl \<Rightarrow> bool" where
  "dbl_gt a b = dbl_lt b a"

text \<open>The comparison \<^verbatim>\<open>a != b\<close>: true as soon as one side is NaN.\<close>

fun dbl_ne :: "dbl \<Rightarrow> dbl \<Rightarrow> bool" where
  "dbl_ne (Fin a) (Fin b) = (a \<noteq> b)"
| "dbl_ne PInf PInf = False"
| "dbl_ne NInf NInf = False"
| "dbl_ne _ _ = True"

fun dbl_neg :: "dbl \<Rightarrow> dbl" where
  "dbl_neg (Fin a) = Fin (- a)"
| "dbl_neg PInf = NInf"
| "dbl_neg NInf = PInf"
| "dbl_neg NaN = NaN"

fun dbl_abs :: "dbl \<Rightarrow> dbl" where
  "dbl_abs (Fin a) = Fin \<bar>a\<bar>"
| "dbl_abs PInf = PInf"
| "dbl_abs NInf = PInf"
| "dbl_abs NaN = NaN"

fun dbl_add :: "dbl \<Rightarrow> dbl \<Rightarrow> dbl" where
  "dbl_add (Fin a) (Fin b) = Fin (a + b)"
| "dbl_add NaN _ = NaN"
| "dbl_add _ NaN = NaN"
| "dbl_add PInf NInf = NaN"
| "dbl_add NInf PInf = NaN"
| "dbl_add PInf _ = PInf"
| "dbl_add _ PInf = PInf"
| "dbl_add NInf _ = NInf"
| "dbl_add _ NInf = NInf"

definition dbl_sub :: "dbl \<Rightarrow> dbl \<Rightarrow> dbl" where
  "dbl_sub a b = dbl_add a (dbl_neg b)"

fun dbl_mul :: "dbl \<Rightarrow> dbl \<Rightarrow> dbl" where
  "dbl_mul (Fin a) (Fin b) = Fin (a * b)"
| "dbl_mul NaN _ = NaN"
| "dbl_mul _ NaN = NaN"
| "dbl_mul PInf PInf = PInf"
| "dbl_mul NInf NInf = PInf"
| "dbl_mul PInf NInf = NInf"
| "dbl_mul NInf PInf = NInf"
| "dbl_mul PInf (Fin b) = (if b = 0 then NaN else if 0 < b then PInf else NInf)"
| "dbl_mul NInf (Fin b) = (if b = 0 then NaN else if 0 < b then NInf else PInf)"
| "dbl_mul (Fin a) PInf = (if a = 0 then NaN else if 0 < a then PInf else NInf)"
| "dbl_mul (Fin a) NInf = (if a = 0 then NaN else if 0 < a then NInf else PInf)"

subsection \<open>Geometry\<close>

text \<open>
  Modelled from the spec: the types \<^verbatim>\<open>geo::Vec2\<close>, \<^verbatim>\<open>geo::Mat2\<close>,
  \<^verbatim>\<open>geo::Transform2\<close>, \<^verbatim>\<open>geo::Vector3\<close>, \<^verbatim>\<open>geo::Matrix3\<close> and
  \<^verbatim>\<open>geo::Pose3D\<close> with their product, inverse and \<^verbatim>\<open>setRPY\<close> come from geolib,
  which is not part of this repository. A pose is a rotation and a translation; \<open>A * B\<close> is the
  rigid transform "first \<open>B\<close>, then \<open>A\<close>", and the inverse of a pose undoes it.
\<close>

datatype Vec2 = Vec2 (v2_x: real) (v2_y: real)

datatype Mat2 = Mat2 real real real real

datatype Transform2 = Transform2 Mat2 Vec2

text \<open>Modelled from the spec: \<^verbatim>\<open>T * p\<close> for a planar transform (geolib): rotate, then
  translate.\<close>

fun transform2_apply :: "Transform2 \<Rightarrow> Vec2 \<Rightarrow> Vec2" where
  "transform2_apply (Transform2 (Mat2 mxx mxy myx myy) (Vec2 tx ty)) (Vec2 px py) =
     Vec2 (mxx * px + mxy * py + tx) (myx * px + myy * py + ty)"

datatype Vector3 = Vector3 (v3_x: real) (v3_y: real) (v3_z: real)

datatype Matrix3 =
  Matrix3 (m_xx: real) (m_xy: real) (m_xz: real)
          (m_yx: real) (m_yy: real) (m_yz: real)
          (m_zx: real) (m_zy: real) (m_zz: real)

datatype Pose3D = Pose3D (pose_R: Matrix3) (pose_t: Vector3)

fun vec3_add :: "Vector3 \<Rightarrow> Vector3 \<Rightarrow> Vector3" where
  "vec3_add (Vector3 a b c) (Vector3 d e f) = Vector3 (a + d) (b + e) (c + f)"

fun vec3_neg :: "Vector3 \<Rightarrow> Vector3" where
  "vec3_neg (Vector3 a b c) = Vector3 (- a) (- b) (- c)"

fun mat3_vec :: "Matrix3 \<Rightarrow> Vector3 \<Rightarrow> Vector3" where
  "mat3_vec (Matrix3 axx axy axz ayx ayy ayz azx azy azz) (Vector3 a b c) =
     Vector3 (axx * a + axy * b + axz * c)
             (ayx * a + ayy * b + ayz * c)
             (azx * a + azy * b + azz * c)"

fun mat3_mul :: "Matrix3 \<Rightarrow> Matrix3 \<Rightarrow> Matrix3" where
  "mat3_mul (Matrix3 axx axy axz ayx ayy ayz azx azy azz)
            (Matrix3 bxx bxy bxz byx byy byz bzx bzy bzz) =
     Matrix3 (axx * bxx + axy * byx + axz * bzx)
             (axx * bxy + axy * byy + axz * bzy)
             (axx * bxz + axy * byz + axz * bzz)
             (ayx * bxx + ayy * byx + ayz * bzx)
             (ayx * bxy + ayy * byy + ayz * bzy)
             (ayx * bxz + ayy * byz + ayz * bzz)
             (azx * bxx + azy * byx + azz * bzx)
             (azx * bxy + azy * byy + azz * bzy)
             (azx * bxz + azy * byz + azz * bzz)"

fun mat3_transpose :: "Matrix3 \<Rightarrow> Matrix3" where
  "mat3_transpose (Matrix3 axx axy axz ayx ayy ayz azx azy azz) =
     Matrix3 axx ayx azx axy ayy azy axz ayz azz"

text \<open>Modelled from the spec: \<^verbatim>\<open>A * B\<close> on poses (geolib's \<^verbatim>\<open>Transform3::operator*\<close>).\<close>

fun pose_mul :: "Pose3D \<Rightarrow> Pose3D \<Rightarrow> Pose3D" where
  "pose_mul (Pose3D ra ta) (Pose3D rb tb) =
     Pose3D (mat3_mul ra rb) (vec3_add (mat3_vec ra tb) ta)"

text \<open>Modelled from the spec: \<^verbatim>\<open>A.inverse()\<close> (geolib); a rotation's inverse is its
  transpose.\<close>

fun pose_inverse :: "Pose3D \<Rightarrow> Pose3D" where
  "pose_inverse (Pose3D r tr) =
     Pose3D (mat3_transpose r) (vec3_neg (mat3_vec (mat3_transpose r) tr))"

text \<open>Modelled from the spec: \<^verbatim>\<open>R.setRPY(roll, pitch, yaw)\<close> (geolib), the rotation with
  these Euler angles; with roll and pitch 0 it is the rotation by \<open>yaw\<close> about the z axis.\<close>

definition setRPY :: "real \<Rightarrow> real \<Rightarrow> real \<Rightarrow> Matrix3" where
  "setRPY roll pitch yaw =
     (let ci = cos roll; cj = cos pitch; ch = cos yaw;
          si = sin roll; sj = sin pitch; sh = sin yaw;
          cc = ci * ch; cs = ci * sh; sc = si * ch; ss = si * sh
      in Matrix3 (cj * ch) (sj * sc - cs) (sj * cc + ss)
                 (cj * sh) (sj * ss + cc) (sj * cs - sc)
                 (- sj)    (cj * si)      (cj * ci))"

subsection \<open>Messages and plugin state\<close>

text \<open>A \<^verbatim>\<open>sensor_msgs::LaserScan\<close>, as far as the cycle reads it.\<close>

record LaserScan =
  ranges :: "dbl list"
  range_min :: dbl
  range_max :: dbl
  angle_min :: dbl
  angle_max :: dbl

text \<open>The configuration of \<^verbatim>\<open>lrf_\<close> that the cycle sets.\<close>

record LaserRangeFinder =
  num_beams :: nat
  lrf_range_min :: dbl
  lrf_range_max :: dbl
  lrf_angle_min :: dbl
  lrf_angle_max :: dbl

text \<open>
  \<^verbatim>\<open>lrf_.renderLine(p1, p2, ranges)\<close> belongs to geolib: it is a parameter, a function
  from the range finder's configuration, a segment in the sensor frame and the range
  vector to the updated range vector.
\<close>

type_synonym renderer = "LaserRangeFinder \<Rightarrow> Vec2 \<Rightarrow> Vec2 \<Rightarrow> dbl list \<Rightarrow> dbl list"

text \<open>The members of \<^verbatim>\<open>LocalizationPlugin\<close> that \<^verbatim>\<open>process\<close> reads and writes.\<close>

record plugin_state =
  pose_initialized :: bool
  have_previous_pose :: bool
  previous_pose :: Pose3D
  best_laser_pose :: Pose3D
  lrf :: LaserRangeFinder

text \<open>
  What one cycle finds after \<^verbatim>\<open>cb_queue_.callAvailable()\<close>: the latest scan and the
  latest odometry pose (already converted by \<^verbatim>\<open>geo::convert\<close>), if any arrived, and
  the segments that \<^verbatim>\<open>lrf_.render\<close> collects from the world's shaped entities.
\<close>

record cycle_input =
  laser_msg :: "LaserScan option"
  odom_msg :: "Pose3D option"
  world_lines :: "(Vec2 \<times> Vec2) list"

text \<open>
  The constructor clears both flags and leaves the other members as they are; their
  initial contents are arguments here.
\<close>

definition LocalizationPlugin :: "Pose3D \<Rightarrow> Pose3D \<Rightarrow> LaserRangeFinder \<Rightarrow> plugin_state" where
  "LocalizationPlugin p0 b0 l0 =
     \<lparr>pose_initialized = False, have_previous_pose = False,
      previous_pose = p0, best_laser_pose = b0, lrf = l0\<rparr>"

subsection \<open>Delta movement based on odometry\<close>

text \<open>The body of \<^verbatim>\<open>if (odom_msg_)\<close>.\<close>

definition odom_update :: "plugin_state \<Rightarrow> Pose3D \<Rightarrow> plugin_state" where
  "odom_update st new_pose =
     (let st1 =
        (if have_previous_pose st \<and> pose_initialized st
         then (let delta = pose_mul new_pose (pose_inverse (previous_pose st))
               in st\<lparr>best_laser_pose := pose_mul delta (best_laser_pose st)\<rparr>)
         else st)
      in st1\<lparr>previous_pose := new_pose, have_previous_pose := True\<rparr>)"

subsection \<open>Double arithmetic of the loop variables\<close>

text \<open>Rounding to the nearest integer, a tie going to the even one.\<close>

definition round_half_even :: "real \<Rightarrow> int" where
  "round_half_even q =
     (let f = \<lfloor>q\<rfloor>; d = q - of_int f
      in if d < 1 / 2 then f else if 1 / 2 < d then f + 1 else if even f then f else f + 1)"

text \<open>
  The double nearest to a real, as IEEE binary64 rounds: 53 significant bits, ties to
  even, the exponent not below -1022. A double literal \<^verbatim>\<open>0.1\<close> is
  \<open>round_to_double 0.1\<close>, and \<^verbatim>\<open>v += 0.1\<close> stores
  \<open>round_to_double (v + round_to_double 0.1)\<close>. Overflow to infinity is left out: the loop
  variables stay below 7 in absolute value.
\<close>

definition round_to_double :: "real \<Rightarrow> real" where
  "round_to_double x =
     (if x = 0 then 0
      else (let e = max \<lfloor>log 2 \<bar>x\<bar>\<rfloor> (- 1022); u = 2 powi (e - 52)
            in of_int (round_half_even (x / u)) * u))"

subsection \<open>Samples\<close>

text \<open>The pose with translation \<open>(x, y, 0)\<close> and yaw \<open>a\<close>.\<close>

definition make_pose :: "real \<Rightarrow> real \<Rightarrow> real \<Rightarrow> Pose3D" where
  "make_pose x y a = Pose3D (setRPY 0 0 a) (Vector3 x y 0)"

text \<open>
  Uniform sampling over the world: three nested loops, innermost first. A loop that
  never ends has the value \<open>None\<close>.
\<close>

partial_function (option) global_a ::
  "real \<Rightarrow> real \<Rightarrow> real \<Rightarrow> Pose3D list \<Rightarrow> Pose3D list option" where
  "global_a x y a poses =
     (if a < round_to_double 6.28
      then global_a x y (round_to_double (a + round_to_double 0.1)) (poses @ [make_pose x y a])
      else Some poses)"

partial_function (option) global_y ::
  "real \<Rightarrow> real \<Rightarrow> Pose3D list \<Rightarrow> Pose3D list option" where
  "global_y x y poses =
     (if y < 5
      then (case global_a x y 0 poses of
              None \<Rightarrow> None
            | Some poses' \<Rightarrow> global_y x (round_to_double (y + round_to_double 0.2)) poses')
      else Some poses)"

partial_function (option) global_x :: "real \<Rightarrow> Pose3D list \<Rightarrow> Pose3D list option" where
  "global_x x poses =
     (if x < 5
      then (case global_y x (- 5) poses of
              None \<Rightarrow> None
            | Some poses' \<Rightarrow> global_x (round_to_double (x + round_to_double 0.2)) poses')
      else Some poses)"

text \<open>The window around the best pose: three nested loops, innermost first.\<close>

partial_function (option) local_da ::
  "Pose3D \<Rightarrow> real \<Rightarrow> real \<Rightarrow> real \<Rightarrow> Pose3D list \<Rightarrow> Pose3D list option" where
  "local_da best dx dy da poses =
     (if da < 1
      then local_da best dx dy (round_to_double (da + round_to_double 0.1))
             (poses @ [pose_mul best (make_pose dx dy da)])
      else Some poses)"

partial_function (option) local_dy ::
  "Pose3D \<Rightarrow> real \<Rightarrow> real \<Rightarrow> Pose3D list \<Rightarrow> Pose3D list option" where
  "local_dy best dx dy poses =
     (if dy < round_to_double 0.3
      then (case local_da best dx dy (- 1) poses of
              None \<Rightarrow> None
            | Some poses' \<Rightarrow> local_dy best dx (round_to_double (dy + round_to_double 0.1)) poses')
      else Some poses)"

partial_function (option) local_dx :: "Pose3D \<Rightarrow> real \<Rightarrow> Pose3D list \<Rightarrow> Pose3D list option" where
  "local_dx best dx poses =
     (if dx < round_to_double 0.3
      then (case local_dy best dx (- round_to_double 0.3) poses of
              None \<Rightarrow> None
            | Some poses' \<Rightarrow> local_dx best (round_to_double (dx + round_to_double 0.1)) poses')
      else Some poses)"

definition create_samples :: "plugin_state \<Rightarrow> Pose3D list option" where
  "create_samples st =
     (if \<not> pose_initialized st then global_x (- 5) []
      else local_dx (best_laser_pose st) (- round_to_double 0.3) [best_laser_pose st])"

subsection \<open>Sensor ranges\<close>

text \<open>The check on one reading \<open>r\<close>: \<^verbatim>\<open>if (r != r || r > range_max) r = 0\<close>.\<close>

definition check_range :: "dbl \<Rightarrow> dbl \<Rightarrow> dbl" where
  "check_range r rmax = (if dbl_ne r r \<or> dbl_gt r rmax then Fin 0 else r)"

text \<open>
  The loop \<^verbatim>\<open>for (unsigned int i = 0; i < ranges.size(); i += i_step)\<close>. The counter
  is a 32-bit unsigned integer, so the addition wraps; a loop that never ends has the
  value \<open>None\<close>.
\<close>

partial_function (option) subsample_loop ::
  "LaserScan \<Rightarrow> nat \<Rightarrow> nat \<Rightarrow> dbl list \<Rightarrow> dbl list option" where
  "subsample_loop msg i_step i sensor_ranges =
     (if i < length (ranges msg)
      then subsample_loop msg i_step ((i + i_step) mod 2 ^ 32)
             (sensor_ranges @ [check_range (ranges msg ! i) (range_max msg)])
      else Some sensor_ranges)"

text \<open>The stride: \<^verbatim>\<open>num_beams = 100; i_step = ranges.size() / num_beams\<close>.\<close>

definition i_step_of :: "LaserScan \<Rightarrow> nat" where
  "i_step_of msg = (let n_beams = 100 in length (ranges msg) div n_beams)"

definition subsample :: "LaserScan \<Rightarrow> dbl list option" where
  "subsample msg = subsample_loop msg (i_step_of msg) 0 []"

text \<open>The range finder is reconfigured only when the number of beams changes.\<close>

definition update_lrf :: "LaserRangeFinder \<Rightarrow> LaserScan \<Rightarrow> nat \<Rightarrow> LaserRangeFinder" where
  "update_lrf l msg n =
     (if num_beams l \<noteq> n
      then \<lparr>num_beams = n, lrf_range_min = range_min msg, lrf_range_max = range_max msg,
            lrf_angle_min = angle_min msg, lrf_angle_max = angle_max msg\<rparr>
      else l)"

subsection \<open>Testing one sample\<close>

text \<open>The planar part of the inverse of the sample's pose.\<close>

definition sample_transform :: "Pose3D \<Rightarrow> Transform2" where
  "sample_transform laser_pose =
     (let laser_pose_inv = pose_inverse laser_pose
      in Transform2
           (Mat2 (m_xx (pose_R laser_pose_inv)) (m_xy (pose_R laser_pose_inv))
                 (m_yx (pose_R laser_pose_inv)) (m_yy (pose_R laser_pose_inv)))
           (Vec2 (v3_x (pose_t laser_pose_inv)) (v3_y (pose_t laser_pose_inv))))"

text \<open>
  The sensor model of one sample: a vector of zeros, one per beam, into which every line
  is rendered after it is moved to the sample's frame.
\<close>

definition model_ranges ::
  "renderer \<Rightarrow> LaserRangeFinder \<Rightarrow> Transform2 \<Rightarrow> (Vec2 \<times> Vec2) list \<Rightarrow> nat \<Rightarrow> dbl list" where
  "model_ranges render_line l tf lines n =
     foldl (\<lambda>mr (p1, p2). render_line l (transform2_apply tf p1) (transform2_apply tf p2) mr)
           (replicate n (Fin 0)) lines"

text \<open>One beam's term of the sum: the difference, replaced by 0.3 when its absolute
  value is larger, and squared.\<close>

definition beam_error :: "dbl \<Rightarrow> dbl \<Rightarrow> dbl" where
  "beam_error sensor_range model_range =
     (let diff = dbl_sub sensor_range model_range;
          diff = (if dbl_gt (dbl_abs diff) (Fin 0.3) then Fin 0.3 else diff)
      in dbl_mul diff diff)"

text \<open>
  The loop over the beams \<open>i = 0, \<dots>, sensor_ranges.size() - 1\<close>. It reads
  \<open>model_ranges[i]\<close> unchecked; a read past the end of the vector is the value \<open>None\<close>.
\<close>

primrec error_loop :: "dbl list \<Rightarrow> dbl list \<Rightarrow> nat list \<Rightarrow> dbl \<Rightarrow> dbl option" where
  "error_loop srs mrs [] sum_sq_error = Some sum_sq_error"
| "error_loop srs mrs (i # is) sum_sq_error =
     (if i < length mrs
      then error_loop srs mrs is (dbl_add sum_sq_error (beam_error (srs ! i) (mrs ! i)))
      else None)"

definition sum_sq_error :: "dbl list \<Rightarrow> dbl list \<Rightarrow> dbl option" where
  "sum_sq_error srs mrs = error_loop srs mrs [0..<length srs] (Fin 0)"

definition sample_error ::
  "renderer \<Rightarrow> LaserRangeFinder \<Rightarrow> (Vec2 \<times> Vec2) list \<Rightarrow> dbl list \<Rightarrow> Pose3D \<Rightarrow> dbl option" where
  "sample_error render_line l lines srs laser_pose =
     sum_sq_error srs (model_ranges render_line l (sample_transform laser_pose) lines (length srs))"

subsection \<open>Finding the sample with the lowest error\<close>

text \<open>The loop over the samples; it carries \<open>min_sum_sq_error\<close> and the plugin state.\<close>

fun find_best ::
  "renderer \<Rightarrow> (Vec2 \<times> Vec2) list \<Rightarrow> dbl list \<Rightarrow> Pose3D list \<Rightarrow> dbl \<times> plugin_state
     \<Rightarrow> (dbl \<times> plugin_state) option" where
  "find_best render_line lines srs [] (min_sum_sq_error, st) = Some (min_sum_sq_error, st)"
| "find_best render_line lines srs (laser_pose # poses) (min_sum_sq_error, st) =
     (case sample_error render_line (lrf st) lines srs laser_pose of
        None \<Rightarrow> None
      | Some e \<Rightarrow>
          if dbl_lt e min_sum_sq_error
          then find_best render_line lines srs poses
                 (e, st\<lparr>best_laser_pose := laser_pose, pose_initialized := True\<rparr>)
          else find_best render_line lines srs poses (min_sum_sq_error, st))"

subsection \<open>One cycle\<close>

text \<open>How a cycle ends: it returns with a new state, it never leaves a loop (of the
  sampling or of the subsampling), or it reads past the end of the model ranges.\<close>

datatype outcome = Completes plugin_state | Diverges | OutOfRange

definition process :: "renderer \<Rightarrow> plugin_state \<Rightarrow> cycle_input \<Rightarrow> outcome" where
  "process render_line st inp =
     (case laser_msg inp of
        None \<Rightarrow> Completes st
      | Some msg \<Rightarrow>
          (let st1 = (case odom_msg inp of None \<Rightarrow> st | Some new_pose \<Rightarrow> odom_update st new_pose)
           in case create_samples st1 of
                None \<Rightarrow> Diverges
              | Some poses \<Rightarrow>
                  (case subsample msg of
                     None \<Rightarrow> Diverges
                   | Some sensor_ranges \<Rightarrow>
                       (let n = length sensor_ranges mod 2 ^ 32;
                            st2 = st1\<lparr>lrf := update_lrf (lrf st1) msg n\<rparr>
                        in case find_best render_line (world_lines inp) sensor_ranges poses
                                  (Fin 10000000000, st2) of
                             None \<Rightarrow> OutOfRange
                           | Some (min_sum_sq_error, st3) \<Rightarrow> Completes st3))))"

text \<open>A sequence of cycles, each from the state the one before left.\<close>

fun run :: "renderer \<Rightarrow> plugin_state \<Rightarrow> cycle_input list \<Rightarrow> outcome" where
  "run render_line st [] = Completes st"
| "run render_line st (inp # inps) =
     (case process render_line st inp of
        Completes st' \<Rightarrow> run render_line st' inps
      | Diverges \<Rightarrow> Diverges
      | OutOfRange \<Rightarrow> OutOfRange)"

subsection \<open>What the cycle relies on, and what is observed of it\<close>

text \<open>A range vector without NaN and without infinities.\<close>

definition finite_ranges :: "dbl list \<Rightarrow> bool" where
  "finite_ranges xs = list_all (\<lambda>x. case x of Fin v \<Rightarrow> True | _ \<Rightarrow> False) xs"

text \<open>
  The contract of the line renderer that the loop over the beams takes for granted: the
  renderer writes into the vector it is given, so the size stays, and the ranges it
  writes are finite.
\<close>

definition renders_in_place :: "renderer \<Rightarrow> bool" where
  "renders_in_place render_line =
     (\<forall>l p1 p2 mr. length (render_line l p1 p2 mr) = length mr
        \<and> (finite_ranges mr \<longrightarrow> finite_ranges (render_line l p1 p2 mr)))"



text \<open>
  The variable of a loop \<^verbatim>\<open>for (double v = lo; v < hi; v = nxt(v))\<close> that starts at \<open>v\<close>
  takes exactly the values \<open>ws\<close>, in this order, and then leaves the loop.
\<close>

fun loop_run :: "(real \<Rightarrow> real) \<Rightarrow> real \<Rightarrow> real \<Rightarrow> real list \<Rightarrow> bool" where
  "loop_run nxt hi v [] = (\<not> v < hi)"
| "loop_run nxt hi v (w # ws) = (v < hi \<and> w = v \<and> loop_run nxt hi (nxt v) ws)"

text \<open>
  The doubles that the variables of the sampling loops take, each written as the
  fraction it is exactly; \<open>window_offsets_run\<close> and its siblings below prove that the loops
  take these values.
\<close>

text \<open>The values of \<open>dx\<close> and of \<open>dy\<close> in the loops of the local window.\<close>

definition window_offsets :: "real list" where
  "window_offsets =
     [- (5404319552844595 / 18014398509481984), - (7205759403792793 / 36028797018963968),
      - (900719925474099 / 9007199254740992), 1 / 36028797018963968,
      1801439850948199 / 18014398509481984, 7205759403792795 / 36028797018963968]"

text \<open>The values of \<open>da\<close> in the loop of the local window.\<close>

definition window_yaws :: "real list" where
  "window_yaws =
     [- 1, - (8106479329266893 / 9007199254740992), - (3602879701896397 / 4503599627370496),
      - (6305039478318695 / 9007199254740992), - (1351079888211149 / 2251799813685248),
      - (4503599627370497 / 9007199254740992), - (1801439850948199 / 4503599627370496),
      - (2702159776422299 / 9007199254740992), - (7205759403792799 / 36028797018963968),
      - (1801439850948201 / 18014398509481984), - (5 / 36028797018963968),
      450359962737049 / 4503599627370496, 7205759403792789 / 36028797018963968,
      5404319552844593 / 18014398509481984, 900719925474099 / 2251799813685248,
      4503599627370495 / 9007199254740992, 2702159776422297 / 4503599627370496,
      6305039478318693 / 9007199254740992, 900719925474099 / 1125899906842624,
      8106479329266891 / 9007199254740992, 4503599627370495 / 4503599627370496]"

text \<open>The values of \<open>x\<close> and of \<open>y\<close> in the loops of the uniform sampling.\<close>

definition global_coords :: "real list" where
  "global_coords =
     [- 5, - (5404319552844595 / 1125899906842624), - (2589569785738035 / 562949953421312),
      - (4953959590107545 / 1125899906842624), - (1182194902184755 / 281474976710656),
      - (4503599627370495 / 1125899906842624), - (2139209823000985 / 562949953421312),
      - (4053239664633445 / 1125899906842624), - (478507460408115 / 140737488355328),
      - (3602879701896395 / 1125899906842624), - (1688849860263935 / 562949953421312),
      - (3152519739159345 / 1125899906842624), - (731834939447705 / 281474976710656),
      - (2702159776422295 / 1125899906842624), - (1238489897526885 / 562949953421312),
      - (9007199254740981 / 4503599627370496), - (4053239664633441 / 2251799813685248),
      - (7205759403792783 / 4503599627370496), - (1576259869579671 / 1125899906842624),
      - (5404319552844585 / 4503599627370496), - (2251799813685243 / 2251799813685248),
      - (3602879701896387 / 4503599627370496), - (168884986026393 / 281474976710656),
      - (7205759403792755 / 18014398509481984), - (1801439850948179 / 9007199254740992),
      39 / 18014398509481984, 900719925474109 / 4503599627370496,
      7205759403792833 / 18014398509481984, 5404319552844615 / 9007199254740992,
      3602879701896407 / 4503599627370496, 2251799813685253 / 2251799813685248,
      5404319552844605 / 4503599627370496, 394064967394919 / 281474976710656,
      7205759403792803 / 4503599627370496, 4053239664633451 / 2251799813685248,
      4503599627370501 / 2251799813685248, 4953959590107551 / 2251799813685248,
      5404319552844601 / 2251799813685248, 5854679515581651 / 2251799813685248,
      6305039478318701 / 2251799813685248, 6755399441055751 / 2251799813685248,
      7205759403792801 / 2251799813685248, 7656119366529851 / 2251799813685248,
      8106479329266901 / 2251799813685248, 8556839292003951 / 2251799813685248,
      1125899906842625 / 281474976710656, 4728779608739025 / 1125899906842624,
      2476979795053775 / 562949953421312, 5179139571476075 / 1125899906842624,
      675539944105575 / 140737488355328]"

text \<open>The values of \<open>a\<close> in the loop of the uniform sampling.\<close>

definition global_yaws :: "real list" where
  "global_yaws =
     [0, 3602879701896397 / 36028797018963968, 3602879701896397 / 18014398509481984,
      1351079888211149 / 4503599627370496, 3602879701896397 / 9007199254740992, 1 / 2,
      5404319552844595 / 9007199254740992, 3152519739159347 / 4503599627370496,
      7205759403792793 / 9007199254740992, 2026619832316723 / 2251799813685248,
      9007199254740991 / 9007199254740992, 4953959590107545 / 4503599627370496,
      5404319552844595 / 4503599627370496, 5854679515581645 / 4503599627370496,
      6305039478318695 / 4503599627370496, 6755399441055745 / 4503599627370496,
      7205759403792795 / 4503599627370496, 7656119366529845 / 4503599627370496,
      8106479329266895 / 4503599627370496, 8556839292003945 / 4503599627370496,
      4503599627370497 / 2251799813685248, 2364389804369511 / 1125899906842624,
      4953959590107547 / 2251799813685248, 647392446434509 / 281474976710656,
      5404319552844597 / 2251799813685248, 2814749767106561 / 1125899906842624,
      5854679515581647 / 2251799813685248, 1519964874237543 / 562949953421312,
      6305039478318697 / 2251799813685248, 3265109729843611 / 1125899906842624,
      6755399441055747 / 2251799813685248, 436286213901517 / 140737488355328,
      7205759403792797 / 2251799813685248, 3715469692580661 / 1125899906842624,
      7656119366529847 / 2251799813685248, 1970324836974593 / 562949953421312,
      8106479329266897 / 2251799813685248, 4165829655317711 / 1125899906842624,
      8556839292003947 / 2251799813685248, 1097752409171559 / 281474976710656,
      2251799813685249 / 562949953421312, 577023702256845 / 140737488355328,
      2364389804369511 / 562949953421312, 1210342399855821 / 281474976710656,
      2476979795053773 / 562949953421312, 9 / 2, 2589569785738035 / 562949953421312,
      1322932390540083 / 281474976710656, 2702159776422297 / 562949953421312,
      689613692941107 / 140737488355328, 2814749767106559 / 562949953421312,
      1435522381224345 / 281474976710656, 2927339757790821 / 562949953421312,
      372954344141619 / 70368744177664, 3039929748475083 / 562949953421312,
      1548112371908607 / 281474976710656, 3152519739159345 / 562949953421312,
      802203683625369 / 140737488355328, 3265109729843607 / 562949953421312,
      1660702362592869 / 281474976710656, 3377699720527869 / 562949953421312,
      214624669741875 / 35184372088832, 3490289711212131 / 562949953421312]"

text \<open>
  The window grid around a pose: the pose composed, on its right, with the pose of every
  offset \<open>(dx, dy)\<close> and yaw \<open>da\<close> of the window, \<open>dx\<close> outermost and \<open>da\<close> innermost.
\<close>

definition window_grid :: "Pose3D \<Rightarrow> Pose3D list" where
  "window_grid best =
     concat (map (\<lambda>dx. concat (map (\<lambda>dy.
       map (\<lambda>da. pose_mul best (make_pose dx dy da)) window_yaws) window_offsets)) window_offsets)"

text \<open>The grid of the uniform sampling, \<open>x\<close> outermost and \<open>a\<close> innermost.\<close>

definition world_grid :: "Pose3D list" where
  "world_grid =
     concat (map (\<lambda>x. concat (map (\<lambda>y.
       map (\<lambda>a. make_pose x y a) global_yaws) global_coords)) global_coords)"

subsection \<open>Example inputs\<close>

text \<open>A scan of \<open>n\<close> readings of one metre, with a maximum range of 30 metres.\<close>

definition flat_scan :: "nat \<Rightarrow> LaserScan" where
  "flat_scan n =
     \<lparr>ranges = replicate n (Fin 1), range_min = Fin 0, range_max = Fin 30,
      angle_min = Fin (- 2), angle_max = Fin 2\<rparr>"

text \<open>A range finder configured for 100 beams up to 30 metres.\<close>

definition example_lrf :: LaserRangeFinder where
  "example_lrf =
     \<lparr>num_beams = 100, lrf_range_min = Fin 0, lrf_range_max = Fin 30,
      lrf_angle_min = Fin (- 2), lrf_angle_max = Fin 2\<rparr>"

text \<open>A renderer that sees every line on beam 0 only, as far away as the first end point
  of the line is along the x axis.\<close>

definition beam0_renderer :: renderer where
  "beam0_renderer l p1 p2 mr = mr[0 := Fin \<bar>v2_x p1\<bar>]"

text \<open>A renderer that sees every line on beam 0 only, at the square of the distance of
  the line's first end point from the sensor.\<close>

definition ring_renderer :: renderer where
  "ring_renderer l p1 p2 mr = mr[0 := Fin ((v2_x p1)\<^sup>2 + (v2_y p1)\<^sup>2)]"

section \<open>Properties\<close>

subsection \<open>Subsampling the scan\<close>

lemma dbl_ne_self: "dbl_ne r r = (r = NaN)"
  by (cases r) simp_all

lemma check_range_eq:
  "check_range r rmax = (if r = NaN \<or> dbl_lt rmax r then Fin 0 else r)"
  by (simp add: check_range_def dbl_ne_self dbl_gt_def)

lemma check_range_not_NaN: "check_range r rmax \<noteq> NaN"
  by (simp add: check_range_eq)

lemma subsample_loop_stuck_aux:
  assumes "subsample_loop msg s i acc = Some r"
  shows "s = 0 \<longrightarrow> \<not> i < length (ranges msg)"
proof (rule subsample_loop.raw_induct
        [where P = "\<lambda>m s i acc r. s = 0 \<longrightarrow> \<not> i < length (ranges m)", OF _ assms])
  fix f :: "LaserScan \<Rightarrow> nat \<Rightarrow> nat \<Rightarrow> dbl list \<Rightarrow> dbl list option"
  fix m :: LaserScan and st j :: nat and a y :: "dbl list"
  assume IH: "\<And>m st j a y. f m st j a = Some y \<Longrightarrow> st = 0 \<longrightarrow> \<not> j < length (ranges m)"
    and eq: "(if j < length (ranges m)
      then f m st ((j + st) mod 2 ^ 32) (a @ [check_range (ranges m ! j) (range_max m)])
      else Some a) = Some y"
  show "st = 0 \<longrightarrow> \<not> j < length (ranges m)"
  proof (intro impI notI)
    assume "st = 0" "j < length (ranges m)"
    with eq have "f m 0 (j mod 2 ^ 32) (a @ [check_range (ranges m ! j) (range_max m)]) = Some y"
      by simp
    from IH[OF this] have "\<not> j mod 2 ^ 32 < length (ranges m)" by simp
    moreover have "j mod 2 ^ 32 \<le> j" by simp
    ultimately show False using \<open>j < length (ranges m)\<close> by linarith
  qed
qed

lemma subsample_loop_stuck:
  "i < length (ranges msg) \<Longrightarrow> subsample_loop msg 0 i acc = None"
  using subsample_loop_stuck_aux[of msg 0 i acc] by (cases "subsample_loop msg 0 i acc") auto

lemma subsample_short_scan:
  assumes "0 < length (ranges msg)" "length (ranges msg) < 100"
  shows "subsample msg = None"
  using assms by (simp add: subsample_def i_step_of_def subsample_loop_stuck)

lemma stride_count_step:
  fixes n i s :: nat
  assumes "0 < s" "i < n"
  shows "(n - i + s - 1) div s = Suc ((n - (i + s) + s - 1) div s)"
proof (cases "i + s \<le> n")
  case True
  then have "n - i + s - 1 = (n - (i + s) + s - 1) + s" using assms by linarith
  then have "(n - i + s - 1) div s = ((n - (i + s) + s - 1) + s) div s" by (simp only:)
  also have "\<dots> = Suc ((n - (i + s) + s - 1) div s)" using assms(1) by (simp only: div_add_self2)
  finally show ?thesis .
next
  case False
  then have a: "n - (i + s) + s - 1 = s - 1" by simp
  have b: "s \<le> n - i + s - 1" "n - i + s - 1 < 2 * s" using False assms by linarith+
  obtain r where r: "n - i + s - 1 = s + r"
    using b(1) le_Suc_ex by blast
  have "r < s" using b(2) r by linarith
  have "(n - i + s - 1) div s = 1"
    unfolding r using \<open>r < s\<close> assms(1) by simp
  moreover have "(s - 1) div s = 0" using assms(1) by simp
  ultimately show ?thesis by (simp only: a)
qed

lemma map_upt_shift:
  "map f [0..<Suc m] = f 0 # map (\<lambda>j. f (Suc j)) [0..<m]"
  by (simp only: upt_conv_Cons[of 0 "Suc m"] map_Suc_upt[symmetric] list.map map_map o_def)

lemma subsample_loop_no_wrap:
  assumes "0 < s" "length (ranges msg) + s \<le> 2 ^ 32"
  shows "subsample_loop msg s i acc =
     Some (acc @ map (\<lambda>j. check_range (ranges msg ! (i + j * s)) (range_max msg))
                   [0..<(length (ranges msg) - i + s - 1) div s])"
proof (induction "length (ranges msg) - i" arbitrary: i acc rule: less_induct)
  case less
  show ?case
  proof (cases "i < length (ranges msg)")
    case False
    then have "(length (ranges msg) - i + s - 1) div s = 0" using assms(1) by simp
    then show ?thesis using False by (subst subsample_loop.simps) simp
  next
    case True
    have nw: "(i + s) mod 2 ^ 32 = i + s" using True assms(2) by simp
    have dec: "length (ranges msg) - (i + s) < length (ranges msg) - i"
      using True assms(1) by linarith
    have cnt: "(length (ranges msg) - i + s - 1) div s
                 = Suc ((length (ranges msg) - (i + s) + s - 1) div s)"
      by (rule stride_count_step[OF assms(1) True])
    have "subsample_loop msg s i acc
            = subsample_loop msg s (i + s) (acc @ [check_range (ranges msg ! i) (range_max msg)])"
      using True nw by (subst subsample_loop.simps) simp
    also have "\<dots> = Some ((acc @ [check_range (ranges msg ! i) (range_max msg)]) @
        map (\<lambda>j. check_range (ranges msg ! (i + s + j * s)) (range_max msg))
                   [0..<(length (ranges msg) - (i + s) + s - 1) div s])"
      by (rule less[OF dec])
    also have "\<dots> = Some (acc @ map (\<lambda>j. check_range (ranges msg ! (i + j * s)) (range_max msg))
                   [0..<(length (ranges msg) - i + s - 1) div s])"
      unfolding cnt map_upt_shift by (simp add: ac_simps)
    finally show ?thesis .
  qed
qed


lemma subsample_loop_trace:
  assumes "subsample_loop msg s i acc = Some r"
  shows "i < 2 ^ 32 \<longrightarrow>
         (\<exists>n. length r = length acc + n
            \<and> (\<forall>k<n. (i + k * s) mod 2 ^ 32 < length (ranges msg))
            \<and> \<not> (i + n * s) mod 2 ^ 32 < length (ranges msg))
         \<and> (NaN \<notin> set acc \<longrightarrow> NaN \<notin> set r)"
proof (rule subsample_loop.raw_induct
        [where P = "\<lambda>m s i acc r. i < 2 ^ 32 \<longrightarrow>
         (\<exists>n. length r = length acc + n
            \<and> (\<forall>k<n. (i + k * s) mod 2 ^ 32 < length (ranges m))
            \<and> \<not> (i + n * s) mod 2 ^ 32 < length (ranges m))
         \<and> (NaN \<notin> set acc \<longrightarrow> NaN \<notin> set r)", OF _ assms])
  fix f :: "LaserScan \<Rightarrow> nat \<Rightarrow> nat \<Rightarrow> dbl list \<Rightarrow> dbl list option"
  fix m :: LaserScan and st j :: nat and a y :: "dbl list"
  assume IH: "\<And>m st j a y. f m st j a = Some y \<Longrightarrow> j < 2 ^ 32 \<longrightarrow>
         (\<exists>n. length y = length a + n
            \<and> (\<forall>k<n. (j + k * st) mod 2 ^ 32 < length (ranges m))
            \<and> \<not> (j + n * st) mod 2 ^ 32 < length (ranges m))
         \<and> (NaN \<notin> set a \<longrightarrow> NaN \<notin> set y)"
    and eq: "(if j < length (ranges m)
      then f m st ((j + st) mod 2 ^ 32) (a @ [check_range (ranges m ! j) (range_max m)])
      else Some a) = Some y"
  show "j < 2 ^ 32 \<longrightarrow>
         (\<exists>n. length y = length a + n
            \<and> (\<forall>k<n. (j + k * st) mod 2 ^ 32 < length (ranges m))
            \<and> \<not> (j + n * st) mod 2 ^ 32 < length (ranges m))
         \<and> (NaN \<notin> set a \<longrightarrow> NaN \<notin> set y)"
  proof (intro impI)
    assume jb: "j < (2::nat) ^ 32"
    show "(\<exists>n. length y = length a + n
            \<and> (\<forall>k<n. (j + k * st) mod 2 ^ 32 < length (ranges m))
            \<and> \<not> (j + n * st) mod 2 ^ 32 < length (ranges m))
         \<and> (NaN \<notin> set a \<longrightarrow> NaN \<notin> set y)"
    proof (cases "j < length (ranges m)")
      case False
      with eq have "y = a" by simp
      moreover have "\<not> (j + 0 * st) mod 2 ^ 32 < length (ranges m)" using False jb by simp
      ultimately show ?thesis by (intro conjI exI[of _ 0]) simp_all
    next
      case True
      with eq have call: "f m st ((j + st) mod 2 ^ 32)
                            (a @ [check_range (ranges m ! j) (range_max m)]) = Some y"
        by simp
      have "(j + st) mod 2 ^ 32 < (2::nat) ^ 32" by simp
      with IH[OF call] obtain n where
        n: "length y = length (a @ [check_range (ranges m ! j) (range_max m)]) + n"
           "\<forall>k<n. ((j + st) mod 2 ^ 32 + k * st) mod 2 ^ 32 < length (ranges m)"
           "\<not> ((j + st) mod 2 ^ 32 + n * st) mod 2 ^ 32 < length (ranges m)"
        and nan: "NaN \<notin> set (a @ [check_range (ranges m ! j) (range_max m)]) \<longrightarrow> NaN \<notin> set y"
        by blast
      have shift: "\<And>k. ((j + st) mod 2 ^ 32 + k * st) mod 2 ^ 32 = (j + Suc k * st) mod 2 ^ 32"
      proof -
        fix k
        have "((j + st) mod 2 ^ 32 + k * st) mod 2 ^ 32 = ((j + st) + k * st) mod 2 ^ 32"
          by (rule mod_add_left_eq)
        also have "(j + st) + k * st = j + Suc k * st" by simp
        finally show "((j + st) mod 2 ^ 32 + k * st) mod 2 ^ 32 = (j + Suc k * st) mod 2 ^ 32" .
      qed
      have 1: "length y = length a + Suc n" using n(1) by simp
      have 2: "\<forall>k<Suc n. (j + k * st) mod 2 ^ 32 < length (ranges m)"
      proof (intro allI impI)
        fix k assume "k < Suc n"
        show "(j + k * st) mod 2 ^ 32 < length (ranges m)"
        proof (cases k)
          case 0
          then show ?thesis using True jb by simp
        next
          case (Suc k')
          then have "k' < n" using \<open>k < Suc n\<close> by simp
          then show ?thesis using n(2) shift Suc by metis
        qed
      qed
      have 3: "\<not> (j + Suc n * st) mod 2 ^ 32 < length (ranges m)"
        using n(3) shift by metis
      have 4: "NaN \<notin> set a \<longrightarrow> NaN \<notin> set y"
        using nan check_range_not_NaN[of "ranges m ! j" "range_max m"] by auto
      show ?thesis using 1 2 3 4 by blast
    qed
  qed
qed

lemma subsample_result:
  assumes "subsample msg = Some srs"
  shows "length srs < 2 ^ 32" and "NaN \<notin> set srs"
proof -
  from assms have loop: "subsample_loop msg (i_step_of msg) 0 [] = Some srs"
    by (simp add: subsample_def)
  from subsample_loop_trace[OF loop] obtain n where
    n: "length srs = n"
       "\<forall>k<n. (k * i_step_of msg) mod 2 ^ 32 < length (ranges msg)"
       "\<not> (n * i_step_of msg) mod 2 ^ 32 < length (ranges msg)"
    and nan: "NaN \<notin> set srs"
    by auto
  show "NaN \<notin> set srs" by (rule nan)
  have "n < 2 ^ 32"
  proof (rule ccontr)
    assume "\<not> n < 2 ^ 32"
    then obtain k where k: "n = k + 2 ^ 32" by (metis add.commute le_Suc_ex not_less)
    have "(n * i_step_of msg) mod 2 ^ 32 = (k * i_step_of msg) mod 2 ^ 32"
      unfolding k by (simp add: algebra_simps)
    moreover have "k < n" using k by simp
    ultimately show False using n(2) n(3) by metis
  qed
  then show "length srs < 2 ^ 32" using n(1) by simp
qed

subsection \<open>The error of one sample\<close>

lemma beam_error_finite:
  "beam_error (Fin s) (Fin m) = Fin ((min \<bar>s - m\<bar> 0.3)\<^sup>2)"
proof (cases "\<bar>s - m\<bar> > 0.3")
  case True
  then have "min \<bar>s - m\<bar> 0.3 = 0.3" by simp
  then show ?thesis using True
    by (simp add: beam_error_def dbl_sub_def dbl_gt_def power2_eq_square)
next
  case False
  then have "min \<bar>s - m\<bar> 0.3 = \<bar>s - m\<bar>" by simp
  then show ?thesis using False
    by (simp add: beam_error_def dbl_sub_def dbl_gt_def power2_eq_square)
qed

lemma capped_square_le: "(min \<bar>d\<bar> 0.3)\<^sup>2 \<le> (0.09 :: real)"
proof -
  have "0 \<le> min \<bar>d\<bar> 0.3" "min \<bar>d\<bar> 0.3 \<le> (0.3::real)" by simp_all
  then have "(min \<bar>d\<bar> 0.3)\<^sup>2 \<le> (0.3::real)\<^sup>2" by (rule power_mono[rotated])
  then show ?thesis by (simp add: power2_eq_square)
qed

lemma beam_error_infinite:
  "beam_error PInf (Fin m) = Fin 0.09" "beam_error NInf (Fin m) = Fin 0.09"
  by (simp_all add: beam_error_def dbl_sub_def dbl_gt_def)

lemma beam_error_bounded:
  assumes "sr \<noteq> NaN"
  shows "\<exists>e. beam_error sr (Fin m) = Fin e \<and> 0 \<le> e \<and> e \<le> 0.09"
proof (cases sr)
  case (Fin s)
  then show ?thesis using capped_square_le[of "s - m"] by (simp add: beam_error_finite)
next
  case PInf
  have "beam_error PInf (Fin m) = Fin 0.09 \<and> (0::real) \<le> 0.09 \<and> (0.09::real) \<le> 0.09"
    by (simp add: beam_error_infinite)
  then show ?thesis unfolding PInf by (rule exI)
next
  case NInf
  have "beam_error NInf (Fin m) = Fin 0.09 \<and> (0::real) \<le> 0.09 \<and> (0.09::real) \<le> 0.09"
    by (simp add: beam_error_infinite)
  then show ?thesis unfolding NInf by (rule exI)
next
  case NaN
  then show ?thesis using assms by simp
qed

lemma beam_error_never_above_cap: "\<not> dbl_gt (beam_error sr mr) (Fin 0.09)"
proof (cases "dbl_gt (dbl_abs (dbl_sub sr mr)) (Fin 0.3)")
  case True
  then show ?thesis by (simp add: beam_error_def dbl_gt_def)
next
  case False
  show ?thesis
  proof (cases "dbl_sub sr mr")
    case (Fin d)
    with False have "\<bar>d\<bar> \<le> 0.3" by (simp add: dbl_gt_def)
    then have "min \<bar>d\<bar> 0.3 = \<bar>d\<bar>" by simp
    with capped_square_le[of d] have "d * d \<le> 0.09" by (simp add: power2_eq_square)
    then show ?thesis using False Fin by (simp add: beam_error_def dbl_gt_def)
  qed (use False in \<open>simp_all add: beam_error_def dbl_gt_def\<close>)
qed


lemma is_fin_iff: "(case x of Fin v \<Rightarrow> True | _ \<Rightarrow> False) = (\<exists>v. x = Fin v)"
  by (cases x) simp_all

lemma finite_ranges_nth:
  "finite_ranges xs \<Longrightarrow> i < length xs \<Longrightarrow> \<exists>v. xs ! i = Fin v"
  by (simp add: finite_ranges_def list_all_length is_fin_iff)

lemma finite_ranges_replicate: "finite_ranges (replicate n (Fin 0))"
  by (simp add: finite_ranges_def list_all_length)

lemma model_ranges_ok:
  assumes "renders_in_place rl"
  shows "length (model_ranges rl l tf lines n) = n \<and> finite_ranges (model_ranges rl l tf lines n)"
proof -
  have "length (foldl (\<lambda>mr (p1, p2). rl l (transform2_apply tf p1) (transform2_apply tf p2) mr) acc lines) = length acc
        \<and> (finite_ranges acc \<longrightarrow> finite_ranges (foldl (\<lambda>mr (p1, p2). rl l (transform2_apply tf p1) (transform2_apply tf p2) mr) acc lines))"
    for acc
  proof (induction lines arbitrary: acc)
    case Nil
    show ?case by simp
  next
    case (Cons ln lines)
    obtain p1 p2 where ln: "ln = (p1, p2)" by (cases ln)
    from assms have step: "length (rl l (transform2_apply tf p1) (transform2_apply tf p2) acc) = length acc"
      "finite_ranges acc \<longrightarrow> finite_ranges (rl l (transform2_apply tf p1) (transform2_apply tf p2) acc)"
      by (simp_all add: renders_in_place_def)
    show ?case using Cons.IH[of "rl l (transform2_apply tf p1) (transform2_apply tf p2) acc"] step
      by (simp add: ln)
  qed
  from this[of "replicate n (Fin 0)"] show ?thesis
    by (simp add: model_ranges_def finite_ranges_replicate)
qed

lemma error_loop_bounded:
  assumes "NaN \<notin> set srs" "finite_ranges mrs" "length mrs = length srs"
    and "\<forall>i\<in>set idx. i < length srs"
  shows "\<exists>v. error_loop srs mrs idx (Fin a) = Some (Fin v) \<and> a \<le> v \<and> v \<le> a + 0.09 * real (length idx)"
  using assms(4)
proof (induction idx arbitrary: a)
  case Nil
  show ?case by simp
next
  case (Cons i idx)
  then have i: "i < length srs" by simp
  then have "srs ! i \<noteq> NaN" using assms(1) by (metis nth_mem)
  moreover obtain m where m: "mrs ! i = Fin m" using finite_ranges_nth[OF assms(2)] i assms(3) by auto
  ultimately obtain e where e: "beam_error (srs ! i) (mrs ! i) = Fin e" "0 \<le> e" "e \<le> 0.09"
    using beam_error_bounded[of "srs ! i" m] by auto
  from Cons have "\<forall>i\<in>set idx. i < length srs" by simp
  from Cons.IH[OF this, of "a + e"] obtain v where
    v: "error_loop srs mrs idx (Fin (a + e)) = Some (Fin v)" "a + e \<le> v"
       "v \<le> a + e + 0.09 * real (length idx)" by blast
  have "error_loop srs mrs (i # idx) (Fin a) = Some (Fin v)"
    using i assms(3) e(1) v(1) by simp
  moreover have "a \<le> v" using v(2) e(2) by linarith
  moreover have "v \<le> a + 0.09 * real (length (i # idx))"
  proof -
    have "real (length (i # idx)) = 1 + real (length idx)" by simp
    then show ?thesis using v(3) e(3) by (simp only:) (simp add: field_simps)
  qed
  ultimately show ?case by blast
qed

lemma sample_error_bounded:
  assumes "renders_in_place rl" "NaN \<notin> set srs"
  shows "\<exists>v. sample_error rl l lines srs p = Some (Fin v) \<and> 0 \<le> v \<and> v \<le> 0.09 * real (length srs)"
proof -
  let ?mrs = "model_ranges rl l (sample_transform p) lines (length srs)"
  have "length ?mrs = length srs" "finite_ranges ?mrs"
    using model_ranges_ok[OF assms(1)] by simp_all
  from error_loop_bounded[OF assms(2) this(2) this(1), of "[0..<length srs]" 0]
  show ?thesis by (simp add: sample_error_def sum_sq_error_def)
qed

subsection \<open>The search for the lowest error\<close>

lemma find_best_frame:
  "find_best rl lines srs poses (m, st) = Some (m', st') \<Longrightarrow>
     have_previous_pose st' = have_previous_pose st \<and> previous_pose st' = previous_pose st
     \<and> lrf st' = lrf st \<and> (pose_initialized st \<longrightarrow> pose_initialized st')"
proof (induction poses arbitrary: m st)
  case Nil
  then show ?case by simp
next
  case (Cons p poses)
  from Cons.prems obtain e where e: "sample_error rl (lrf st) lines srs p = Some e"
    by (cases "sample_error rl (lrf st) lines srs p") simp_all
  show ?case
  proof (cases "dbl_lt e m")
    case True
    with Cons.prems e have
      "find_best rl lines srs poses (e, st\<lparr>best_laser_pose := p, pose_initialized := True\<rparr>) = Some (m', st')"
      by simp
    from Cons.IH[OF this] show ?thesis by simp
  next
    case False
    with Cons.prems e have "find_best rl lines srs poses (m, st) = Some (m', st')" by simp
    from Cons.IH[OF this] show ?thesis .
  qed
qed

lemma find_best_first_minimum:
  assumes "\<forall>p\<in>set poses. sample_error rl (lrf st) lines srs p = Some (Fin (g p))"
  shows "\<exists>m' st'. find_best rl lines srs poses (Fin m, st) = Some (Fin m', st') \<and>
           ((\<forall>p\<in>set poses. \<not> g p < m) \<and> m' = m \<and> st' = st
            \<or> (\<exists>k<length poses. m' = g (poses ! k) \<and> m' < m
                  \<and> (\<forall>j<length poses. m' \<le> g (poses ! j))
                  \<and> (\<forall>j<k. m' < g (poses ! j))
                  \<and> st' = st\<lparr>best_laser_pose := poses ! k, pose_initialized := True\<rparr>))"
  using assms
proof (induction poses arbitrary: m st)
  case Nil
  show ?case by simp
next
  case (Cons p poses)
  have ep: "sample_error rl (lrf st) lines srs p = Some (Fin (g p))" using Cons.prems by simp
  show ?case
  proof (cases "g p < m")
    case True
    let ?st2 = "st\<lparr>best_laser_pose := p, pose_initialized := True\<rparr>"
    have step: "find_best rl lines srs (p # poses) (Fin m, st)
                  = find_best rl lines srs poses (Fin (g p), ?st2)"
      using ep True by simp
    have "\<forall>q\<in>set poses. sample_error rl (lrf ?st2) lines srs q = Some (Fin (g q))"
      using Cons.prems by simp
    from Cons.IH[OF this, of "g p"] obtain m' st' where
      r: "find_best rl lines srs poses (Fin (g p), ?st2) = Some (Fin m', st')"
      and d: "(\<forall>q\<in>set poses. \<not> g q < g p) \<and> m' = g p \<and> st' = ?st2
            \<or> (\<exists>k<length poses. m' = g (poses ! k) \<and> m' < g p
                  \<and> (\<forall>j<length poses. m' \<le> g (poses ! j))
                  \<and> (\<forall>j<k. m' < g (poses ! j))
                  \<and> st' = ?st2\<lparr>best_laser_pose := poses ! k, pose_initialized := True\<rparr>)"
      by blast
    from d have "\<exists>k<length (p # poses). m' = g ((p # poses) ! k) \<and> m' < m
                  \<and> (\<forall>j<length (p # poses). m' \<le> g ((p # poses) ! j))
                  \<and> (\<forall>j<k. m' < g ((p # poses) ! j))
                  \<and> st' = st\<lparr>best_laser_pose := (p # poses) ! k, pose_initialized := True\<rparr>"
    proof
      assume a: "(\<forall>q\<in>set poses. \<not> g q < g p) \<and> m' = g p \<and> st' = ?st2"
      have "\<forall>j<length (p # poses). m' \<le> g ((p # poses) ! j)"
      proof (intro allI impI)
        fix j assume "j < length (p # poses)"
        then show "m' \<le> g ((p # poses) ! j)" using a by (cases j) (auto simp: not_less)
      qed
      then show ?thesis using a True by (intro exI[of _ 0]) simp
    next
      assume "\<exists>k<length poses. m' = g (poses ! k) \<and> m' < g p
                  \<and> (\<forall>j<length poses. m' \<le> g (poses ! j))
                  \<and> (\<forall>j<k. m' < g (poses ! j))
                  \<and> st' = ?st2\<lparr>best_laser_pose := poses ! k, pose_initialized := True\<rparr>"
      then obtain k where k: "k < length poses" "m' = g (poses ! k)" "m' < g p"
        "\<forall>j<length poses. m' \<le> g (poses ! j)" "\<forall>j<k. m' < g (poses ! j)"
        "st' = ?st2\<lparr>best_laser_pose := poses ! k, pose_initialized := True\<rparr>" by blast
      have 1: "\<forall>j<length (p # poses). m' \<le> g ((p # poses) ! j)"
      proof (intro allI impI)
        fix j assume "j < length (p # poses)"
        then show "m' \<le> g ((p # poses) ! j)" using k(3,4) by (cases j) auto
      qed
      have 2: "\<forall>j<Suc k. m' < g ((p # poses) ! j)"
      proof (intro allI impI)
        fix j assume "j < Suc k"
        then show "m' < g ((p # poses) ! j)" using k(3,5) by (cases j) auto
      qed
      show ?thesis using k(1,2,3,6) True 1 2 by (intro exI[of _ "Suc k"]) simp
    qed
    then show ?thesis using step r by simp
  next
    case False
    have step: "find_best rl lines srs (p # poses) (Fin m, st) = find_best rl lines srs poses (Fin m, st)"
      using ep False by simp
    have "\<forall>q\<in>set poses. sample_error rl (lrf st) lines srs q = Some (Fin (g q))"
      using Cons.prems by simp
    from Cons.IH[OF this, of m] obtain m' st' where
      r: "find_best rl lines srs poses (Fin m, st) = Some (Fin m', st')"
      and d: "(\<forall>q\<in>set poses. \<not> g q < m) \<and> m' = m \<and> st' = st
            \<or> (\<exists>k<length poses. m' = g (poses ! k) \<and> m' < m
                  \<and> (\<forall>j<length poses. m' \<le> g (poses ! j))
                  \<and> (\<forall>j<k. m' < g (poses ! j))
                  \<and> st' = st\<lparr>best_laser_pose := poses ! k, pose_initialized := True\<rparr>)"
      by blast
    from d have "(\<forall>q\<in>set (p # poses). \<not> g q < m) \<and> m' = m \<and> st' = st
            \<or> (\<exists>k<length (p # poses). m' = g ((p # poses) ! k) \<and> m' < m
                  \<and> (\<forall>j<length (p # poses). m' \<le> g ((p # poses) ! j))
                  \<and> (\<forall>j<k. m' < g ((p # poses) ! j))
                  \<and> st' = st\<lparr>best_laser_pose := (p # poses) ! k, pose_initialized := True\<rparr>)"
    proof
      assume "(\<forall>q\<in>set poses. \<not> g q < m) \<and> m' = m \<and> st' = st"
      then show ?thesis using False by simp
    next
      assume "\<exists>k<length poses. m' = g (poses ! k) \<and> m' < m
                  \<and> (\<forall>j<length poses. m' \<le> g (poses ! j))
                  \<and> (\<forall>j<k. m' < g (poses ! j))
                  \<and> st' = st\<lparr>best_laser_pose := poses ! k, pose_initialized := True\<rparr>"
      then obtain k where k: "k < length poses" "m' = g (poses ! k)" "m' < m"
        "\<forall>j<length poses. m' \<le> g (poses ! j)" "\<forall>j<k. m' < g (poses ! j)"
        "st' = st\<lparr>best_laser_pose := poses ! k, pose_initialized := True\<rparr>" by blast
      have mp: "m' < g p" using k(3) False by linarith
      have 1: "\<forall>j<length (p # poses). m' \<le> g ((p # poses) ! j)"
      proof (intro allI impI)
        fix j assume "j < length (p # poses)"
        then show "m' \<le> g ((p # poses) ! j)" using mp k(4) by (cases j) auto
      qed
      have 2: "\<forall>j<Suc k. m' < g ((p # poses) ! j)"
      proof (intro allI impI)
        fix j assume "j < Suc k"
        then show "m' < g ((p # poses) ! j)" using mp k(5) by (cases j) auto
      qed
      have "\<exists>k<length (p # poses). m' = g ((p # poses) ! k) \<and> m' < m
                  \<and> (\<forall>j<length (p # poses). m' \<le> g ((p # poses) ! j))
                  \<and> (\<forall>j<k. m' < g ((p # poses) ! j))
                  \<and> st' = st\<lparr>best_laser_pose := (p # poses) ! k, pose_initialized := True\<rparr>"
        using k(1,2,3,6) 1 2 by (intro exI[of _ "Suc k"]) simp
      then show ?thesis by blast
    qed
    then show ?thesis using step r by simp
  qed
qed

subsection \<open>Claims about the sensor ranges\<close>

lemma subsample_length:
  assumes "100 \<le> length (ranges msg)" "length (ranges msg) + length (ranges msg) div 100 \<le> 2 ^ 32"
  shows "\<exists>srs. subsample msg = Some srs \<and>
          length srs = (length (ranges msg) + length (ranges msg) div 100 - 1) div (length (ranges msg) div 100)"
proof -
  have "0 < length (ranges msg) div 100" using assms(1) by (simp add: div_greater_zero_iff)
  from subsample_loop_no_wrap[OF this assms(2), of 0 "[]"] show ?thesis
    by (simp add: subsample_def i_step_of_def)
qed

lemma subsample_1000_beams:
  "map_option length (subsample (flat_scan 1000)) = Some 100 \<and> i_step_of (flat_scan 1000) = 10"
proof -
  have s: "i_step_of (flat_scan 1000) = 10" by (simp add: i_step_of_def flat_scan_def)
  have "subsample_loop (flat_scan 1000) 10 0 [] =
     Some ([] @ map (\<lambda>j. check_range (ranges (flat_scan 1000) ! (0 + j * 10)) (range_max (flat_scan 1000)))
                   [0..<(length (ranges (flat_scan 1000)) - 0 + 10 - 1) div 10])"
    by (rule subsample_loop_no_wrap) (simp_all add: flat_scan_def)
  moreover have "(length (ranges (flat_scan 1000)) - 0 + 10 - 1) div 10 = 100"
    by (simp add: flat_scan_def)
  ultimately show ?thesis using s by (simp add: subsample_def)
qed

text \<open>
  C2. The number of beams kept for scoring is not capped at 100: a scan of 199 readings
  has stride \<open>199 / 100 = 1\<close> and keeps all 199. For a scan of fewer than 100 readings
  the stride is 0, not 1, and the loop never ends. (A scan of 1000 readings does give
  100 beams with stride 10, see \<open>subsample_1000_beams\<close>.)
\<close>

theorem subsample_beam_count_exceeds_limit:
  "map_option length (subsample (flat_scan 199)) = Some 199
   \<and> i_step_of (flat_scan 199) = 1
   \<and> i_step_of (flat_scan 50) = 0
   \<and> subsample (flat_scan 50) = None"
proof -
  have s: "i_step_of (flat_scan 199) = 1" by (simp add: i_step_of_def flat_scan_def)
  have "subsample_loop (flat_scan 199) 1 0 [] =
     Some ([] @ map (\<lambda>j. check_range (ranges (flat_scan 199) ! (0 + j * 1)) (range_max (flat_scan 199)))
                   [0..<(length (ranges (flat_scan 199)) - 0 + 1 - 1) div 1])"
    by (rule subsample_loop_no_wrap) (simp_all add: flat_scan_def)
  moreover have "(length (ranges (flat_scan 199)) - 0 + 1 - 1) div 1 = 199"
    by (simp add: flat_scan_def)
  ultimately have a: "map_option length (subsample (flat_scan 199)) = Some 199"
    using s by (simp add: subsample_def)
  have b: "i_step_of (flat_scan 50) = 0" by (simp add: i_step_of_def flat_scan_def)
  have c: "subsample (flat_scan 50) = None"
    by (rule subsample_short_scan) (simp_all add: flat_scan_def)
  show ?thesis using a s b c by simp
qed

text \<open>
  C3. A cycle does not always terminate: with a scan of 50 readings the stride is 0, the
  loop counter never advances, and the cycle never returns, whatever the state, the
  odometry and the world are.
\<close>

theorem short_scan_cycle_diverges:
  "process render_line st \<lparr>laser_msg = Some (flat_scan 50), odom_msg = od, world_lines = lines\<rparr>
     = Diverges"
proof -
  have "subsample (flat_scan 50) = None"
    by (rule subsample_short_scan) (simp_all add: flat_scan_def)
  then show ?thesis by (simp add: process_def Let_def split: option.splits)
qed

text \<open>
  C4. A reading of minus infinity is not replaced by 0: it is not NaN and it is not above
  \<open>range_max\<close>, so it enters the sensor ranges as it is.
\<close>

theorem negative_infinity_passes_check:
  "check_range NInf (Fin 30) = NInf
   \<and> subsample ((flat_scan 100)\<lparr>ranges := replicate 100 NInf\<rparr>) = Some (replicate 100 NInf)"
proof -
  let ?msg = "(flat_scan 100)\<lparr>ranges := replicate 100 NInf\<rparr>"
  have a: "check_range NInf (Fin 30) = NInf" by (simp add: check_range_def dbl_gt_def)
  have s: "i_step_of ?msg = 1" by (simp add: i_step_of_def flat_scan_def)
  have "subsample_loop ?msg 1 0 [] =
     Some ([] @ map (\<lambda>j. check_range (ranges ?msg ! (0 + j * 1)) (range_max ?msg))
                   [0..<(length (ranges ?msg) - 0 + 1 - 1) div 1])"
    by (rule subsample_loop_no_wrap) (simp_all add: flat_scan_def)
  moreover have "(length (ranges ?msg) - 0 + 1 - 1) div 1 = 100"
    by (simp add: flat_scan_def)
  moreover have "map (\<lambda>j. check_range (ranges ?msg ! (0 + j * 1)) (range_max ?msg)) [0..<100]
                   = replicate 100 NInf"
    by (rule nth_equalityI) (simp_all add: flat_scan_def a)
  ultimately have "subsample ?msg = Some (replicate 100 NInf)"
    using s by (simp add: subsample_def)
  with a show ?thesis by simp
qed

subsection \<open>Model ranges and motion integration\<close>

lemma make_pose_no_yaw:
  "make_pose x y 0 = Pose3D (Matrix3 1 0 0 0 1 0 0 0 1) (Vector3 x y 0)"
  by (simp add: make_pose_def setRPY_def)

lemma foldl_keeps_beam:
  assumes "\<forall>ln\<in>set lines. \<forall>mr. f mr ln ! i = mr ! i"
  shows "foldl f acc lines ! i = acc ! i"
  using assms by (induction lines arbitrary: acc) simp_all

text \<open>
  C1 (as amended). The model ranges of a sample start as zeros, and a beam that no line's
  rendering changes keeps the value 0, not \<open>range_max\<close>. "No line's rendering changes
  beam \<open>i\<close>" is what "beam \<open>i\<close> intersects no segment" means for the renderer.
\<close>

theorem untouched_beam_has_model_range_zero:
  assumes "i < n"
    and "\<forall>(p1, p2)\<in>set lines. \<forall>mr.
           render_line l (transform2_apply tf p1) (transform2_apply tf p2) mr ! i = mr ! i"
  shows "model_ranges render_line l tf lines n ! i = Fin 0"
proof -
  have "\<forall>ln\<in>set lines. \<forall>mr.
          (\<lambda>mr (p1, p2). render_line l (transform2_apply tf p1) (transform2_apply tf p2) mr) mr ln ! i
            = mr ! i"
    using assms(2) by auto
  from foldl_keeps_beam[OF this, of "replicate n (Fin 0)"] show ?thesis
    using assms(1) by (simp add: model_ranges_def)
qed

text \<open>With the example renderer, which writes beam 0 only, beam 2 of four stays 0.\<close>

theorem untouched_beam_has_model_range_zero_witness:
  "model_ranges beam0_renderer example_lrf (sample_transform (make_pose 3 0 0))
     [(Vec2 (-1) 1, Vec2 1 1)] 4 ! 2 = Fin 0
   \<and> model_ranges beam0_renderer example_lrf (sample_transform (make_pose 3 0 0))
     [(Vec2 (-1) 1, Vec2 1 1)] 4 ! 0 = Fin 4"
proof -
  have h1: "(2::nat) < 4" by simp
  have h2: "\<forall>(p1, p2)\<in>set [(Vec2 (-1) 1, Vec2 1 1)]. \<forall>mr.
           beam0_renderer example_lrf (transform2_apply (sample_transform (make_pose 3 0 0)) p1)
             (transform2_apply (sample_transform (make_pose 3 0 0)) p2) mr ! 2 = mr ! 2"
    by (simp add: beam0_renderer_def)
  have "model_ranges beam0_renderer example_lrf (sample_transform (make_pose 3 0 0))
     [(Vec2 (-1) 1, Vec2 1 1)] 4 ! 0 = Fin 4"
    by (simp add: model_ranges_def beam0_renderer_def sample_transform_def make_pose_no_yaw)
  then show ?thesis
    using untouched_beam_has_model_range_zero[where i = 2 and n = 4 and render_line = beam0_renderer
        and l = example_lrf and tf = "sample_transform (make_pose 3 0 0)"
        and lines = "[(Vec2 (-1) 1, Vec2 1 1)]", OF h1 h2]
    by simp
qed

text \<open>
  With an empty cross-section no beam intersects a segment, and the model range of beam 2
  is 0 while \<open>range_max\<close> is 30.
\<close>

theorem no_hit_is_not_range_max_counterexample:
  "\<not> (model_ranges beam0_renderer example_lrf (sample_transform (make_pose 3 0 0)) [] 4 ! 2
        = lrf_range_max example_lrf)"
  by (simp add: model_ranges_def example_lrf_def)

text \<open>
  C5. Motion integration: with a previous odometry pose \<open>P0\<close> stored and the estimate
  initialized, the best pose becomes \<open>(P1 * inverse(P0)) * B\<close>; without a stored
  previous pose it is unchanged; in every case \<open>P1\<close> becomes the stored previous pose.
\<close>

theorem odom_update_motion:
  "(have_previous_pose st \<and> pose_initialized st \<longrightarrow>
      best_laser_pose (odom_update st new_pose)
        = pose_mul (pose_mul new_pose (pose_inverse (previous_pose st))) (best_laser_pose st))
   \<and> (\<not> have_previous_pose st \<longrightarrow>
      best_laser_pose (odom_update st new_pose) = best_laser_pose st)
   \<and> previous_pose (odom_update st new_pose) = new_pose
   \<and> have_previous_pose (odom_update st new_pose)
   \<and> pose_initialized (odom_update st new_pose) = pose_initialized st"
  by (simp add: odom_update_def Let_def)

text \<open>
  For \<open>P0 = pose(0,0,0)\<close>, \<open>P1 = pose(1,0,0)\<close> and \<open>B = pose(2,0,0)\<close> the predicted pose is
  \<open>pose(3,0,0)\<close>; on the first observation \<open>B\<close> stays and \<open>P1\<close> is stored.
\<close>

theorem odom_update_motion_witness:
  "best_laser_pose (odom_update
      \<lparr>pose_initialized = True, have_previous_pose = True, previous_pose = make_pose 0 0 0,
       best_laser_pose = make_pose 2 0 0, lrf = example_lrf\<rparr> (make_pose 1 0 0))
     = make_pose 3 0 0
   \<and> best_laser_pose (odom_update
      \<lparr>pose_initialized = False, have_previous_pose = False, previous_pose = make_pose 0 0 0,
       best_laser_pose = make_pose 2 0 0, lrf = example_lrf\<rparr> (make_pose 1 0 0))
     = make_pose 2 0 0
   \<and> previous_pose (odom_update
      \<lparr>pose_initialized = False, have_previous_pose = False, previous_pose = make_pose 0 0 0,
       best_laser_pose = make_pose 2 0 0, lrf = example_lrf\<rparr> (make_pose 1 0 0))
     = make_pose 1 0 0"
  using odom_update_motion[of "\<lparr>pose_initialized = True, have_previous_pose = True,
       previous_pose = make_pose 0 0 0, best_laser_pose = make_pose 2 0 0, lrf = example_lrf\<rparr>"
       "make_pose 1 0 0"]
    odom_update_motion[of "\<lparr>pose_initialized = False, have_previous_pose = False,
       previous_pose = make_pose 0 0 0, best_laser_pose = make_pose 2 0 0, lrf = example_lrf\<rparr>"
       "make_pose 1 0 0"]
  by (simp add: make_pose_no_yaw)

subsection \<open>Rounding to doubles\<close>

lemma round_half_even_eq:
  assumes "\<bar>q - of_int n\<bar> < 1 / 2 \<or> (\<bar>q - of_int n\<bar> = 1 / 2 \<and> even n)"
  shows "round_half_even q = n"
proof -
  have fl: "of_int \<lfloor>q\<rfloor> \<le> q" "q < of_int \<lfloor>q\<rfloor> + 1" by linarith+
  from assms show ?thesis
  proof
    assume a: "\<bar>q - of_int n\<bar> < 1 / 2"
    show ?thesis
    proof (cases "q - of_int \<lfloor>q\<rfloor> < 1 / 2")
      case True
      have "of_int n < q + 1 / 2" "q - 1 / 2 < of_int n" using a by linarith+
      with True fl have "real_of_int n < of_int \<lfloor>q\<rfloor> + 1" "real_of_int \<lfloor>q\<rfloor> - 1 < of_int n"
        by linarith+
      then have "n < \<lfloor>q\<rfloor> + 1" "\<lfloor>q\<rfloor> - 1 < n" by linarith+
      then have "n = \<lfloor>q\<rfloor>" by linarith
      with True show ?thesis by (simp add: round_half_even_def Let_def)
    next
      case False
      have "of_int n < q + 1 / 2" "q - 1 / 2 < of_int n" using a by linarith+
      with False fl have "real_of_int n < of_int \<lfloor>q\<rfloor> + 2" "real_of_int \<lfloor>q\<rfloor> < of_int n"
        by linarith+
      then have "n < \<lfloor>q\<rfloor> + 2" "\<lfloor>q\<rfloor> < n" by linarith+
      then have n: "n = \<lfloor>q\<rfloor> + 1" by linarith
      have "q - of_int \<lfloor>q\<rfloor> \<noteq> 1 / 2" using a n by auto
      with False have "1 / 2 < q - of_int \<lfloor>q\<rfloor>" by linarith
      with False n show ?thesis by (simp add: round_half_even_def Let_def)
    qed
  next
    assume a: "\<bar>q - of_int n\<bar> = 1 / 2 \<and> even n"
    then have "q = of_int n + 1 / 2 \<or> q = of_int n - 1 / 2" by linarith
    then show ?thesis
    proof
      assume q: "q = of_int n + 1 / 2"
      then have "\<lfloor>q\<rfloor> = n" by linarith
      with q a show ?thesis by (simp add: round_half_even_def Let_def)
    next
      assume q: "q = of_int n - 1 / 2"
      then have f: "\<lfloor>q\<rfloor> = n - 1" by linarith
      then have "q - of_int \<lfloor>q\<rfloor> = 1 / 2" using q by simp
      moreover have "odd \<lfloor>q\<rfloor>" using f a by simp
      ultimately show ?thesis using f by (simp add: round_half_even_def Let_def)
    qed
  qed
qed

text \<open>How to evaluate a rounding: give the exponent \<open>e\<close> and the significand \<open>n\<close>.\<close>

lemma round_to_double_eq:
  assumes "2 powi e \<le> \<bar>x\<bar>" and "\<bar>x\<bar> < 2 powi (e + 1)" and "- 1022 \<le> e"
    and "\<bar>x / 2 powi (e - 52) - of_int n\<bar> < 1 / 2
         \<or> (\<bar>x / 2 powi (e - 52) - of_int n\<bar> = 1 / 2 \<and> even n)"
  shows "round_to_double x = of_int n * 2 powi (e - 52)"
proof -
  have "0 < (2::real) powi e" by simp
  with assms(1) have pos: "0 < \<bar>x\<bar>" by linarith
  then have nz: "x \<noteq> 0" by simp
  have p: "(2::real) powr (of_int k) = 2 powi k" for k :: int
    by (simp add: powr_real_of_int')
  have "(2::real) powr (of_int e) \<le> \<bar>x\<bar>" "\<bar>x\<bar> < 2 powr (of_int (e + 1))"
    using assms(1,2) by (simp_all only: p)
  then have "of_int e \<le> log 2 \<bar>x\<bar>" "log 2 \<bar>x\<bar> < of_int (e + 1)"
    using pos by (simp_all only: le_log_iff[OF _ pos] log_less_iff[OF _ pos])
  then have "\<lfloor>log 2 \<bar>x\<bar>\<rfloor> = e" by linarith
  then have "max \<lfloor>log 2 \<bar>x\<bar>\<rfloor> (- 1022) = e" using assms(3) by simp
  then show ?thesis using nz round_half_even_eq[OF assms(4)]
    by (simp add: round_to_double_def Let_def)
qed

subsection \<open>The values of the loop variables\<close>

lemma double_0_1:
  "round_to_double (0.1)
     = 3602879701896397 / 36028797018963968"
proof -
  have "round_to_double (0.1)
          = of_int 7205759403792794 * 2 powi (- 4 - 52)"
    by (rule round_to_double_eq) simp_all
  then show ?thesis by simp
qed

lemma double_0_2:
  "round_to_double (0.2)
     = 3602879701896397 / 18014398509481984"
proof -
  have "round_to_double (0.2)
          = of_int 7205759403792794 * 2 powi (- 3 - 52)"
    by (rule round_to_double_eq) simp_all
  then show ?thesis by simp
qed

lemma double_0_3:
  "round_to_double (0.3)
     = 5404319552844595 / 18014398509481984"
proof -
  have "round_to_double (0.3)
          = of_int 5404319552844595 * 2 powi (- 2 - 52)"
    by (rule round_to_double_eq) simp_all
  then show ?thesis by simp
qed

lemma double_6_28:
  "round_to_double (6.28)
     = 7070651414971679 / 1125899906842624"
proof -
  have "round_to_double (6.28)
          = of_int 7070651414971679 * 2 powi (2 - 52)"
    by (rule round_to_double_eq) simp_all
  then show ?thesis by simp
qed

lemma window_offsets_step_0:
  "round_to_double (- (5404319552844595 / 18014398509481984) + 3602879701896397 / 36028797018963968)
     = - (7205759403792793 / 36028797018963968)"
proof -
  have "round_to_double (- (5404319552844595 / 18014398509481984) + 3602879701896397 / 36028797018963968)
          = of_int (- 7205759403792793) * 2 powi (- 3 - 52)"
    by (rule round_to_double_eq) simp_all
  then show ?thesis by simp
qed

lemma window_offsets_step_1:
  "round_to_double (- (7205759403792793 / 36028797018963968) + 3602879701896397 / 36028797018963968)
     = - (900719925474099 / 9007199254740992)"
proof -
  have "round_to_double (- (7205759403792793 / 36028797018963968) + 3602879701896397 / 36028797018963968)
          = of_int (- 7205759403792792) * 2 powi (- 4 - 52)"
    by (rule round_to_double_eq) simp_all
  then show ?thesis by simp
qed

lemma window_offsets_step_2:
  "round_to_double (- (900719925474099 / 9007199254740992) + 3602879701896397 / 36028797018963968)
     = 1 / 36028797018963968"
proof -
  have "round_to_double (- (900719925474099 / 9007199254740992) + 3602879701896397 / 36028797018963968)
          = of_int 4503599627370496 * 2 powi (- 55 - 52)"
    by (rule round_to_double_eq) simp_all
  then show ?thesis by simp
qed

lemma window_offsets_step_3:
  "round_to_double (1 / 36028797018963968 + 3602879701896397 / 36028797018963968)
     = 1801439850948199 / 18014398509481984"
proof -
  have "round_to_double (1 / 36028797018963968 + 3602879701896397 / 36028797018963968)
          = of_int 7205759403792796 * 2 powi (- 4 - 52)"
    by (rule round_to_double_eq) simp_all
  then show ?thesis by simp
qed

lemma window_offsets_step_4:
  "round_to_double (1801439850948199 / 18014398509481984 + 3602879701896397 / 36028797018963968)
     = 7205759403792795 / 36028797018963968"
proof -
  have "round_to_double (1801439850948199 / 18014398509481984 + 3602879701896397 / 36028797018963968)
          = of_int 7205759403792795 * 2 powi (- 3 - 52)"
    by (rule round_to_double_eq) simp_all
  then show ?thesis by simp
qed

lemma window_offsets_step_5:
  "round_to_double (7205759403792795 / 36028797018963968 + 3602879701896397 / 36028797018963968)
     = 1351079888211149 / 4503599627370496"
proof -
  have "round_to_double (7205759403792795 / 36028797018963968 + 3602879701896397 / 36028797018963968)
          = of_int 5404319552844596 * 2 powi (- 2 - 52)"
    by (rule round_to_double_eq) simp_all
  then show ?thesis by simp
qed

lemma window_yaws_step_0:
  "round_to_double (- 1 + 3602879701896397 / 36028797018963968)
     = - (8106479329266893 / 9007199254740992)"
proof -
  have "round_to_double (- 1 + 3602879701896397 / 36028797018963968)
          = of_int (- 8106479329266893) * 2 powi (- 1 - 52)"
    by (rule round_to_double_eq) simp_all
  then show ?thesis by simp
qed

lemma window_yaws_step_1:
  "round_to_double (- (8106479329266893 / 9007199254740992) + 3602879701896397 / 36028797018963968)
     = - (3602879701896397 / 4503599627370496)"
proof -
  have "round_to_double (- (8106479329266893 / 9007199254740992) + 3602879701896397 / 36028797018963968)
          = of_int (- 7205759403792794) * 2 powi (- 1 - 52)"
    by (rule round_to_double_eq) simp_all
  then show ?thesis by simp
qed

lemma window_yaws_step_2:
  "round_to_double (- (3602879701896397 / 4503599627370496) + 3602879701896397 / 36028797018963968)
     = - (6305039478318695 / 9007199254740992)"
proof -
  have "round_to_double (- (3602879701896397 / 4503599627370496) + 3602879701896397 / 36028797018963968)
          = of_int (- 6305039478318695) * 2 powi (- 1 - 52)"
    by (rule round_to_double_eq) simp_all
  then show ?thesis by simp
qed

lemma window_yaws_step_3:
  "round_to_double (- (6305039478318695 / 9007199254740992) + 3602879701896397 / 36028797018963968)
     = - (1351079888211149 / 2251799813685248)"
proof -
  have "round_to_double (- (6305039478318695 / 9007199254740992) + 3602879701896397 / 36028797018963968)
          = of_int (- 5404319552844596) * 2 powi (- 1 - 52)"
    by (rule round_to_double_eq) simp_all
  then show ?thesis by simp
qed

lemma window_yaws_step_4:
  "round_to_double (- (1351079888211149 / 2251799813685248) + 3602879701896397 / 36028797018963968)
     = - (4503599627370497 / 9007199254740992)"
proof -
  have "round_to_double (- (1351079888211149 / 2251799813685248) + 3602879701896397 / 36028797018963968)
          = of_int (- 4503599627370497) * 2 powi (- 1 - 52)"
    by (rule round_to_double_eq) simp_all
  then show ?thesis by simp
qed

lemma window_yaws_step_5:
  "round_to_double (- (4503599627370497 / 9007199254740992) + 3602879701896397 / 36028797018963968)
     = - (1801439850948199 / 4503599627370496)"
proof -
  have "round_to_double (- (4503599627370497 / 9007199254740992) + 3602879701896397 / 36028797018963968)
          = of_int (- 7205759403792796) * 2 powi (- 2 - 52)"
    by (rule round_to_double_eq) simp_all
  then show ?thesis by simp
qed

lemma window_yaws_step_6:
  "round_to_double (- (1801439850948199 / 4503599627370496) + 3602879701896397 / 36028797018963968)
     = - (2702159776422299 / 9007199254740992)"
proof -
  have "round_to_double (- (1801439850948199 / 4503599627370496) + 3602879701896397 / 36028797018963968)
          = of_int (- 5404319552844598) * 2 powi (- 2 - 52)"
    by (rule round_to_double_eq) simp_all
  then show ?thesis by simp
qed

lemma window_yaws_step_7:
  "round_to_double (- (2702159776422299 / 9007199254740992) + 3602879701896397 / 36028797018963968)
     = - (7205759403792799 / 36028797018963968)"
proof -
  have "round_to_double (- (2702159776422299 / 9007199254740992) + 3602879701896397 / 36028797018963968)
          = of_int (- 7205759403792799) * 2 powi (- 3 - 52)"
    by (rule round_to_double_eq) simp_all
  then show ?thesis by simp
qed

lemma window_yaws_step_8:
  "round_to_double (- (7205759403792799 / 36028797018963968) + 3602879701896397 / 36028797018963968)
     = - (1801439850948201 / 18014398509481984)"
proof -
  have "round_to_double (- (7205759403792799 / 36028797018963968) + 3602879701896397 / 36028797018963968)
          = of_int (- 7205759403792804) * 2 powi (- 4 - 52)"
    by (rule round_to_double_eq) simp_all
  then show ?thesis by simp
qed

lemma window_yaws_step_9:
  "round_to_double (- (1801439850948201 / 18014398509481984) + 3602879701896397 / 36028797018963968)
     = - (5 / 36028797018963968)"
proof -
  have "round_to_double (- (1801439850948201 / 18014398509481984) + 3602879701896397 / 36028797018963968)
          = of_int (- 5629499534213120) * 2 powi (- 53 - 52)"
    by (rule round_to_double_eq) simp_all
  then show ?thesis by simp
qed

lemma window_yaws_step_10:
  "round_to_double (- (5 / 36028797018963968) + 3602879701896397 / 36028797018963968)
     = 450359962737049 / 4503599627370496"
proof -
  have "round_to_double (- (5 / 36028797018963968) + 3602879701896397 / 36028797018963968)
          = of_int 7205759403792784 * 2 powi (- 4 - 52)"
    by (rule round_to_double_eq) simp_all
  then show ?thesis by simp
qed

lemma window_yaws_step_11:
  "round_to_double (450359962737049 / 4503599627370496 + 3602879701896397 / 36028797018963968)
     = 7205759403792789 / 36028797018963968"
proof -
  have "round_to_double (450359962737049 / 4503599627370496 + 3602879701896397 / 36028797018963968)
          = of_int 7205759403792789 * 2 powi (- 3 - 52)"
    by (rule round_to_double_eq) simp_all
  then show ?thesis by simp
qed

lemma window_yaws_step_12:
  "round_to_double (7205759403792789 / 36028797018963968 + 3602879701896397 / 36028797018963968)
     = 5404319552844593 / 18014398509481984"
proof -
  have "round_to_double (7205759403792789 / 36028797018963968 + 3602879701896397 / 36028797018963968)
          = of_int 5404319552844593 * 2 powi (- 2 - 52)"
    by (rule round_to_double_eq) simp_all
  then show ?thesis by simp
qed

lemma window_yaws_step_13:
  "round_to_double (5404319552844593 / 18014398509481984 + 3602879701896397 / 36028797018963968)
     = 900719925474099 / 2251799813685248"
proof -
  have "round_to_double (5404319552844593 / 18014398509481984 + 3602879701896397 / 36028797018963968)
          = of_int 7205759403792792 * 2 powi (- 2 - 52)"
    by (rule round_to_double_eq) simp_all
  then show ?thesis by simp
qed

lemma window_yaws_step_14:
  "round_to_double (900719925474099 / 2251799813685248 + 3602879701896397 / 36028797018963968)
     = 4503599627370495 / 9007199254740992"
proof -
  have "round_to_double (900719925474099 / 2251799813685248 + 3602879701896397 / 36028797018963968)
          = of_int 9007199254740990 * 2 powi (- 2 - 52)"
    by (rule round_to_double_eq) simp_all
  then show ?thesis by simp
qed

lemma window_yaws_step_15:
  "round_to_double (4503599627370495 / 9007199254740992 + 3602879701896397 / 36028797018963968)
     = 2702159776422297 / 4503599627370496"
proof -
  have "round_to_double (4503599627370495 / 9007199254740992 + 3602879701896397 / 36028797018963968)
          = of_int 5404319552844594 * 2 powi (- 1 - 52)"
    by (rule round_to_double_eq) simp_all
  then show ?thesis by simp
qed

lemma window_yaws_step_16:
  "round_to_double (2702159776422297 / 4503599627370496 + 3602879701896397 / 36028797018963968)
     = 6305039478318693 / 9007199254740992"
proof -
  have "round_to_double (2702159776422297 / 4503599627370496 + 3602879701896397 / 36028797018963968)
          = of_int 6305039478318693 * 2 powi (- 1 - 52)"
    by (rule round_to_double_eq) simp_all
  then show ?thesis by simp
qed

lemma window_yaws_step_17:
  "round_to_double (6305039478318693 / 9007199254740992 + 3602879701896397 / 36028797018963968)
     = 900719925474099 / 1125899906842624"
proof -
  have "round_to_double (6305039478318693 / 9007199254740992 + 3602879701896397 / 36028797018963968)
          = of_int 7205759403792792 * 2 powi (- 1 - 52)"
    by (rule round_to_double_eq) simp_all
  then show ?thesis by simp
qed

lemma window_yaws_step_18:
  "round_to_double (900719925474099 / 1125899906842624 + 3602879701896397 / 36028797018963968)
     = 8106479329266891 / 9007199254740992"
proof -
  have "round_to_double (900719925474099 / 1125899906842624 + 3602879701896397 / 36028797018963968)
          = of_int 8106479329266891 * 2 powi (- 1 - 52)"
    by (rule round_to_double_eq) simp_all
  then show ?thesis by simp
qed

lemma window_yaws_step_19:
  "round_to_double (8106479329266891 / 9007199254740992 + 3602879701896397 / 36028797018963968)
     = 4503599627370495 / 4503599627370496"
proof -
  have "round_to_double (8106479329266891 / 9007199254740992 + 3602879701896397 / 36028797018963968)
          = of_int 9007199254740990 * 2 powi (- 1 - 52)"
    by (rule round_to_double_eq) simp_all
  then show ?thesis by simp
qed

lemma window_yaws_step_20:
  "round_to_double (4503599627370495 / 4503599627370496 + 3602879701896397 / 36028797018963968)
     = 4953959590107545 / 4503599627370496"
proof -
  have "round_to_double (4503599627370495 / 4503599627370496 + 3602879701896397 / 36028797018963968)
          = of_int 4953959590107545 * 2 powi (0 - 52)"
    by (rule round_to_double_eq) simp_all
  then show ?thesis by simp
qed

lemma global_coords_step_0:
  "round_to_double (- 5 + 3602879701896397 / 18014398509481984)
     = - (5404319552844595 / 1125899906842624)"
proof -
  have "round_to_double (- 5 + 3602879701896397 / 18014398509481984)
          = of_int (- 5404319552844595) * 2 powi (2 - 52)"
    by (rule round_to_double_eq) simp_all
  then show ?thesis by simp
qed

lemma global_coords_step_1:
  "round_to_double (- (5404319552844595 / 1125899906842624) + 3602879701896397 / 18014398509481984)
     = - (2589569785738035 / 562949953421312)"
proof -
  have "round_to_double (- (5404319552844595 / 1125899906842624) + 3602879701896397 / 18014398509481984)
          = of_int (- 5179139571476070) * 2 powi (2 - 52)"
    by (rule round_to_double_eq) simp_all
  then show ?thesis by simp
qed

lemma global_coords_step_2:
  "round_to_double (- (2589569785738035 / 562949953421312) + 3602879701896397 / 18014398509481984)
     = - (4953959590107545 / 1125899906842624)"
proof -
  have "round_to_double (- (2589569785738035 / 562949953421312) + 3602879701896397 / 18014398509481984)
          = of_int (- 4953959590107545) * 2 powi (2 - 52)"
    by (rule round_to_double_eq) simp_all
  then show ?thesis by simp
qed

lemma global_coords_step_3:
  "round_to_double (- (4953959590107545 / 1125899906842624) + 3602879701896397 / 18014398509481984)
     = - (1182194902184755 / 281474976710656)"
proof -
  have "round_to_double (- (4953959590107545 / 1125899906842624) + 3602879701896397 / 18014398509481984)
          = of_int (- 4728779608739020) * 2 powi (2 - 52)"
    by (rule round_to_double_eq) simp_all
  then show ?thesis by simp
qed

lemma global_coords_step_4:
  "round_to_double (- (1182194902184755 / 281474976710656) + 3602879701896397 / 18014398509481984)
     = - (4503599627370495 / 1125899906842624)"
proof -
  have "round_to_double (- (1182194902184755 / 281474976710656) + 3602879701896397 / 18014398509481984)
          = of_int (- 9007199254740990) * 2 powi (1 - 52)"
    by (rule round_to_double_eq) simp_all
  then show ?thesis by simp
qed

lemma global_coords_step_5:
  "round_to_double (- (4503599627370495 / 1125899906842624) + 3602879701896397 / 18014398509481984)
     = - (2139209823000985 / 562949953421312)"
proof -
  have "round_to_double (- (4503599627370495 / 1125899906842624) + 3602879701896397 / 18014398509481984)
          = of_int (- 8556839292003940) * 2 powi (1 - 52)"
    by (rule round_to_double_eq) simp_all
  then show ?thesis by simp
qed

lemma global_coords_step_6:
  "round_to_double (- (2139209823000985 / 562949953421312) + 3602879701896397 / 18014398509481984)
     = - (4053239664633445 / 1125899906842624)"
proof -
  have "round_to_double (- (2139209823000985 / 562949953421312) + 3602879701896397 / 18014398509481984)
          = of_int (- 8106479329266890) * 2 powi (1 - 52)"
    by (rule round_to_double_eq) simp_all
  then show ?thesis by simp
qed

lemma global_coords_step_7:
  "round_to_double (- (4053239664633445 / 1125899906842624) + 3602879701896397 / 18014398509481984)
     = - (478507460408115 / 140737488355328)"
proof -
  have "round_to_double (- (4053239664633445 / 1125899906842624) + 3602879701896397 / 18014398509481984)
          = of_int (- 7656119366529840) * 2 powi (1 - 52)"
    by (rule round_to_double_eq) simp_all
  then show ?thesis by simp
qed

lemma global_coords_step_8:
  "round_to_double (- (478507460408115 / 140737488355328) + 3602879701896397 / 18014398509481984)
     = - (3602879701896395 / 1125899906842624)"
proof -
  have "round_to_double (- (478507460408115 / 140737488355328) + 3602879701896397 / 18014398509481984)
          = of_int (- 7205759403792790) * 2 powi (1 - 52)"
    by (rule round_to_double_eq) simp_all
  then show ?thesis by simp
qed

lemma global_coords_step_9:
  "round_to_double (- (3602879701896395 / 1125899906842624) + 3602879701896397 / 18014398509481984)
     = - (1688849860263935 / 562949953421312)"
proof -
  have "round_to_double (- (3602879701896395 / 1125899906842624) + 3602879701896397 / 18014398509481984)
          = of_int (- 6755399441055740) * 2 powi (1 - 52)"
    by (rule round_to_double_eq) simp_all
  then show ?thesis by simp
qed

lemma global_coords_step_10:
  "round_to_double (- (1688849860263935 / 562949953421312) + 3602879701896397 / 18014398509481984)
     = - (3152519739159345 / 1125899906842624)"
proof -
  have "round_to_double (- (1688849860263935 / 562949953421312) + 3602879701896397 / 18014398509481984)
          = of_int (- 6305039478318690) * 2 powi (1 - 52)"
    by (rule round_to_double_eq) simp_all
  then show ?thesis by simp
qed

lemma global_coords_step_11:
  "round_to_double (- (3152519739159345 / 1125899906842624) + 3602879701896397 / 18014398509481984)
     = - (731834939447705 / 281474976710656)"
proof -
  have "round_to_double (- (3152519739159345 / 1125899906842624) + 3602879701896397 / 18014398509481984)
          = of_int (- 5854679515581640) * 2 powi (1 - 52)"
    by (rule round_to_double_eq) simp_all
  then show ?thesis by simp
qed

lemma global_coords_step_12:
  "round_to_double (- (731834939447705 / 281474976710656) + 3602879701896397 / 18014398509481984)
     = - (2702159776422295 / 1125899906842624)"
proof -
  have "round_to_double (- (731834939447705 / 281474976710656) + 3602879701896397 / 18014398509481984)
          = of_int (- 5404319552844590) * 2 powi (1 - 52)"
    by (rule round_to_double_eq) simp_all
  then show ?thesis by simp
qed

lemma global_coords_step_13:
  "round_to_double (- (2702159776422295 / 1125899906842624) + 3602879701896397 / 18014398509481984)
     = - (1238489897526885 / 562949953421312)"
proof -
  have "round_to_double (- (2702159776422295 / 1125899906842624) + 3602879701896397 / 18014398509481984)
          = of_int (- 4953959590107540) * 2 powi (1 - 52)"
    by (rule round_to_double_eq) simp_all
  then show ?thesis by simp
qed

lemma global_coords_step_14:
  "round_to_double (- (1238489897526885 / 562949953421312) + 3602879701896397 / 18014398509481984)
     = - (9007199254740981 / 4503599627370496)"
proof -
  have "round_to_double (- (1238489897526885 / 562949953421312) + 3602879701896397 / 18014398509481984)
          = of_int (- 9007199254740981) * 2 powi (0 - 52)"
    by (rule round_to_double_eq) simp_all
  then show ?thesis by simp
qed

lemma global_coords_step_15:
  "round_to_double (- (9007199254740981 / 4503599627370496) + 3602879701896397 / 18014398509481984)
     = - (4053239664633441 / 2251799813685248)"
proof -
  have "round_to_double (- (9007199254740981 / 4503599627370496) + 3602879701896397 / 18014398509481984)
          = of_int (- 8106479329266882) * 2 powi (0 - 52)"
    by (rule round_to_double_eq) simp_all
  then show ?thesis by simp
qed

lemma global_coords_step_16:
  "round_to_double (- (4053239664633441 / 2251799813685248) + 3602879701896397 / 18014398509481984)
     = - (7205759403792783 / 4503599627370496)"
proof -
  have "round_to_double (- (4053239664633441 / 2251799813685248) + 3602879701896397 / 18014398509481984)
          = of_int (- 7205759403792783) * 2 powi (0 - 52)"
    by (rule round_to_double_eq) simp_all
  then show ?thesis by simp
qed

lemma global_coords_step_17:
  "round_to_double (- (7205759403792783 / 4503599627370496) + 3602879701896397 / 18014398509481984)
     = - (1576259869579671 / 1125899906842624)"
proof -
  have "round_to_double (- (7205759403792783 / 4503599627370496) + 3602879701896397 / 18014398509481984)
          = of_int (- 6305039478318684) * 2 powi (0 - 52)"
    by (rule round_to_double_eq) simp_all
  then show ?thesis by simp
qed

lemma global_coords_step_18:
  "round_to_double (- (1576259869579671 / 1125899906842624) + 3602879701896397 / 18014398509481984)
     = - (5404319552844585 / 4503599627370496)"
proof -
  have "round_to_double (- (1576259869579671 / 1125899906842624) + 3602879701896397 / 18014398509481984)
          = of_int (- 5404319552844585) * 2 powi (0 - 52)"
    by (rule round_to_double_eq) simp_all
  then show ?thesis by simp
qed

lemma global_coords_step_19:
  "round_to_double (- (5404319552844585 / 4503599627370496) + 3602879701896397 / 18014398509481984)
     = - (2251799813685243 / 2251799813685248)"
proof -
  have "round_to_double (- (5404319552844585 / 4503599627370496) + 3602879701896397 / 18014398509481984)
          = of_int (- 9007199254740972) * 2 powi (- 1 - 52)"
    by (rule round_to_double_eq) simp_all
  then show ?thesis by simp
qed

lemma global_coords_step_20:
  "round_to_double (- (2251799813685243 / 2251799813685248) + 3602879701896397 / 18014398509481984)
     = - (3602879701896387 / 4503599627370496)"
proof -
  have "round_to_double (- (2251799813685243 / 2251799813685248) + 3602879701896397 / 18014398509481984)
          = of_int (- 7205759403792774) * 2 powi (- 1 - 52)"
    by (rule round_to_double_eq) simp_all
  then show ?thesis by simp
qed

lemma global_coords_step_21:
  "round_to_double (- (3602879701896387 / 4503599627370496) + 3602879701896397 / 18014398509481984)
     = - (168884986026393 / 281474976710656)"
proof -
  have "round_to_double (- (3602879701896387 / 4503599627370496) + 3602879701896397 / 18014398509481984)
          = of_int (- 5404319552844576) * 2 powi (- 1 - 52)"
    by (rule round_to_double_eq) simp_all
  then show ?thesis by simp
qed

lemma global_coords_step_22:
  "round_to_double (- (168884986026393 / 281474976710656) + 3602879701896397 / 18014398509481984)
     = - (7205759403792755 / 18014398509481984)"
proof -
  have "round_to_double (- (168884986026393 / 281474976710656) + 3602879701896397 / 18014398509481984)
          = of_int (- 7205759403792755) * 2 powi (- 2 - 52)"
    by (rule round_to_double_eq) simp_all
  then show ?thesis by simp
qed

lemma global_coords_step_23:
  "round_to_double (- (7205759403792755 / 18014398509481984) + 3602879701896397 / 18014398509481984)
     = - (1801439850948179 / 9007199254740992)"
proof -
  have "round_to_double (- (7205759403792755 / 18014398509481984) + 3602879701896397 / 18014398509481984)
          = of_int (- 7205759403792716) * 2 powi (- 3 - 52)"
    by (rule round_to_double_eq) simp_all
  then show ?thesis by simp
qed

lemma global_coords_step_24:
  "round_to_double (- (1801439850948179 / 9007199254740992) + 3602879701896397 / 18014398509481984)
     = 39 / 18014398509481984"
proof -
  have "round_to_double (- (1801439850948179 / 9007199254740992) + 3602879701896397 / 18014398509481984)
          = of_int 5488762045857792 * 2 powi (- 49 - 52)"
    by (rule round_to_double_eq) simp_all
  then show ?thesis by simp
qed

lemma global_coords_step_25:
  "round_to_double (39 / 18014398509481984 + 3602879701896397 / 18014398509481984)
     = 900719925474109 / 4503599627370496"
proof -
  have "round_to_double (39 / 18014398509481984 + 3602879701896397 / 18014398509481984)
          = of_int 7205759403792872 * 2 powi (- 3 - 52)"
    by (rule round_to_double_eq) simp_all
  then show ?thesis by simp
qed

lemma global_coords_step_26:
  "round_to_double (900719925474109 / 4503599627370496 + 3602879701896397 / 18014398509481984)
     = 7205759403792833 / 18014398509481984"
proof -
  have "round_to_double (900719925474109 / 4503599627370496 + 3602879701896397 / 18014398509481984)
          = of_int 7205759403792833 * 2 powi (- 2 - 52)"
    by (rule round_to_double_eq) simp_all
  then show ?thesis by simp
qed

lemma global_coords_step_27:
  "round_to_double (7205759403792833 / 18014398509481984 + 3602879701896397 / 18014398509481984)
     = 5404319552844615 / 9007199254740992"
proof -
  have "round_to_double (7205759403792833 / 18014398509481984 + 3602879701896397 / 18014398509481984)
          = of_int 5404319552844615 * 2 powi (- 1 - 52)"
    by (rule round_to_double_eq) simp_all
  then show ?thesis by simp
qed

lemma global_coords_step_28:
  "round_to_double (5404319552844615 / 9007199254740992 + 3602879701896397 / 18014398509481984)
     = 3602879701896407 / 4503599627370496"
proof -
  have "round_to_double (5404319552844615 / 9007199254740992 + 3602879701896397 / 18014398509481984)
          = of_int 7205759403792814 * 2 powi (- 1 - 52)"
    by (rule round_to_double_eq) simp_all
  then show ?thesis by simp
qed

lemma global_coords_step_29:
  "round_to_double (3602879701896407 / 4503599627370496 + 3602879701896397 / 18014398509481984)
     = 2251799813685253 / 2251799813685248"
proof -
  have "round_to_double (3602879701896407 / 4503599627370496 + 3602879701896397 / 18014398509481984)
          = of_int 4503599627370506 * 2 powi (0 - 52)"
    by (rule round_to_double_eq) simp_all
  then show ?thesis by simp
qed

lemma global_coords_step_30:
  "round_to_double (2251799813685253 / 2251799813685248 + 3602879701896397 / 18014398509481984)
     = 5404319552844605 / 4503599627370496"
proof -
  have "round_to_double (2251799813685253 / 2251799813685248 + 3602879701896397 / 18014398509481984)
          = of_int 5404319552844605 * 2 powi (0 - 52)"
    by (rule round_to_double_eq) simp_all
  then show ?thesis by simp
qed

lemma global_coords_step_31:
  "round_to_double (5404319552844605 / 4503599627370496 + 3602879701896397 / 18014398509481984)
     = 394064967394919 / 281474976710656"
proof -
  have "round_to_double (5404319552844605 / 4503599627370496 + 3602879701896397 / 18014398509481984)
          = of_int 6305039478318704 * 2 powi (0 - 52)"
    by (rule round_to_double_eq) simp_all
  then show ?thesis by simp
qed

lemma global_coords_step_32:
  "round_to_double (394064967394919 / 281474976710656 + 3602879701896397 / 18014398509481984)
     = 7205759403792803 / 4503599627370496"
proof -
  have "round_to_double (394064967394919 / 281474976710656 + 3602879701896397 / 18014398509481984)
          = of_int 7205759403792803 * 2 powi (0 - 52)"
    by (rule round_to_double_eq) simp_all
  then show ?thesis by simp
qed

lemma global_coords_step_33:
  "round_to_double (7205759403792803 / 4503599627370496 + 3602879701896397 / 18014398509481984)
     = 4053239664633451 / 2251799813685248"
proof -
  have "round_to_double (7205759403792803 / 4503599627370496 + 3602879701896397 / 18014398509481984)
          = of_int 8106479329266902 * 2 powi (0 - 52)"
    by (rule round_to_double_eq) simp_all
  then show ?thesis by simp
qed

lemma global_coords_step_34:
  "round_to_double (4053239664633451 / 2251799813685248 + 3602879701896397 / 18014398509481984)
     = 4503599627370501 / 2251799813685248"
proof -
  have "round_to_double (4053239664633451 / 2251799813685248 + 3602879701896397 / 18014398509481984)
          = of_int 4503599627370501 * 2 powi (1 - 52)"
    by (rule round_to_double_eq) simp_all
  then show ?thesis by simp
qed

lemma global_coords_step_35:
  "round_to_double (4503599627370501 / 2251799813685248 + 3602879701896397 / 18014398509481984)
     = 4953959590107551 / 2251799813685248"
proof -
  have "round_to_double (4503599627370501 / 2251799813685248 + 3602879701896397 / 18014398509481984)
          = of_int 4953959590107551 * 2 powi (1 - 52)"
    by (rule round_to_double_eq) simp_all
  then show ?thesis by simp
qed

lemma global_coords_step_36:
  "round_to_double (4953959590107551 / 2251799813685248 + 3602879701896397 / 18014398509481984)
     = 5404319552844601 / 2251799813685248"
proof -
  have "round_to_double (4953959590107551 / 2251799813685248 + 3602879701896397 / 18014398509481984)
          = of_int 5404319552844601 * 2 powi (1 - 52)"
    by (rule round_to_double_eq) simp_all
  then show ?thesis by simp
qed

lemma global_coords_step_37:
  "round_to_double (5404319552844601 / 2251799813685248 + 3602879701896397 / 18014398509481984)
     = 5854679515581651 / 2251799813685248"
proof -
  have "round_to_double (5404319552844601 / 2251799813685248 + 3602879701896397 / 18014398509481984)
          = of_int 5854679515581651 * 2 powi (1 - 52)"
    by (rule round_to_double_eq) simp_all
  then show ?thesis by simp
qed

lemma global_coords_step_38:
  "round_to_double (5854679515581651 / 2251799813685248 + 3602879701896397 / 18014398509481984)
     = 6305039478318701 / 2251799813685248"
proof -
  have "round_to_double (5854679515581651 / 2251799813685248 + 3602879701896397 / 18014398509481984)
          = of_int 6305039478318701 * 2 powi (1 - 52)"
    by (rule round_to_double_eq) simp_all
  then show ?thesis by simp
qed

lemma global_coords_step_39:
  "round_to_double (6305039478318701 / 2251799813685248 + 3602879701896397 / 18014398509481984)
     = 6755399441055751 / 2251799813685248"
proof -
  have "round_to_double (6305039478318701 / 2251799813685248 + 3602879701896397 / 18014398509481984)
          = of_int 6755399441055751 * 2 powi (1 - 52)"
    by (rule round_to_double_eq) simp_all
  then show ?thesis by simp
qed

lemma global_coords_step_40:
  "round_to_double (6755399441055751 / 2251799813685248 + 3602879701896397 / 18014398509481984)
     = 7205759403792801 / 2251799813685248"
proof -
  have "round_to_double (6755399441055751 / 2251799813685248 + 3602879701896397 / 18014398509481984)
          = of_int 7205759403792801 * 2 powi (1 - 52)"
    by (rule round_to_double_eq) simp_all
  then show ?thesis by simp
qed

lemma global_coords_step_41:
  "round_to_double (7205759403792801 / 2251799813685248 + 3602879701896397 / 18014398509481984)
     = 7656119366529851 / 2251799813685248"
proof -
  have "round_to_double (7205759403792801 / 2251799813685248 + 3602879701896397 / 18014398509481984)
          = of_int 7656119366529851 * 2 powi (1 - 52)"
    by (rule round_to_double_eq) simp_all
  then show ?thesis by simp
qed

lemma global_coords_step_42:
  "round_to_double (7656119366529851 / 2251799813685248 + 3602879701896397 / 18014398509481984)
     = 8106479329266901 / 2251799813685248"
proof -
  have "round_to_double (7656119366529851 / 2251799813685248 + 3602879701896397 / 18014398509481984)
          = of_int 8106479329266901 * 2 powi (1 - 52)"
    by (rule round_to_double_eq) simp_all
  then show ?thesis by simp
qed

lemma global_coords_step_43:
  "round_to_double (8106479329266901 / 2251799813685248 + 3602879701896397 / 18014398509481984)
     = 8556839292003951 / 2251799813685248"
proof -
  have "round_to_double (8106479329266901 / 2251799813685248 + 3602879701896397 / 18014398509481984)
          = of_int 8556839292003951 * 2 powi (1 - 52)"
    by (rule round_to_double_eq) simp_all
  then show ?thesis by simp
qed

lemma global_coords_step_44:
  "round_to_double (8556839292003951 / 2251799813685248 + 3602879701896397 / 18014398509481984)
     = 1125899906842625 / 281474976710656"
proof -
  have "round_to_double (8556839292003951 / 2251799813685248 + 3602879701896397 / 18014398509481984)
          = of_int 4503599627370500 * 2 powi (2 - 52)"
    by (rule round_to_double_eq) simp_all
  then show ?thesis by simp
qed

lemma global_coords_step_45:
  "round_to_double (1125899906842625 / 281474976710656 + 3602879701896397 / 18014398509481984)
     = 4728779608739025 / 1125899906842624"
proof -
  have "round_to_double (1125899906842625 / 281474976710656 + 3602879701896397 / 18014398509481984)
          = of_int 4728779608739025 * 2 powi (2 - 52)"
    by (rule round_to_double_eq) simp_all
  then show ?thesis by simp
qed

lemma global_coords_step_46:
  "round_to_double (4728779608739025 / 1125899906842624 + 3602879701896397 / 18014398509481984)
     = 2476979795053775 / 562949953421312"
proof -
  have "round_to_double (4728779608739025 / 1125899906842624 + 3602879701896397 / 18014398509481984)
          = of_int 4953959590107550 * 2 powi (2 - 52)"
    by (rule round_to_double_eq) simp_all
  then show ?thesis by simp
qed

lemma global_coords_step_47:
  "round_to_double (2476979795053775 / 562949953421312 + 3602879701896397 / 18014398509481984)
     = 5179139571476075 / 1125899906842624"
proof -
  have "round_to_double (2476979795053775 / 562949953421312 + 3602879701896397 / 18014398509481984)
          = of_int 5179139571476075 * 2 powi (2 - 52)"
    by (rule round_to_double_eq) simp_all
  then show ?thesis by simp
qed

lemma global_coords_step_48:
  "round_to_double (5179139571476075 / 1125899906842624 + 3602879701896397 / 18014398509481984)
     = 675539944105575 / 140737488355328"
proof -
  have "round_to_double (5179139571476075 / 1125899906842624 + 3602879701896397 / 18014398509481984)
          = of_int 5404319552844600 * 2 powi (2 - 52)"
    by (rule round_to_double_eq) simp_all
  then show ?thesis by simp
qed

lemma global_coords_step_49:
  "round_to_double (675539944105575 / 140737488355328 + 3602879701896397 / 18014398509481984)
     = 5629499534213125 / 1125899906842624"
proof -
  have "round_to_double (675539944105575 / 140737488355328 + 3602879701896397 / 18014398509481984)
          = of_int 5629499534213125 * 2 powi (2 - 52)"
    by (rule round_to_double_eq) simp_all
  then show ?thesis by simp
qed

lemma global_yaws_step_0:
  "round_to_double (0 + 3602879701896397 / 36028797018963968)
     = 3602879701896397 / 36028797018963968"
proof -
  have "round_to_double (0 + 3602879701896397 / 36028797018963968)
          = of_int 7205759403792794 * 2 powi (- 4 - 52)"
    by (rule round_to_double_eq) simp_all
  then show ?thesis by simp
qed

lemma global_yaws_step_1:
  "round_to_double (3602879701896397 / 36028797018963968 + 3602879701896397 / 36028797018963968)
     = 3602879701896397 / 18014398509481984"
proof -
  have "round_to_double (3602879701896397 / 36028797018963968 + 3602879701896397 / 36028797018963968)
          = of_int 7205759403792794 * 2 powi (- 3 - 52)"
    by (rule round_to_double_eq) simp_all
  then show ?thesis by simp
qed

lemma global_yaws_step_2:
  "round_to_double (3602879701896397 / 18014398509481984 + 3602879701896397 / 36028797018963968)
     = 1351079888211149 / 4503599627370496"
proof -
  have "round_to_double (3602879701896397 / 18014398509481984 + 3602879701896397 / 36028797018963968)
          = of_int 5404319552844596 * 2 powi (- 2 - 52)"
    by (rule round_to_double_eq) simp_all
  then show ?thesis by simp
qed

lemma global_yaws_step_3:
  "round_to_double (1351079888211149 / 4503599627370496 + 3602879701896397 / 36028797018963968)
     = 3602879701896397 / 9007199254740992"
proof -
  have "round_to_double (1351079888211149 / 4503599627370496 + 3602879701896397 / 36028797018963968)
          = of_int 7205759403792794 * 2 powi (- 2 - 52)"
    by (rule round_to_double_eq) simp_all
  then show ?thesis by simp
qed

lemma global_yaws_step_4:
  "round_to_double (3602879701896397 / 9007199254740992 + 3602879701896397 / 36028797018963968)
     = 1 / 2"
proof -
  have "round_to_double (3602879701896397 / 9007199254740992 + 3602879701896397 / 36028797018963968)
          = of_int 4503599627370496 * 2 powi (- 1 - 52)"
    by (rule round_to_double_eq) simp_all
  then show ?thesis by simp
qed

lemma global_yaws_step_5:
  "round_to_double (1 / 2 + 3602879701896397 / 36028797018963968)
     = 5404319552844595 / 9007199254740992"
proof -
  have "round_to_double (1 / 2 + 3602879701896397 / 36028797018963968)
          = of_int 5404319552844595 * 2 powi (- 1 - 52)"
    by (rule round_to_double_eq) simp_all
  then show ?thesis by simp
qed

lemma global_yaws_step_6:
  "round_to_double (5404319552844595 / 9007199254740992 + 3602879701896397 / 36028797018963968)
     = 3152519739159347 / 4503599627370496"
proof -
  have "round_to_double (5404319552844595 / 9007199254740992 + 3602879701896397 / 36028797018963968)
          = of_int 6305039478318694 * 2 powi (- 1 - 52)"
    by (rule round_to_double_eq) simp_all
  then show ?thesis by simp
qed

lemma global_yaws_step_7:
  "round_to_double (3152519739159347 / 4503599627370496 + 3602879701896397 / 36028797018963968)
     = 7205759403792793 / 9007199254740992"
proof -
  have "round_to_double (3152519739159347 / 4503599627370496 + 3602879701896397 / 36028797018963968)
          = of_int 7205759403792793 * 2 powi (- 1 - 52)"
    by (rule round_to_double_eq) simp_all
  then show ?thesis by simp
qed

lemma global_yaws_step_8:
  "round_to_double (7205759403792793 / 9007199254740992 + 3602879701896397 / 36028797018963968)
     = 2026619832316723 / 2251799813685248"
proof -
  have "round_to_double (7205759403792793 / 9007199254740992 + 3602879701896397 / 36028797018963968)
          = of_int 8106479329266892 * 2 powi (- 1 - 52)"
    by (rule round_to_double_eq) simp_all
  then show ?thesis by simp
qed

lemma global_yaws_step_9:
  "round_to_double (2026619832316723 / 2251799813685248 + 3602879701896397 / 36028797018963968)
     = 9007199254740991 / 9007199254740992"
proof -
  have "round_to_double (2026619832316723 / 2251799813685248 + 3602879701896397 / 36028797018963968)
          = of_int 9007199254740991 * 2 powi (- 1 - 52)"
    by (rule round_to_double_eq) simp_all
  then show ?thesis by simp
qed

lemma global_yaws_step_10:
  "round_to_double (9007199254740991 / 9007199254740992 + 3602879701896397 / 36028797018963968)
     = 4953959590107545 / 4503599627370496"
proof -
  have "round_to_double (9007199254740991 / 9007199254740992 + 3602879701896397 / 36028797018963968)
          = of_int 4953959590107545 * 2 powi (0 - 52)"
    by (rule round_to_double_eq) simp_all
  then show ?thesis by simp
qed

lemma global_yaws_step_11:
  "round_to_double (4953959590107545 / 4503599627370496 + 3602879701896397 / 36028797018963968)
     = 5404319552844595 / 4503599627370496"
proof -
  have "round_to_double (4953959590107545 / 4503599627370496 + 3602879701896397 / 36028797018963968)
          = of_int 5404319552844595 * 2 powi (0 - 52)"
    by (rule round_to_double_eq) simp_all
  then show ?thesis by simp
qed

lemma global_yaws_step_12:
  "round_to_double (5404319552844595 / 4503599627370496 + 3602879701896397 / 36028797018963968)
     = 5854679515581645 / 4503599627370496"
proof -
  have "round_to_double (5404319552844595 / 4503599627370496 + 3602879701896397 / 36028797018963968)
          = of_int 5854679515581645 * 2 powi (0 - 52)"
    by (rule round_to_double_eq) simp_all
  then show ?thesis by simp
qed

lemma global_yaws_step_13:
  "round_to_double (5854679515581645 / 4503599627370496 + 3602879701896397 / 36028797018963968)
     = 6305039478318695 / 4503599627370496"
proof -
  have "round_to_double (5854679515581645 / 4503599627370496 + 3602879701896397 / 36028797018963968)
          = of_int 6305039478318695 * 2 powi (0 - 52)"
    by (rule round_to_double_eq) simp_all
  then show ?thesis by simp
qed

lemma global_yaws_step_14:
  "round_to_double (6305039478318695 / 4503599627370496 + 3602879701896397 / 36028797018963968)
     = 6755399441055745 / 4503599627370496"
proof -
  have "round_to_double (6305039478318695 / 4503599627370496 + 3602879701896397 / 36028797018963968)
          = of_int 6755399441055745 * 2 powi (0 - 52)"
    by (rule round_to_double_eq) simp_all
  then show ?thesis by simp
qed

lemma global_yaws_step_15:
  "round_to_double (6755399441055745 / 4503599627370496 + 3602879701896397 / 36028797018963968)
     = 7205759403792795 / 4503599627370496"
proof -
  have "round_to_double (6755399441055745 / 4503599627370496 + 3602879701896397 / 36028797018963968)
          = of_int 7205759403792795 * 2 powi (0 - 52)"
    by (rule round_to_double_eq) simp_all
  then show ?thesis by simp
qed

lemma global_yaws_step_16:
  "round_to_double (7205759403792795 / 4503599627370496 + 3602879701896397 / 36028797018963968)
     = 7656119366529845 / 4503599627370496"
proof -
  have "round_to_double (7205759403792795 / 4503599627370496 + 3602879701896397 / 36028797018963968)
          = of_int 7656119366529845 * 2 powi (0 - 52)"
    by (rule round_to_double_eq) simp_all
  then show ?thesis by simp
qed

lemma global_yaws_step_17:
  "round_to_double (7656119366529845 / 4503599627370496 + 3602879701896397 / 36028797018963968)
     = 8106479329266895 / 4503599627370496"
proof -
  have "round_to_double (7656119366529845 / 4503599627370496 + 3602879701896397 / 36028797018963968)
          = of_int 8106479329266895 * 2 powi (0 - 52)"
    by (rule round_to_double_eq) simp_all
  then show ?thesis by simp
qed

lemma global_yaws_step_18:
  "round_to_double (8106479329266895 / 4503599627370496 + 3602879701896397 / 36028797018963968)
     = 8556839292003945 / 4503599627370496"
proof -
  have "round_to_double (8106479329266895 / 4503599627370496 + 3602879701896397 / 36028797018963968)
          = of_int 8556839292003945 * 2 powi (0 - 52)"
    by (rule round_to_double_eq) simp_all
  then show ?thesis by simp
qed

lemma global_yaws_step_19:
  "round_to_double (8556839292003945 / 4503599627370496 + 3602879701896397 / 36028797018963968)
     = 4503599627370497 / 2251799813685248"
proof -
  have "round_to_double (8556839292003945 / 4503599627370496 + 3602879701896397 / 36028797018963968)
          = of_int 4503599627370497 * 2 powi (1 - 52)"
    by (rule round_to_double_eq) simp_all
  then show ?thesis by simp
qed

lemma global_yaws_step_20:
  "round_to_double (4503599627370497 / 2251799813685248 + 3602879701896397 / 36028797018963968)
     = 2364389804369511 / 1125899906842624"
proof -
  have "round_to_double (4503599627370497 / 2251799813685248 + 3602879701896397 / 36028797018963968)
          = of_int 4728779608739022 * 2 powi (1 - 52)"
    by (rule round_to_double_eq) simp_all
  then show ?thesis by simp
qed

lemma global_yaws_step_21:
  "round_to_double (2364389804369511 / 1125899906842624 + 3602879701896397 / 36028797018963968)
     = 4953959590107547 / 2251799813685248"
proof -
  have "round_to_double (2364389804369511 / 1125899906842624 + 3602879701896397 / 36028797018963968)
          = of_int 4953959590107547 * 2 powi (1 - 52)"
    by (rule round_to_double_eq) simp_all
  then show ?thesis by simp
qed

lemma global_yaws_step_22:
  "round_to_double (4953959590107547 / 2251799813685248 + 3602879701896397 / 36028797018963968)
     = 647392446434509 / 281474976710656"
proof -
  have "round_to_double (4953959590107547 / 2251799813685248 + 3602879701896397 / 36028797018963968)
          = of_int 5179139571476072 * 2 powi (1 - 52)"
    by (rule round_to_double_eq) simp_all
  then show ?thesis by simp
qed

lemma global_yaws_step_23:
  "round_to_double (647392446434509 / 281474976710656 + 3602879701896397 / 36028797018963968)
     = 5404319552844597 / 2251799813685248"
proof -
  have "round_to_double (647392446434509 / 281474976710656 + 3602879701896397 / 36028797018963968)
          = of_int 5404319552844597 * 2 powi (1 - 52)"
    by (rule round_to_double_eq) simp_all
  then show ?thesis by simp
qed

lemma global_yaws_step_24:
  "round_to_double (5404319552844597 / 2251799813685248 + 3602879701896397 / 36028797018963968)
     = 2814749767106561 / 1125899906842624"
proof -
  have "round_to_double (5404319552844597 / 2251799813685248 + 3602879701896397 / 36028797018963968)
          = of_int 5629499534213122 * 2 powi (1 - 52)"
    by (rule round_to_double_eq) simp_all
  then show ?thesis by simp
qed

lemma global_yaws_step_25:
  "round_to_double (2814749767106561 / 1125899906842624 + 3602879701896397 / 36028797018963968)
     = 5854679515581647 / 2251799813685248"
proof -
  have "round_to_double (2814749767106561 / 1125899906842624 + 3602879701896397 / 36028797018963968)
          = of_int 5854679515581647 * 2 powi (1 - 52)"
    by (rule round_to_double_eq) simp_all
  then show ?thesis by simp
qed

lemma global_yaws_step_26:
  "round_to_double (5854679515581647 / 2251799813685248 + 3602879701896397 / 36028797018963968)
     = 1519964874237543 / 562949953421312"
proof -
  have "round_to_double (5854679515581647 / 2251799813685248 + 3602879701896397 / 36028797018963968)
          = of_int 6079859496950172 * 2 powi (1 - 52)"
    by (rule round_to_double_eq) simp_all
  then show ?thesis by simp
qed

lemma global_yaws_step_27:
  "round_to_double (1519964874237543 / 562949953421312 + 3602879701896397 / 36028797018963968)
     = 6305039478318697 / 2251799813685248"
proof -
  have "round_to_double (1519964874237543 / 562949953421312 + 3602879701896397 / 36028797018963968)
          = of_int 6305039478318697 * 2 powi (1 - 52)"
    by (rule round_to_double_eq) simp_all
  then show ?thesis by simp
qed

lemma global_yaws_step_28:
  "round_to_double (6305039478318697 / 2251799813685248 + 3602879701896397 / 36028797018963968)
     = 3265109729843611 / 1125899906842624"
proof -
  have "round_to_double (6305039478318697 / 2251799813685248 + 3602879701896397 / 36028797018963968)
          = of_int 6530219459687222 * 2 powi (1 - 52)"
    by (rule round_to_double_eq) simp_all
  then show ?thesis by simp
qed

lemma global_yaws_step_29:
  "round_to_double (3265109729843611 / 1125899906842624 + 3602879701896397 / 36028797018963968)
     = 6755399441055747 / 2251799813685248"
proof -
  have "round_to_double (3265109729843611 / 1125899906842624 + 3602879701896397 / 36028797018963968)
          = of_int 6755399441055747 * 2 powi (1 - 52)"
    by (rule round_to_double_eq) simp_all
  then show ?thesis by simp
qed

lemma global_yaws_step_30:
  "round_to_double (6755399441055747 / 2251799813685248 + 3602879701896397 / 36028797018963968)
     = 436286213901517 / 140737488355328"
proof -
  have "round_to_double (6755399441055747 / 2251799813685248 + 3602879701896397 / 36028797018963968)
          = of_int 6980579422424272 * 2 powi (1 - 52)"
    by (rule round_to_double_eq) simp_all
  then show ?thesis by simp
qed

lemma global_yaws_step_31:
  "round_to_double (436286213901517 / 140737488355328 + 3602879701896397 / 36028797018963968)
     = 7205759403792797 / 2251799813685248"
proof -
  have "round_to_double (436286213901517 / 140737488355328 + 3602879701896397 / 36028797018963968)
          = of_int 7205759403792797 * 2 powi (1 - 52)"
    by (rule round_to_double_eq) simp_all
  then show ?thesis by simp
qed

lemma global_yaws_step_32:
  "round_to_double (7205759403792797 / 2251799813685248 + 3602879701896397 / 36028797018963968)
     = 3715469692580661 / 1125899906842624"
proof -
  have "round_to_double (7205759403792797 / 2251799813685248 + 3602879701896397 / 36028797018963968)
          = of_int 7430939385161322 * 2 powi (1 - 52)"
    by (rule round_to_double_eq) simp_all
  then show ?thesis by simp
qed

lemma global_yaws_step_33:
  "round_to_double (3715469692580661 / 1125899906842624 + 3602879701896397 / 36028797018963968)
     = 7656119366529847 / 2251799813685248"
proof -
  have "round_to_double (3715469692580661 / 1125899906842624 + 3602879701896397 / 36028797018963968)
          = of_int 7656119366529847 * 2 powi (1 - 52)"
    by (rule round_to_double_eq) simp_all
  then show ?thesis by simp
qed

lemma global_yaws_step_34:
  "round_to_double (7656119366529847 / 2251799813685248 + 3602879701896397 / 36028797018963968)
     = 1970324836974593 / 562949953421312"
proof -
  have "round_to_double (7656119366529847 / 2251799813685248 + 3602879701896397 / 36028797018963968)
          = of_int 7881299347898372 * 2 powi (1 - 52)"
    by (rule round_to_double_eq) simp_all
  then show ?thesis by simp
qed

lemma global_yaws_step_35:
  "round_to_double (1970324836974593 / 562949953421312 + 3602879701896397 / 36028797018963968)
     = 8106479329266897 / 2251799813685248"
proof -
  have "round_to_double (1970324836974593 / 562949953421312 + 3602879701896397 / 36028797018963968)
          = of_int 8106479329266897 * 2 powi (1 - 52)"
    by (rule round_to_double_eq) simp_all
  then show ?thesis by simp
qed

lemma global_yaws_step_36:
  "round_to_double (8106479329266897 / 2251799813685248 + 3602879701896397 / 36028797018963968)
     = 4165829655317711 / 1125899906842624"
proof -
  have "round_to_double (8106479329266897 / 2251799813685248 + 3602879701896397 / 36028797018963968)
          = of_int 8331659310635422 * 2 powi (1 - 52)"
    by (rule round_to_double_eq) simp_all
  then show ?thesis by simp
qed

lemma global_yaws_step_37:
  "round_to_double (4165829655317711 / 1125899906842624 + 3602879701896397 / 36028797018963968)
     = 8556839292003947 / 2251799813685248"
proof -
  have "round_to_double (4165829655317711 / 1125899906842624 + 3602879701896397 / 36028797018963968)
          = of_int 8556839292003947 * 2 powi (1 - 52)"
    by (rule round_to_double_eq) simp_all
  then show ?thesis by simp
qed

lemma global_yaws_step_38:
  "round_to_double (8556839292003947 / 2251799813685248 + 3602879701896397 / 36028797018963968)
     = 1097752409171559 / 281474976710656"
proof -
  have "round_to_double (8556839292003947 / 2251799813685248 + 3602879701896397 / 36028797018963968)
          = of_int 8782019273372472 * 2 powi (1 - 52)"
    by (rule round_to_double_eq) simp_all
  then show ?thesis by simp
qed

lemma global_yaws_step_39:
  "round_to_double (1097752409171559 / 281474976710656 + 3602879701896397 / 36028797018963968)
     = 2251799813685249 / 562949953421312"
proof -
  have "round_to_double (1097752409171559 / 281474976710656 + 3602879701896397 / 36028797018963968)
          = of_int 4503599627370498 * 2 powi (2 - 52)"
    by (rule round_to_double_eq) simp_all
  then show ?thesis by simp
qed

lemma global_yaws_step_40:
  "round_to_double (2251799813685249 / 562949953421312 + 3602879701896397 / 36028797018963968)
     = 577023702256845 / 140737488355328"
proof -
  have "round_to_double (2251799813685249 / 562949953421312 + 3602879701896397 / 36028797018963968)
          = of_int 4616189618054760 * 2 powi (2 - 52)"
    by (rule round_to_double_eq) simp_all
  then show ?thesis by simp
qed

lemma global_yaws_step_41:
  "round_to_double (577023702256845 / 140737488355328 + 3602879701896397 / 36028797018963968)
     = 2364389804369511 / 562949953421312"
proof -
  have "round_to_double (577023702256845 / 140737488355328 + 3602879701896397 / 36028797018963968)
          = of_int 4728779608739022 * 2 powi (2 - 52)"
    by (rule round_to_double_eq) simp_all
  then show ?thesis by simp
qed

lemma global_yaws_step_42:
  "round_to_double (2364389804369511 / 562949953421312 + 3602879701896397 / 36028797018963968)
     = 1210342399855821 / 281474976710656"
proof -
  have "round_to_double (2364389804369511 / 562949953421312 + 3602879701896397 / 36028797018963968)
          = of_int 4841369599423284 * 2 powi (2 - 52)"
    by (rule round_to_double_eq) simp_all
  then show ?thesis by simp
qed

lemma global_yaws_step_43:
  "round_to_double (1210342399855821 / 281474976710656 + 3602879701896397 / 36028797018963968)
     = 2476979795053773 / 562949953421312"
proof -
  have "round_to_double (1210342399855821 / 281474976710656 + 3602879701896397 / 36028797018963968)
          = of_int 4953959590107546 * 2 powi (2 - 52)"
    by (rule round_to_double_eq) simp_all
  then show ?thesis by simp
qed

lemma global_yaws_step_44:
  "round_to_double (2476979795053773 / 562949953421312 + 3602879701896397 / 36028797018963968)
     = 9 / 2"
proof -
  have "round_to_double (2476979795053773 / 562949953421312 + 3602879701896397 / 36028797018963968)
          = of_int 5066549580791808 * 2 powi (2 - 52)"
    by (rule round_to_double_eq) simp_all
  then show ?thesis by simp
qed

lemma global_yaws_step_45:
  "round_to_double (9 / 2 + 3602879701896397 / 36028797018963968)
     = 2589569785738035 / 562949953421312"
proof -
  have "round_to_double (9 / 2 + 3602879701896397 / 36028797018963968)
          = of_int 5179139571476070 * 2 powi (2 - 52)"
    by (rule round_to_double_eq) simp_all
  then show ?thesis by simp
qed

lemma global_yaws_step_46:
  "round_to_double (2589569785738035 / 562949953421312 + 3602879701896397 / 36028797018963968)
     = 1322932390540083 / 281474976710656"
proof -
  have "round_to_double (2589569785738035 / 562949953421312 + 3602879701896397 / 36028797018963968)
          = of_int 5291729562160332 * 2 powi (2 - 52)"
    by (rule round_to_double_eq) simp_all
  then show ?thesis by simp
qed

lemma global_yaws_step_47:
  "round_to_double (1322932390540083 / 281474976710656 + 3602879701896397 / 36028797018963968)
     = 2702159776422297 / 562949953421312"
proof -
  have "round_to_double (1322932390540083 / 281474976710656 + 3602879701896397 / 36028797018963968)
          = of_int 5404319552844594 * 2 powi (2 - 52)"
    by (rule round_to_double_eq) simp_all
  then show ?thesis by simp
qed

lemma global_yaws_step_48:
  "round_to_double (2702159776422297 / 562949953421312 + 3602879701896397 / 36028797018963968)
     = 689613692941107 / 140737488355328"
proof -
  have "round_to_double (2702159776422297 / 562949953421312 + 3602879701896397 / 36028797018963968)
          = of_int 5516909543528856 * 2 powi (2 - 52)"
    by (rule round_to_double_eq) simp_all
  then show ?thesis by simp
qed

lemma global_yaws_step_49:
  "round_to_double (689613692941107 / 140737488355328 + 3602879701896397 / 36028797018963968)
     = 2814749767106559 / 562949953421312"
proof -
  have "round_to_double (689613692941107 / 140737488355328 + 3602879701896397 / 36028797018963968)
          = of_int 5629499534213118 * 2 powi (2 - 52)"
    by (rule round_to_double_eq) simp_all
  then show ?thesis by simp
qed

lemma global_yaws_step_50:
  "round_to_double (2814749767106559 / 562949953421312 + 3602879701896397 / 36028797018963968)
     = 1435522381224345 / 281474976710656"
proof -
  have "round_to_double (2814749767106559 / 562949953421312 + 3602879701896397 / 36028797018963968)
          = of_int 5742089524897380 * 2 powi (2 - 52)"
    by (rule round_to_double_eq) simp_all
  then show ?thesis by simp
qed

lemma global_yaws_step_51:
  "round_to_double (1435522381224345 / 281474976710656 + 3602879701896397 / 36028797018963968)
     = 2927339757790821 / 562949953421312"
proof -
  have "round_to_double (1435522381224345 / 281474976710656 + 3602879701896397 / 36028797018963968)
          = of_int 5854679515581642 * 2 powi (2 - 52)"
    by (rule round_to_double_eq) simp_all
  then show ?thesis by simp
qed

lemma global_yaws_step_52:
  "round_to_double (2927339757790821 / 562949953421312 + 3602879701896397 / 36028797018963968)
     = 372954344141619 / 70368744177664"
proof -
  have "round_to_double (2927339757790821 / 562949953421312 + 3602879701896397 / 36028797018963968)
          = of_int 5967269506265904 * 2 powi (2 - 52)"
    by (rule round_to_double_eq) simp_all
  then show ?thesis by simp
qed

lemma global_yaws_step_53:
  "round_to_double (372954344141619 / 70368744177664 + 3602879701896397 / 36028797018963968)
     = 3039929748475083 / 562949953421312"
proof -
  have "round_to_double (372954344141619 / 70368744177664 + 3602879701896397 / 36028797018963968)
          = of_int 6079859496950166 * 2 powi (2 - 52)"
    by (rule round_to_double_eq) simp_all
  then show ?thesis by simp
qed

lemma global_yaws_step_54:
  "round_to_double (3039929748475083 / 562949953421312 + 3602879701896397 / 36028797018963968)
     = 1548112371908607 / 281474976710656"
proof -
  have "round_to_double (3039929748475083 / 562949953421312 + 3602879701896397 / 36028797018963968)
          = of_int 6192449487634428 * 2 powi (2 - 52)"
    by (rule round_to_double_eq) simp_all
  then show ?thesis by simp
qed

lemma global_yaws_step_55:
  "round_to_double (1548112371908607 / 281474976710656 + 3602879701896397 / 36028797018963968)
     = 3152519739159345 / 562949953421312"
proof -
  have "round_to_double (1548112371908607 / 281474976710656 + 3602879701896397 / 36028797018963968)
          = of_int 6305039478318690 * 2 powi (2 - 52)"
    by (rule round_to_double_eq) simp_all
  then show ?thesis by simp
qed

lemma global_yaws_step_56:
  "round_to_double (3152519739159345 / 562949953421312 + 3602879701896397 / 36028797018963968)
     = 802203683625369 / 140737488355328"
proof -
  have "round_to_double (3152519739159345 / 562949953421312 + 3602879701896397 / 36028797018963968)
          = of_int 6417629469002952 * 2 powi (2 - 52)"
    by (rule round_to_double_eq) simp_all
  then show ?thesis by simp
qed

lemma global_yaws_step_57:
  "round_to_double (802203683625369 / 140737488355328 + 3602879701896397 / 36028797018963968)
     = 3265109729843607 / 562949953421312"
proof -
  have "round_to_double (802203683625369 / 140737488355328 + 3602879701896397 / 36028797018963968)
          = of_int 6530219459687214 * 2 powi (2 - 52)"
    by (rule round_to_double_eq) simp_all
  then show ?thesis by simp
qed

lemma global_yaws_step_58:
  "round_to_double (3265109729843607 / 562949953421312 + 3602879701896397 / 36028797018963968)
     = 1660702362592869 / 281474976710656"
proof -
  have "round_to_double (3265109729843607 / 562949953421312 + 3602879701896397 / 36028797018963968)
          = of_int 6642809450371476 * 2 powi (2 - 52)"
    by (rule round_to_double_eq) simp_all
  then show ?thesis by simp
qed

lemma global_yaws_step_59:
  "round_to_double (1660702362592869 / 281474976710656 + 3602879701896397 / 36028797018963968)
     = 3377699720527869 / 562949953421312"
proof -
  have "round_to_double (1660702362592869 / 281474976710656 + 3602879701896397 / 36028797018963968)
          = of_int 6755399441055738 * 2 powi (2 - 52)"
    by (rule round_to_double_eq) simp_all
  then show ?thesis by simp
qed

lemma global_yaws_step_60:
  "round_to_double (3377699720527869 / 562949953421312 + 3602879701896397 / 36028797018963968)
     = 214624669741875 / 35184372088832"
proof -
  have "round_to_double (3377699720527869 / 562949953421312 + 3602879701896397 / 36028797018963968)
          = of_int 6867989431740000 * 2 powi (2 - 52)"
    by (rule round_to_double_eq) simp_all
  then show ?thesis by simp
qed

lemma global_yaws_step_61:
  "round_to_double (214624669741875 / 35184372088832 + 3602879701896397 / 36028797018963968)
     = 3490289711212131 / 562949953421312"
proof -
  have "round_to_double (214624669741875 / 35184372088832 + 3602879701896397 / 36028797018963968)
          = of_int 6980579422424262 * 2 powi (2 - 52)"
    by (rule round_to_double_eq) simp_all
  then show ?thesis by simp
qed

lemma global_yaws_step_62:
  "round_to_double (3490289711212131 / 562949953421312 + 3602879701896397 / 36028797018963968)
     = 1773292353277131 / 281474976710656"
proof -
  have "round_to_double (3490289711212131 / 562949953421312 + 3602879701896397 / 36028797018963968)
          = of_int 7093169413108524 * 2 powi (2 - 52)"
    by (rule round_to_double_eq) simp_all
  then show ?thesis by simp
qed
lemma window_offsets_run:
  "loop_run (\<lambda>v. round_to_double (v + round_to_double 0.1)) (round_to_double 0.3) (- round_to_double 0.3) window_offsets"
  by (simp only: window_offsets_def loop_run.simps double_0_1 double_0_2 double_0_3 double_6_28
      window_offsets_step_0 window_offsets_step_1 window_offsets_step_2 window_offsets_step_3
      window_offsets_step_4 window_offsets_step_5)
     simp

lemma window_yaws_run:
  "loop_run (\<lambda>v. round_to_double (v + round_to_double 0.1)) (1) (- 1) window_yaws"
  by (simp only: window_yaws_def loop_run.simps double_0_1 double_0_2 double_0_3 double_6_28
      window_yaws_step_0 window_yaws_step_1 window_yaws_step_2 window_yaws_step_3
      window_yaws_step_4 window_yaws_step_5 window_yaws_step_6 window_yaws_step_7
      window_yaws_step_8 window_yaws_step_9 window_yaws_step_10 window_yaws_step_11
      window_yaws_step_12 window_yaws_step_13 window_yaws_step_14 window_yaws_step_15
      window_yaws_step_16 window_yaws_step_17 window_yaws_step_18 window_yaws_step_19
      window_yaws_step_20)
     simp

lemma global_coords_run:
  "loop_run (\<lambda>v. round_to_double (v + round_to_double 0.2)) (5) (- 5) global_coords"
  by (simp only: global_coords_def loop_run.simps double_0_1 double_0_2 double_0_3 double_6_28
      global_coords_step_0 global_coords_step_1 global_coords_step_2 global_coords_step_3
      global_coords_step_4 global_coords_step_5 global_coords_step_6 global_coords_step_7
      global_coords_step_8 global_coords_step_9 global_coords_step_10 global_coords_step_11
      global_coords_step_12 global_coords_step_13 global_coords_step_14 global_coords_step_15
      global_coords_step_16 global_coords_step_17 global_coords_step_18 global_coords_step_19
      global_coords_step_20 global_coords_step_21 global_coords_step_22 global_coords_step_23
      global_coords_step_24 global_coords_step_25 global_coords_step_26 global_coords_step_27
      global_coords_step_28 global_coords_step_29 global_coords_step_30 global_coords_step_31
      global_coords_step_32 global_coords_step_33 global_coords_step_34 global_coords_step_35
      global_coords_step_36 global_coords_step_37 global_coords_step_38 global_coords_step_39
      global_coords_step_40 global_coords_step_41 global_coords_step_42 global_coords_step_43
      global_coords_step_44 global_coords_step_45 global_coords_step_46 global_coords_step_47
      global_coords_step_48 global_coords_step_49)
     simp

lemma global_yaws_run:
  "loop_run (\<lambda>v. round_to_double (v + round_to_double 0.1)) (round_to_double 6.28) (0) global_yaws"
  by (simp only: global_yaws_def loop_run.simps double_0_1 double_0_2 double_0_3 double_6_28
      global_yaws_step_0 global_yaws_step_1 global_yaws_step_2 global_yaws_step_3
      global_yaws_step_4 global_yaws_step_5 global_yaws_step_6 global_yaws_step_7
      global_yaws_step_8 global_yaws_step_9 global_yaws_step_10 global_yaws_step_11
      global_yaws_step_12 global_yaws_step_13 global_yaws_step_14 global_yaws_step_15
      global_yaws_step_16 global_yaws_step_17 global_yaws_step_18 global_yaws_step_19
      global_yaws_step_20 global_yaws_step_21 global_yaws_step_22 global_yaws_step_23
      global_yaws_step_24 global_yaws_step_25 global_yaws_step_26 global_yaws_step_27
      global_yaws_step_28 global_yaws_step_29 global_yaws_step_30 global_yaws_step_31
      global_yaws_step_32 global_yaws_step_33 global_yaws_step_34 global_yaws_step_35
      global_yaws_step_36 global_yaws_step_37 global_yaws_step_38 global_yaws_step_39
      global_yaws_step_40 global_yaws_step_41 global_yaws_step_42 global_yaws_step_43
      global_yaws_step_44 global_yaws_step_45 global_yaws_step_46 global_yaws_step_47
      global_yaws_step_48 global_yaws_step_49 global_yaws_step_50 global_yaws_step_51
      global_yaws_step_52 global_yaws_step_53 global_yaws_step_54 global_yaws_step_55
      global_yaws_step_56 global_yaws_step_57 global_yaws_step_58 global_yaws_step_59
      global_yaws_step_60 global_yaws_step_61 global_yaws_step_62)
     simp

subsection \<open>The samples\<close>

lemma local_da_run:
  "loop_run (\<lambda>v. round_to_double (v + round_to_double 0.1)) 1 da das \<Longrightarrow>
   local_da best dx dy da poses
     = Some (poses @ map (\<lambda>da. pose_mul best (make_pose dx dy da)) das)"
proof (induction das arbitrary: da poses)
  case Nil
  then show ?case by (subst local_da.simps) simp
next
  case (Cons w ws)
  then have c: "da < 1" and w: "w = da"
    and r: "loop_run (\<lambda>v. round_to_double (v + round_to_double 0.1)) 1
              (round_to_double (da + round_to_double 0.1)) ws" by simp_all
  show ?case using c Cons.IH[OF r] by (subst local_da.simps) (simp add: w)
qed

lemma local_dy_run:
  "loop_run (\<lambda>v. round_to_double (v + round_to_double 0.1)) (round_to_double 0.3) dy dys \<Longrightarrow>
   local_dy best dx dy poses
     = Some (poses @ concat (map (\<lambda>dy.
         map (\<lambda>da. pose_mul best (make_pose dx dy da)) window_yaws) dys))"
proof (induction dys arbitrary: dy poses)
  case Nil
  then show ?case by (subst local_dy.simps) simp
next
  case (Cons w ws)
  then have c: "dy < round_to_double 0.3" and w: "w = dy"
    and r: "loop_run (\<lambda>v. round_to_double (v + round_to_double 0.1)) (round_to_double 0.3)
              (round_to_double (dy + round_to_double 0.1)) ws" by simp_all
  show ?case using c Cons.IH[OF r] local_da_run[OF window_yaws_run, of best dx dy poses]
    by (subst local_dy.simps) (simp add: w)
qed

lemma local_dx_run:
  "loop_run (\<lambda>v. round_to_double (v + round_to_double 0.1)) (round_to_double 0.3) dx dxs \<Longrightarrow>
   local_dx best dx poses
     = Some (poses @ concat (map (\<lambda>dx. concat (map (\<lambda>dy.
         map (\<lambda>da. pose_mul best (make_pose dx dy da)) window_yaws) window_offsets)) dxs))"
proof (induction dxs arbitrary: dx poses)
  case Nil
  then show ?case by (subst local_dx.simps) simp
next
  case (Cons w ws)
  then have c: "dx < round_to_double 0.3" and w: "w = dx"
    and r: "loop_run (\<lambda>v. round_to_double (v + round_to_double 0.1)) (round_to_double 0.3)
              (round_to_double (dx + round_to_double 0.1)) ws" by simp_all
  show ?case using c Cons.IH[OF r] local_dy_run[OF window_offsets_run, of best dx poses]
    by (subst local_dx.simps) (simp add: w)
qed

lemma global_a_run:
  "loop_run (\<lambda>v. round_to_double (v + round_to_double 0.1)) (round_to_double 6.28) a as \<Longrightarrow>
   global_a x y a poses = Some (poses @ map (\<lambda>a. make_pose x y a) as)"
proof (induction as arbitrary: a poses)
  case Nil
  then show ?case by (subst global_a.simps) simp
next
  case (Cons w ws)
  then have c: "a < round_to_double 6.28" and w: "w = a"
    and r: "loop_run (\<lambda>v. round_to_double (v + round_to_double 0.1)) (round_to_double 6.28)
              (round_to_double (a + round_to_double 0.1)) ws" by simp_all
  show ?case using c Cons.IH[OF r] by (subst global_a.simps) (simp add: w)
qed

lemma global_y_run:
  "loop_run (\<lambda>v. round_to_double (v + round_to_double 0.2)) 5 y ys \<Longrightarrow>
   global_y x y poses
     = Some (poses @ concat (map (\<lambda>y. map (\<lambda>a. make_pose x y a) global_yaws) ys))"
proof (induction ys arbitrary: y poses)
  case Nil
  then show ?case by (subst global_y.simps) simp
next
  case (Cons w ws)
  then have c: "y < 5" and w: "w = y"
    and r: "loop_run (\<lambda>v. round_to_double (v + round_to_double 0.2)) 5
              (round_to_double (y + round_to_double 0.2)) ws" by simp_all
  show ?case using c Cons.IH[OF r] global_a_run[OF global_yaws_run, of x y poses]
    by (subst global_y.simps) (simp add: w)
qed

lemma global_x_run:
  "loop_run (\<lambda>v. round_to_double (v + round_to_double 0.2)) 5 x xs \<Longrightarrow>
   global_x x poses
     = Some (poses @ concat (map (\<lambda>x. concat (map (\<lambda>y.
         map (\<lambda>a. make_pose x y a) global_yaws) global_coords)) xs))"
proof (induction xs arbitrary: x poses)
  case Nil
  then show ?case by (subst global_x.simps) simp
next
  case (Cons w ws)
  then have c: "x < 5" and w: "w = x"
    and r: "loop_run (\<lambda>v. round_to_double (v + round_to_double 0.2)) 5
              (round_to_double (x + round_to_double 0.2)) ws" by simp_all
  show ?case using c Cons.IH[OF r] global_y_run[OF global_coords_run, of x poses]
    by (subst global_x.simps) (simp add: w)
qed

lemma create_samples_eq:
  "create_samples st
     = Some (if pose_initialized st
             then best_laser_pose st # window_grid (best_laser_pose st)
             else world_grid)"
  using local_dx_run[OF window_offsets_run, of "best_laser_pose st" "[best_laser_pose st]"]
    global_x_run[OF global_coords_run, of "[]"]
  by (simp add: create_samples_def window_grid_def world_grid_def)

text \<open>Length, first and last element of a grid of three nested loops.\<close>

lemma grid_length:
  "length (concat (map (\<lambda>x. concat (map (\<lambda>y. map (g x y) zs) ys)) xs))
     = length xs * (length ys * length zs)"
proof -
  have "length (concat (map (\<lambda>y. map (g x y) zs) ys)) = length ys * length zs" for x
    by (induction ys) simp_all
  then show ?thesis by (induction xs) simp_all
qed

lemma grid_hd:
  assumes "xs \<noteq> []" "ys \<noteq> []" "zs \<noteq> []"
  shows "concat (map (\<lambda>x. concat (map (\<lambda>y. map (g x y) zs) ys)) xs) \<noteq> []"
    and "hd (concat (map (\<lambda>x. concat (map (\<lambda>y. map (g x y) zs) ys)) xs))
           = g (hd xs) (hd ys) (hd zs)"
  using assms by (cases xs; cases ys; cases zs; simp)+

lemma grid_last:
  assumes "xs \<noteq> []" "ys \<noteq> []" "zs \<noteq> []"
  shows "last (concat (map (\<lambda>x. concat (map (\<lambda>y. map (g x y) zs) ys)) xs))
           = g (last xs) (last ys) (last zs)"
proof -
  have inner: "concat (map (\<lambda>y. map (g x y) zs) ys) \<noteq> []
      \<and> last (concat (map (\<lambda>y. map (g x y) zs) ys)) = g x (last ys) (last zs)" for x
    using assms(2,3) by (cases ys rule: rev_cases) (simp_all add: last_map)
  show ?thesis using assms(1) inner by (cases xs rule: rev_cases) simp_all
qed

lemma create_samples_nonempty: "\<exists>poses. create_samples st = Some poses \<and> poses \<noteq> []"
proof -
  have "world_grid \<noteq> []"
    unfolding world_grid_def by (rule grid_hd(1)) (simp_all add: global_coords_def global_yaws_def)
  then show ?thesis by (simp add: create_samples_eq)
qed

subsection \<open>Flags across cycles\<close>

lemma process_Completes_D:
  assumes "process rl st inp = Completes st'"
  shows "(laser_msg inp = None \<and> st' = st)
     \<or> (\<exists>msg srs m poses. laser_msg inp = Some msg \<and> subsample msg = Some srs
          \<and> create_samples (case odom_msg inp of None \<Rightarrow> st
                               | Some new_pose \<Rightarrow> odom_update st new_pose) = Some poses
          \<and> find_best rl (world_lines inp) srs poses
               (Fin 10000000000,
                (case odom_msg inp of None \<Rightarrow> st | Some new_pose \<Rightarrow> odom_update st new_pose)
                  \<lparr>lrf := update_lrf (lrf (case odom_msg inp of None \<Rightarrow> st
                                             | Some new_pose \<Rightarrow> odom_update st new_pose))
                             msg (length srs mod 2 ^ 32)\<rparr>)
              = Some (m, st'))"
  using assms by (auto simp: process_def Let_def split: option.splits)

lemma odom_update_flags:
  "have_previous_pose (odom_update st p)" "pose_initialized (odom_update st p) = pose_initialized st"
  by (simp_all add: odom_update_def Let_def)

lemma process_flags:
  assumes "process rl st inp = Completes st'"
  shows "have_previous_pose st' = (have_previous_pose st \<or> (laser_msg inp \<noteq> None \<and> odom_msg inp \<noteq> None))"
    and "pose_initialized st \<Longrightarrow> pose_initialized st'"
proof -
  let ?st1 = "case odom_msg inp of None \<Rightarrow> st | Some new_pose \<Rightarrow> odom_update st new_pose"
  have f1: "have_previous_pose ?st1 = (have_previous_pose st \<or> odom_msg inp \<noteq> None)"
    and i1: "pose_initialized ?st1 = pose_initialized st"
    by (simp_all add: odom_update_flags split: option.splits)
  from process_Completes_D[OF assms]
  have "have_previous_pose st' = (have_previous_pose st \<or> (laser_msg inp \<noteq> None \<and> odom_msg inp \<noteq> None))
        \<and> (pose_initialized st \<longrightarrow> pose_initialized st')"
  proof
    assume "laser_msg inp = None \<and> st' = st"
    then show ?thesis by simp
  next
    assume "\<exists>msg srs m poses. laser_msg inp = Some msg \<and> subsample msg = Some srs
          \<and> create_samples ?st1 = Some poses
          \<and> find_best rl (world_lines inp) srs poses
               (Fin 10000000000, ?st1\<lparr>lrf := update_lrf (lrf ?st1) msg (length srs mod 2 ^ 32)\<rparr>)
              = Some (m, st')"
    then obtain msg srs m poses where l: "laser_msg inp = Some msg"
      and fb: "find_best rl (world_lines inp) srs poses
               (Fin 10000000000, ?st1\<lparr>lrf := update_lrf (lrf ?st1) msg (length srs mod 2 ^ 32)\<rparr>)
              = Some (m, st')" by blast
    from find_best_frame[OF fb] f1 i1 l show ?thesis by simp
  qed
  then show "have_previous_pose st' = (have_previous_pose st \<or> (laser_msg inp \<noteq> None \<and> odom_msg inp \<noteq> None))"
    and "pose_initialized st \<Longrightarrow> pose_initialized st'" by simp_all
qed

lemma run_flags:
  "run rl st inps = Completes st' \<Longrightarrow>
     (have_previous_pose st \<longrightarrow> have_previous_pose st')
     \<and> (pose_initialized st \<longrightarrow> pose_initialized st')"
proof (induction inps arbitrary: st)
  case Nil
  then show ?case by simp
next
  case (Cons inp inps)
  from Cons.prems obtain st1 where p: "process rl st inp = Completes st1"
    and r: "run rl st1 inps = Completes st'"
    by (cases "process rl st inp") simp_all
  from process_flags[OF p] Cons.IH[OF r] show ?case by blast
qed



subsection \<open>The search in a cycle\<close>

lemma cap_below_start:
  assumes "n < (2::nat) ^ 32"
  shows "0.09 * real n < (10000000000::real)"
proof -
  have "real n < 2 ^ 32" using assms by (metis of_nat_less_iff of_nat_numeral of_nat_power)
  then show ?thesis by simp
qed

lemma find_best_from_start:
  assumes ok: "renders_in_place rl" and sub: "subsample msg = Some srs" and ne: "poses \<noteq> []"
  shows "\<exists>k min_e. k < length poses
          \<and> find_best rl lines srs poses (Fin 10000000000, st)
               = Some (Fin min_e, st\<lparr>best_laser_pose := poses ! k, pose_initialized := True\<rparr>)
          \<and> sample_error rl (lrf st) lines srs (poses ! k) = Some (Fin min_e)
          \<and> (\<forall>j<length poses. \<exists>e. sample_error rl (lrf st) lines srs (poses ! j) = Some (Fin e)
                 \<and> min_e \<le> e \<and> (j < k \<longrightarrow> min_e < e))"
proof -
  define g where "g p = (case sample_error rl (lrf st) lines srs p of Some (Fin v) \<Rightarrow> v | _ \<Rightarrow> 0)" for p
  have nan: "NaN \<notin> set srs" and len: "length srs < 2 ^ 32" using subsample_result[OF sub] by simp_all
  have gv: "sample_error rl (lrf st) lines srs p = Some (Fin (g p)) \<and> g p < 10000000000" for p
  proof -
    from sample_error_bounded[OF ok nan, of "lrf st" lines p] obtain v where
      v: "sample_error rl (lrf st) lines srs p = Some (Fin v)" "v \<le> 0.09 * real (length srs)" by blast
    then have "g p = v" by (simp add: g_def)
    then show ?thesis using v cap_below_start[OF len] by simp
  qed
  then have "\<forall>p\<in>set poses. sample_error rl (lrf st) lines srs p = Some (Fin (g p))" by simp
  from find_best_first_minimum[OF this, of 10000000000] obtain m' st' where
    r: "find_best rl lines srs poses (Fin 10000000000, st) = Some (Fin m', st')"
    and d: "(\<forall>p\<in>set poses. \<not> g p < 10000000000) \<and> m' = 10000000000 \<and> st' = st
            \<or> (\<exists>k<length poses. m' = g (poses ! k) \<and> m' < 10000000000
                  \<and> (\<forall>j<length poses. m' \<le> g (poses ! j))
                  \<and> (\<forall>j<k. m' < g (poses ! j))
                  \<and> st' = st\<lparr>best_laser_pose := poses ! k, pose_initialized := True\<rparr>)"
    by blast
  have "\<not> (\<forall>p\<in>set poses. \<not> g p < 10000000000)" using ne gv by (cases poses) auto
  with d obtain k where k: "k < length poses" "m' = g (poses ! k)"
    "\<forall>j<length poses. m' \<le> g (poses ! j)" "\<forall>j<k. m' < g (poses ! j)"
    "st' = st\<lparr>best_laser_pose := poses ! k, pose_initialized := True\<rparr>" by blast
  have "\<forall>j<length poses. \<exists>e. sample_error rl (lrf st) lines srs (poses ! j) = Some (Fin e)
                 \<and> m' \<le> e \<and> (j < k \<longrightarrow> m' < e)"
    using gv k(3,4) by blast
  then show ?thesis using r k(1,2,5) gv by blast
qed

lemma process_with_scan:
  assumes ok: "renders_in_place rl" and l: "laser_msg inp = Some msg" and sub: "subsample msg = Some srs"
  shows "\<exists>st' poses k min_e.
           create_samples (case odom_msg inp of None \<Rightarrow> st
                           | Some new_pose \<Rightarrow> odom_update st new_pose) = Some poses
         \<and> process rl st inp = Completes st' \<and> pose_initialized st'
         \<and> k < length poses \<and> best_laser_pose st' = poses ! k
         \<and> sample_error rl (lrf st') (world_lines inp) srs (poses ! k) = Some (Fin min_e)
         \<and> (\<forall>j<length poses. \<exists>e.
                sample_error rl (lrf st') (world_lines inp) srs (poses ! j) = Some (Fin e)
              \<and> min_e \<le> e \<and> (j < k \<longrightarrow> min_e < e))"
proof -
  let ?st1 = "case odom_msg inp of None \<Rightarrow> st | Some new_pose \<Rightarrow> odom_update st new_pose"
  let ?st2 = "?st1\<lparr>lrf := update_lrf (lrf ?st1) msg (length srs mod 2 ^ 32)\<rparr>"
  from create_samples_nonempty[of ?st1] obtain poses where
    cs: "create_samples ?st1 = Some poses" and ne: "poses \<noteq> []" by blast
  from find_best_from_start[OF ok sub ne, of "world_lines inp" ?st2]
  obtain k min_e where k: "k < length poses"
    and fb: "find_best rl (world_lines inp) srs poses (Fin 10000000000, ?st2)
               = Some (Fin min_e, ?st2\<lparr>best_laser_pose := poses ! k, pose_initialized := True\<rparr>)"
    and ek: "sample_error rl (lrf ?st2) (world_lines inp) srs (poses ! k) = Some (Fin min_e)"
    and all: "\<forall>j<length poses. \<exists>e.
                sample_error rl (lrf ?st2) (world_lines inp) srs (poses ! j) = Some (Fin e)
              \<and> min_e \<le> e \<and> (j < k \<longrightarrow> min_e < e)"
    by blast
  let ?st3 = "?st2\<lparr>best_laser_pose := poses ! k, pose_initialized := True\<rparr>"
  have p: "process rl st inp = Completes ?st3"
    using l sub cs fb by (simp add: process_def Let_def)
  have lr: "lrf ?st3 = lrf ?st2" by simp
  show ?thesis
    using cs p k ek all by (intro exI[of _ ?st3] exI[of _ poses] exI[of _ k] exI[of _ min_e])
      (simp only: lr, simp)
qed

subsection \<open>Evaluating the example inputs\<close>

lemma beam0_renderer_in_place: "renders_in_place beam0_renderer"
proof -
  have "finite_ranges (mr[0 := Fin v])" if "finite_ranges mr" for mr v
    unfolding finite_ranges_def list_all_length
  proof (intro allI impI)
    fix n assume n: "n < length (mr[0 := Fin v])"
    show "case mr[0 := Fin v] ! n of Fin v \<Rightarrow> True | _ \<Rightarrow> False"
    proof (cases n)
      case 0
      then show ?thesis using n by simp
    next
      case (Suc k)
      then show ?thesis using n that by (simp add: finite_ranges_def list_all_length)
    qed
  qed
  then show ?thesis by (simp add: renders_in_place_def beam0_renderer_def)
qed

lemma subsample_flat_scan_100: "subsample (flat_scan 100) = Some (replicate 100 (Fin 1))"
proof -
  have s: "i_step_of (flat_scan 100) = 1" by (simp add: i_step_of_def flat_scan_def)
  have "subsample_loop (flat_scan 100) 1 0 [] =
     Some ([] @ map (\<lambda>j. check_range (ranges (flat_scan 100) ! (0 + j * 1)) (range_max (flat_scan 100)))
                   [0..<(length (ranges (flat_scan 100)) - 0 + 1 - 1) div 1])"
    by (rule subsample_loop_no_wrap) (simp_all add: flat_scan_def)
  moreover have "(length (ranges (flat_scan 100)) - 0 + 1 - 1) div 1 = 100"
    by (simp add: flat_scan_def)
  moreover have "map (\<lambda>j. check_range (ranges (flat_scan 100) ! (0 + j * 1)) (range_max (flat_scan 100)))
                   [0..<100] = replicate 100 (Fin 1)"
    by (rule nth_equalityI) (simp_all add: flat_scan_def check_range_def dbl_gt_def)
  ultimately show ?thesis using s by (simp add: subsample_def)
qed

lemma error_loop_sum:
  assumes "\<forall>i\<in>set idx. i < length mrs \<and> beam_error (srs ! i) (mrs ! i) = Fin (e i)"
  shows "error_loop srs mrs idx (Fin a) = Some (Fin (a + sum_list (map e idx)))"
  using assms by (induction idx arbitrary: a) (simp_all add: add.assoc)

lemma example_sample_error:
  "sample_error beam0_renderer l [(Vec2 (- 1) 1, Vec2 1 1)] (replicate 100 (Fin 1)) (make_pose x y 0)
     = Some (Fin ((min \<bar>1 - \<bar>- 1 - x\<bar>\<bar> 0.3)\<^sup>2 + 8.91))"
proof -
  let ?mrs = "(replicate 100 (Fin 0))[0 := Fin \<bar>- 1 - x\<bar>]"
  let ?e = "\<lambda>i::nat. if i = 0 then (min \<bar>1 - \<bar>- 1 - x\<bar>\<bar> 0.3)\<^sup>2 else (0.09::real)"
  have m: "model_ranges beam0_renderer l (sample_transform (make_pose x y 0))
             [(Vec2 (- 1) 1, Vec2 1 1)] 100 = ?mrs"
    by (simp add: model_ranges_def beam0_renderer_def sample_transform_def make_pose_no_yaw)
  have "\<forall>i\<in>set [0..<100]. i < length ?mrs
          \<and> beam_error (replicate 100 (Fin 1) ! i) (?mrs ! i) = Fin (?e i)"
    by (auto simp: beam_error_finite nth_list_update power2_eq_square)
  from error_loop_sum[OF this, of 0]
  have "error_loop (replicate 100 (Fin 1)) ?mrs [0..<100] (Fin 0)
          = Some (Fin (0 + sum_list (map ?e [0..<100])))" .
  moreover have "sum_list (map ?e [0..<100]) = ?e 0 + sum_list (map ?e [1..<100])"
    by (simp add: upt_conv_Cons[of 0 100])
  moreover have "sum_list (map ?e [1..<100]) = sum_list (map (\<lambda>i. 0.09) [1..<100])"
    by (rule arg_cong[where f = sum_list], rule map_cong) simp_all
  moreover have "sum_list (map (\<lambda>i. 0.09::real) [1..<100]) = 8.91"
    by (simp add: sum_list_triv)
  ultimately show ?thesis by (simp add: sample_error_def sum_sq_error_def m)
qed

subsection \<open>Claims about the search\<close>

text \<open>
  C7. For a non-empty list of samples, scored against the sensor ranges of a scan with a
  renderer that keeps its contract, the loop ends with the best pose set to a sample of
  minimal error, and to the first one in the list among those of minimal error.
\<close>

theorem best_sample_is_first_minimum:
  assumes "renders_in_place render_line" and "subsample msg = Some srs" and "poses \<noteq> []"
  shows "\<exists>k min_e st'.
           find_best render_line lines srs poses (Fin 10000000000, st) = Some (Fin min_e, st')
         \<and> k < length poses \<and> best_laser_pose st' = poses ! k
         \<and> sample_error render_line (lrf st) lines srs (poses ! k) = Some (Fin min_e)
         \<and> (\<forall>j<length poses. \<exists>e.
                sample_error render_line (lrf st) lines srs (poses ! j) = Some (Fin e)
              \<and> min_e \<le> e \<and> (j < k \<longrightarrow> min_e < e))"
proof -
  from find_best_from_start[OF assms, of lines st] obtain k min_e where
    "k < length poses"
    "find_best render_line lines srs poses (Fin 10000000000, st)
       = Some (Fin min_e, st\<lparr>best_laser_pose := poses ! k, pose_initialized := True\<rparr>)"
    "sample_error render_line (lrf st) lines srs (poses ! k) = Some (Fin min_e)"
    "\<forall>j<length poses. \<exists>e. sample_error render_line (lrf st) lines srs (poses ! j) = Some (Fin e)
         \<and> min_e \<le> e \<and> (j < k \<longrightarrow> min_e < e)"
    by blast
  then show ?thesis
    by (intro exI[of _ k] exI[of _ min_e]
          exI[of _ "st\<lparr>best_laser_pose := poses ! k, pose_initialized := True\<rparr>"]) simp
qed

text \<open>
  Four samples with errors 9, 8.91, 9 and 8.91: the second one is selected, not the
  fourth.
\<close>

theorem best_sample_is_first_minimum_witness:
  "\<exists>st'. find_best beam0_renderer [(Vec2 (- 1) 1, Vec2 1 1)] (replicate 100 (Fin 1))
            [make_pose 1 0 0, make_pose 0 0 0, make_pose 2 0 0, make_pose 0 5 0]
            (Fin 10000000000, LocalizationPlugin (make_pose 0 0 0) (make_pose 0 0 0) example_lrf)
          = Some (Fin 8.91, st')
        \<and> best_laser_pose st' = make_pose 0 0 0"
proof -
  let ?poses = "[make_pose 1 0 0, make_pose 0 0 0, make_pose 2 0 0, make_pose 0 5 0]"
  let ?lines = "[(Vec2 (- 1) 1, Vec2 1 1)]"
  let ?srs = "replicate 100 (Fin 1)"
  let ?st = "LocalizationPlugin (make_pose 0 0 0) (make_pose 0 0 0) example_lrf"
  have ne: "?poses \<noteq> []" by simp
  have e0: "sample_error beam0_renderer (lrf ?st) ?lines ?srs (?poses ! 0) = Some (Fin 9)"
    and e1: "sample_error beam0_renderer (lrf ?st) ?lines ?srs (?poses ! 1) = Some (Fin 8.91)"
    and e2: "sample_error beam0_renderer (lrf ?st) ?lines ?srs (?poses ! 2) = Some (Fin 9)"
    and e3: "sample_error beam0_renderer (lrf ?st) ?lines ?srs (?poses ! 3) = Some (Fin 8.91)"
    by (simp_all add: example_sample_error power2_eq_square)
  from best_sample_is_first_minimum[OF beam0_renderer_in_place subsample_flat_scan_100 ne,
      of ?lines ?st]
  obtain k min_e st' where
    fb: "find_best beam0_renderer ?lines ?srs ?poses (Fin 10000000000, ?st) = Some (Fin min_e, st')"
    and k: "k < length ?poses" and best: "best_laser_pose st' = ?poses ! k"
    and ek: "sample_error beam0_renderer (lrf ?st) ?lines ?srs (?poses ! k) = Some (Fin min_e)"
    and all: "\<forall>j<length ?poses. \<exists>e.
                sample_error beam0_renderer (lrf ?st) ?lines ?srs (?poses ! j) = Some (Fin e)
              \<and> min_e \<le> e \<and> (j < k \<longrightarrow> min_e < e)"
    by blast
  have same: "a = b" if "x = Some (Fin a)" "x = Some (Fin b)"
    for x :: "dbl option" and a b :: real
    using that by simp
  have "(1::nat) < length ?poses" by simp
  from all[rule_format, OF this] obtain e where
    e: "sample_error beam0_renderer (lrf ?st) ?lines ?srs (?poses ! 1) = Some (Fin e)"
    and "min_e \<le> e" "1 < k \<longrightarrow> min_e < e" by blast
  moreover have "e = 8.91" by (rule same[OF e e1])
  ultimately have le: "min_e \<le> 8.91" and lt: "1 < k \<longrightarrow> min_e < 8.91" by blast+
  from k have "k = 0 \<or> k = 1 \<or> k = 2 \<or> k = 3" by (simp add: less_Suc_eq numeral_eq_Suc)
  then have k1: "k = 1"
  proof (elim disjE)
    assume k0: "k = 0"
    have "min_e = 9" by (rule same[OF ek[unfolded k0] e0])
    with le show ?thesis by simp
  next
    assume k2: "k = 2"
    have "min_e = 9" by (rule same[OF ek[unfolded k2] e2])
    with le show ?thesis by simp
  next
    assume k3: "k = 3"
    have "min_e = 8.91" by (rule same[OF ek[unfolded k3] e3])
    with lt k3 show ?thesis by simp
  qed
  have "min_e = 8.91" by (rule same[OF ek[unfolded k1] e1])
  with k1 best fb show ?thesis by simp
qed

subsection \<open>Claims about the error of a sample\<close>

lemma sum_sq_error_terms:
  assumes "NaN \<notin> set srs" "finite_ranges mrs" "length mrs = length srs"
  shows "\<exists>es. length es = length srs \<and> sum_sq_error srs mrs = Some (Fin (sum_list es))
           \<and> (\<forall>i<length srs. 0 \<le> es ! i \<and> es ! i \<le> 0.09
                \<and> beam_error (srs ! i) (mrs ! i) = Fin (es ! i)
                \<and> (\<forall>s m. srs ! i = Fin s \<and> mrs ! i = Fin m \<longrightarrow> es ! i = (min \<bar>s - m\<bar> 0.3)\<^sup>2)
                \<and> (srs ! i = PInf \<or> srs ! i = NInf \<longrightarrow> es ! i = 0.09))"
proof -
  define e where "e i = (case beam_error (srs ! i) (mrs ! i) of Fin v \<Rightarrow> v | _ \<Rightarrow> 0)" for i
  have tm: "0 \<le> e i \<and> e i \<le> 0.09 \<and> beam_error (srs ! i) (mrs ! i) = Fin (e i)
                \<and> (\<forall>s m. srs ! i = Fin s \<and> mrs ! i = Fin m \<longrightarrow> e i = (min \<bar>s - m\<bar> 0.3)\<^sup>2)
                \<and> (srs ! i = PInf \<or> srs ! i = NInf \<longrightarrow> e i = 0.09)"
    if i: "i < length srs" for i
  proof -
    have nn: "srs ! i \<noteq> NaN" using assms(1) i by (metis nth_mem)
    obtain m where m: "mrs ! i = Fin m" using finite_ranges_nth[OF assms(2)] i assms(3) by auto
    from beam_error_bounded[OF nn, of m] obtain v where
      v: "beam_error (srs ! i) (Fin m) = Fin v" "0 \<le> v" "v \<le> 0.09" by blast
    then have ev: "e i = v" by (simp add: e_def m)
    have fin: "\<forall>s m'. srs ! i = Fin s \<and> mrs ! i = Fin m' \<longrightarrow> e i = (min \<bar>s - m'\<bar> 0.3)\<^sup>2"
      using m v(1) ev by (auto simp: beam_error_finite)
    have inf: "srs ! i = PInf \<or> srs ! i = NInf \<longrightarrow> e i = 0.09"
      using v(1) ev by (auto simp: beam_error_infinite)
    show ?thesis using v ev m fin inf by simp
  qed
  have "\<forall>i\<in>set [0..<length srs]. i < length mrs \<and> beam_error (srs ! i) (mrs ! i) = Fin (e i)"
    using tm assms(3) by simp
  from error_loop_sum[OF this, of 0]
  have "sum_sq_error srs mrs = Some (Fin (sum_list (map e [0..<length srs])))"
    by (simp add: sum_sq_error_def)
  moreover have "length (map e [0..<length srs]) = length srs" by simp
  moreover have "\<forall>i<length srs. map e [0..<length srs] ! i = e i" by simp
  ultimately show ?thesis using tm
    by (intro exI[of _ "map e [0..<length srs]"]) simp
qed

text \<open>
  C6. For every sample and every beam, the beam adds
  \<open>(min(|sensor_range - model_range|, 0.3))\<^sup>2\<close> to the accumulated error of the sample,
  which is at most 0.09: the accumulated error is the sum of one such term per beam. The
  sensor ranges hold no NaN (\<open>subsample_result\<close>) and the model ranges are finite (the
  renderer's contract); for an infinite sensor range the term is \<open>0.3\<^sup>2\<close>, and no pair of
  doubles gives a term above 0.09.
\<close>

theorem beam_error_capped:
  "beam_error (Fin s) (Fin m) = Fin ((min \<bar>s - m\<bar> 0.3)\<^sup>2)
   \<and> (min \<bar>s - m\<bar> 0.3)\<^sup>2 \<le> 0.09
   \<and> (\<exists>e. beam_error (check_range r rmax) (Fin m) = Fin e \<and> 0 \<le> e \<and> e \<le> 0.09)
   \<and> \<not> dbl_gt (beam_error sr mr) (Fin 0.09)
   \<and> (NaN \<notin> set srs \<and> finite_ranges mrs \<and> length mrs = length srs \<longrightarrow>
        (\<exists>es. length es = length srs \<and> sum_sq_error srs mrs = Some (Fin (sum_list es))
           \<and> (\<forall>i<length srs. 0 \<le> es ! i \<and> es ! i \<le> 0.09
                \<and> beam_error (srs ! i) (mrs ! i) = Fin (es ! i)
                \<and> (\<forall>s m. srs ! i = Fin s \<and> mrs ! i = Fin m \<longrightarrow> es ! i = (min \<bar>s - m\<bar> 0.3)\<^sup>2)
                \<and> (srs ! i = PInf \<or> srs ! i = NInf \<longrightarrow> es ! i = 0.09))))
   \<and> (renders_in_place render_line \<longrightarrow>
        sample_error render_line l lines srs laser_pose
          = sum_sq_error srs
              (model_ranges render_line l (sample_transform laser_pose) lines (length srs))
        \<and> finite_ranges
              (model_ranges render_line l (sample_transform laser_pose) lines (length srs))
        \<and> length (model_ranges render_line l (sample_transform laser_pose) lines (length srs))
            = length srs)"
  using beam_error_finite[of s m] capped_square_le[of "s - m"]
    beam_error_bounded[OF check_range_not_NaN, of r rmax m] beam_error_never_above_cap[of sr mr]
    sum_sq_error_terms[of srs mrs]
    model_ranges_ok[of render_line l "sample_transform laser_pose" lines "length srs"]
  by (simp add: sample_error_def)

lemma sum_list_3: "length xs = 3 \<Longrightarrow> sum_list xs = xs ! 0 + (xs ! 1 + xs ! 2)" for xs :: "real list"
proof -
  assume "length xs = 3"
  then obtain a b c where "xs = [a, b, c]"
    by (cases xs; cases "tl xs"; cases "tl (tl xs)"; simp)
  then show ?thesis by simp
qed

text \<open>
  Sensor ranges 1, 5 and minus infinity against model ranges 1.25, 0 and 2: the terms are
  \<open>0.25\<^sup>2\<close>, \<open>0.3\<^sup>2\<close> and \<open>0.3\<^sup>2\<close>, and the error is their sum. The same sum comes out for a
  sample whose model ranges the example renderer writes.
\<close>

theorem beam_error_capped_witness:
  "sum_sq_error [Fin 1, Fin 5, NInf] [Fin 1.25, Fin 0, Fin 2] = Some (Fin 0.2425)
   \<and> sample_error beam0_renderer example_lrf [(Vec2 (- 1) 1, Vec2 1 1)]
        [Fin 1.25, Fin 5, NInf] (make_pose 0 0 0) = Some (Fin 0.2425)"
proof -
  have v: "(min \<bar>1 - 1.25\<bar> 0.3)\<^sup>2 + ((min \<bar>5 - 0\<bar> 0.3)\<^sup>2 + 0.09) = (0.2425::real)"
          "(min \<bar>1.25 - 1\<bar> 0.3)\<^sup>2 + ((min \<bar>5 - 0\<bar> 0.3)\<^sup>2 + 0.09) = (0.2425::real)"
    by (simp_all add: power2_eq_square)
  have a: "sum_sq_error [Fin 1, Fin 5, NInf] [Fin 1.25, Fin 0, Fin 2] = Some (Fin 0.2425)"
  proof -
    let ?srs = "[Fin 1, Fin 5, NInf]" and ?mrs = "[Fin 1.25, Fin 0, Fin 2]"
    have h: "NaN \<notin> set ?srs \<and> finite_ranges ?mrs \<and> length ?mrs = length ?srs"
      by (simp add: finite_ranges_def)
    with beam_error_capped[where srs = ?srs and mrs = ?mrs] obtain es where
      len: "length es = length ?srs" and sum: "sum_sq_error ?srs ?mrs = Some (Fin (sum_list es))"
      and all: "\<forall>i<length ?srs. 0 \<le> es ! i \<and> es ! i \<le> 0.09
                \<and> beam_error (?srs ! i) (?mrs ! i) = Fin (es ! i)
                \<and> (\<forall>s m. ?srs ! i = Fin s \<and> ?mrs ! i = Fin m \<longrightarrow> es ! i = (min \<bar>s - m\<bar> 0.3)\<^sup>2)
                \<and> (?srs ! i = PInf \<or> ?srs ! i = NInf \<longrightarrow> es ! i = 0.09)"
      by blast
    have "(0::nat) < length ?srs" "(1::nat) < length ?srs" "(2::nat) < length ?srs" by simp_all
    note f = all[rule_format, OF this(1)] all[rule_format, OF this(2)] all[rule_format, OF this(3)]
    have "?srs ! 0 = Fin 1 \<and> ?mrs ! 0 = Fin 1.25" "?srs ! 1 = Fin 5 \<and> ?mrs ! 1 = Fin 0"
      "?srs ! 2 = PInf \<or> ?srs ! 2 = NInf" by simp_all
    with f have "es ! 0 = (min \<bar>1 - 1.25\<bar> 0.3)\<^sup>2" "es ! 1 = (min \<bar>5 - 0\<bar> 0.3)\<^sup>2"
      "es ! 2 = 0.09" by blast+
    moreover have "sum_list es = es ! 0 + (es ! 1 + es ! 2)" using len by (intro sum_list_3) simp
    ultimately have "sum_list es = 0.2425" using v(1) by (simp only:)
    with sum show ?thesis by (simp only:)
  qed
  have b: "sample_error beam0_renderer example_lrf [(Vec2 (- 1) 1, Vec2 1 1)]
        [Fin 1.25, Fin 5, NInf] (make_pose 0 0 0) = Some (Fin 0.2425)"
  proof -
    let ?srs = "[Fin 1.25, Fin 5, NInf]" and ?mrs = "[Fin 1, Fin 0, Fin 0]"
    have mr: "model_ranges beam0_renderer example_lrf (sample_transform (make_pose 0 0 0))
                [(Vec2 (- 1) 1, Vec2 1 1)] (length ?srs) = ?mrs"
      by (simp add: model_ranges_def beam0_renderer_def sample_transform_def make_pose_no_yaw
          numeral_3_eq_3)
    from beam_error_capped[where render_line = beam0_renderer and l = example_lrf
        and lines = "[(Vec2 (- 1) 1, Vec2 1 1)]" and srs = ?srs and laser_pose = "make_pose 0 0 0"]
      beam0_renderer_in_place
    have se: "sample_error beam0_renderer example_lrf [(Vec2 (- 1) 1, Vec2 1 1)] ?srs (make_pose 0 0 0)
                = sum_sq_error ?srs ?mrs"
      by (simp only: mr)
    have h: "NaN \<notin> set ?srs \<and> finite_ranges ?mrs \<and> length ?mrs = length ?srs"
      by (simp add: finite_ranges_def)
    with beam_error_capped[where srs = ?srs and mrs = ?mrs] obtain es where
      len: "length es = length ?srs" and sum: "sum_sq_error ?srs ?mrs = Some (Fin (sum_list es))"
      and all: "\<forall>i<length ?srs. 0 \<le> es ! i \<and> es ! i \<le> 0.09
                \<and> beam_error (?srs ! i) (?mrs ! i) = Fin (es ! i)
                \<and> (\<forall>s m. ?srs ! i = Fin s \<and> ?mrs ! i = Fin m \<longrightarrow> es ! i = (min \<bar>s - m\<bar> 0.3)\<^sup>2)
                \<and> (?srs ! i = PInf \<or> ?srs ! i = NInf \<longrightarrow> es ! i = 0.09)"
      by blast
    have "(0::nat) < length ?srs" "(1::nat) < length ?srs" "(2::nat) < length ?srs" by simp_all
    note f = all[rule_format, OF this(1)] all[rule_format, OF this(2)] all[rule_format, OF this(3)]
    have "?srs ! 0 = Fin 1.25 \<and> ?mrs ! 0 = Fin 1" "?srs ! 1 = Fin 5 \<and> ?mrs ! 1 = Fin 0"
      "?srs ! 2 = PInf \<or> ?srs ! 2 = NInf" by simp_all
    with f have "es ! 0 = (min \<bar>1.25 - 1\<bar> 0.3)\<^sup>2" "es ! 1 = (min \<bar>5 - 0\<bar> 0.3)\<^sup>2"
      "es ! 2 = 0.09" by blast+
    moreover have "sum_list es = es ! 0 + (es ! 1 + es ! 2)" using len by (intro sum_list_3) simp
    ultimately have "sum_list es = 0.2425" using v(2) by (simp only:)
    with sum se show ?thesis by (simp only:)
  qed
  from a b show ?thesis by (rule conjI)
qed

subsection \<open>Claims about the samples\<close>

lemma window_grid_member:
  assumes "c \<in> set (window_grid best)"
  shows "\<exists>dx\<in>set window_offsets. \<exists>dy\<in>set window_offsets. \<exists>da\<in>set window_yaws.
           c = pose_mul best (make_pose dx dy da)"
  using assms by (auto simp: window_grid_def)

lemma pose_mul_make_pose:
  "pose_t (pose_mul best (make_pose dx dy da))
       = vec3_add (mat3_vec (pose_R best) (Vector3 dx dy 0)) (pose_t best)"
  "pose_R (pose_mul best (make_pose dx dy da)) = mat3_mul (pose_R best) (setRPY 0 0 da)"
  by (cases best; simp add: make_pose_def)+

lemma window_offsets_nominal:
  "list_all2 (\<lambda>v i. \<bar>v - (- 0.3 + real i / 10)\<bar> \<le> 1 / 10 ^ 15) window_offsets [0..<6]"
  by (simp add: window_offsets_def upt_rec)

lemma window_yaws_nominal:
  "list_all2 (\<lambda>v i. \<bar>v - (- 1 + real i / 10)\<bar> \<le> 1 / 10 ^ 15) window_yaws [0..<21]"
  by (simp add: window_yaws_def upt_rec)

text \<open>
  C10. In local mode the first sample is the best pose itself, and the samples after it
  are exactly the window grid: \<open>best_laser_pose * dT\<close> for every offset \<open>(dx, dy)\<close> and yaw
  \<open>da\<close> that the loop variables take, in the order of the loops. The loop variables take
  the values of \<open>window_offsets\<close> (6 values, the doubles next to -0.3, -0.2, \<dots>, 0.2) and of
  \<open>window_yaws\<close> (21 values, the doubles next to -1, -0.9, \<dots>, 0.9 and 1: the last one is
  just below 1). The offset is composed on the right, so the translation of a sample is
  the best pose's rotation applied to \<open>(dx, dy, 0)\<close>, plus the best pose's translation.
\<close>

theorem local_samples_compose_on_the_right:
  assumes "pose_initialized st"
  shows "create_samples st = Some (best_laser_pose st # window_grid (best_laser_pose st))
   \<and> (\<forall>c\<in>set (window_grid (best_laser_pose st)).
         \<exists>dx\<in>set window_offsets. \<exists>dy\<in>set window_offsets. \<exists>da\<in>set window_yaws.
           c = pose_mul (best_laser_pose st) (make_pose dx dy da))
   \<and> window_grid best
       = concat (map (\<lambda>dx. concat (map (\<lambda>dy.
           map (\<lambda>da. pose_mul best (make_pose dx dy da)) window_yaws) window_offsets))
           window_offsets)
   \<and> loop_run (\<lambda>v. round_to_double (v + round_to_double 0.1)) (round_to_double 0.3)
        (- round_to_double 0.3) window_offsets
   \<and> loop_run (\<lambda>v. round_to_double (v + round_to_double 0.1)) 1 (- 1) window_yaws
   \<and> list_all2 (\<lambda>v i. \<bar>v - (- 0.3 + real i / 10)\<bar> \<le> 1 / 10 ^ 15) window_offsets [0..<6]
   \<and> list_all2 (\<lambda>v i. \<bar>v - (- 1 + real i / 10)\<bar> \<le> 1 / 10 ^ 15) window_yaws [0..<21]
   \<and> pose_t (pose_mul best (make_pose dx dy da))
       = vec3_add (mat3_vec (pose_R best) (Vector3 dx dy 0)) (pose_t best)
   \<and> pose_R (pose_mul best (make_pose dx dy da)) = mat3_mul (pose_R best) (setRPY 0 0 da)"
proof -
  have 1: "create_samples st = Some (best_laser_pose st # window_grid (best_laser_pose st))"
    using assms by (simp add: create_samples_eq)
  have 2: "\<forall>c\<in>set (window_grid (best_laser_pose st)).
         \<exists>dx\<in>set window_offsets. \<exists>dy\<in>set window_offsets. \<exists>da\<in>set window_yaws.
           c = pose_mul (best_laser_pose st) (make_pose dx dy da)"
    using window_grid_member by blast
  show ?thesis
    using 1 2 window_offsets_run window_yaws_run window_offsets_nominal window_yaws_nominal
      pose_mul_make_pose[of best dx dy da]
    by (simp only: window_grid_def simp_thms)
qed

text \<open>
  Around the best pose at \<open>(2, 1)\<close> with yaw \<open>\<pi>/2\<close> there are 757 samples. The first is the
  best pose. The second has the first offsets \<open>dx = dy = -0.3\<close> and yaw \<open>-1\<close>; its translation
  is \<open>(2 + 0.3, 1 - 0.3, 0)\<close>, the offset turned by \<open>\<pi>/2\<close>. The last has the last offsets
  and the 21st yaw, just below 1.
\<close>

theorem local_samples_compose_on_the_right_witness:
  "\<exists>poses. create_samples \<lparr>pose_initialized = True, have_previous_pose = False,
         previous_pose = make_pose 0 0 0, best_laser_pose = make_pose 2 1 (pi / 2),
         lrf = example_lrf\<rparr> = Some poses
     \<and> length poses = 757
     \<and> poses ! 0 = make_pose 2 1 (pi / 2)
     \<and> poses ! 1 = pose_mul (make_pose 2 1 (pi / 2))
                     (make_pose (- (5404319552844595 / 18014398509481984))
                        (- (5404319552844595 / 18014398509481984)) (- 1))
     \<and> pose_t (poses ! 1)
         = Vector3 (41433116571808563 / 18014398509481984)
             (12610078956637389 / 18014398509481984) 0
     \<and> last poses = pose_mul (make_pose 2 1 (pi / 2))
                     (make_pose (7205759403792795 / 36028797018963968)
                        (7205759403792795 / 36028797018963968)
                        (4503599627370495 / 4503599627370496))"
proof -
  let ?best = "make_pose 2 1 (pi / 2)"
  let ?st = "\<lparr>pose_initialized = True, have_previous_pose = False,
         previous_pose = make_pose 0 0 0, best_laser_pose = ?best, lrf = example_lrf\<rparr>"
  have i: "pose_initialized ?st" by simp
  from local_samples_compose_on_the_right[OF i, of ?best "- (5404319552844595 / 18014398509481984)"
      "- (5404319552844595 / 18014398509481984)" "- 1"]
  have cs: "create_samples ?st = Some (?best # window_grid ?best)"
    and t: "pose_t (pose_mul ?best (make_pose (- (5404319552844595 / 18014398509481984))
                        (- (5404319552844595 / 18014398509481984)) (- 1)))
       = vec3_add (mat3_vec (pose_R ?best) (Vector3 (- (5404319552844595 / 18014398509481984))
                        (- (5404319552844595 / 18014398509481984)) 0)) (pose_t ?best)"
    by simp_all
  have ne: "window_offsets \<noteq> []" "window_yaws \<noteq> []"
    by (simp_all add: window_offsets_def window_yaws_def)
  have len: "length (window_grid ?best) = 756"
    unfolding window_grid_def grid_length by (simp add: window_offsets_def window_yaws_def)
  have gne: "window_grid ?best \<noteq> []" using len by auto
  have hd: "hd (window_grid ?best) = pose_mul ?best
              (make_pose (hd window_offsets) (hd window_offsets) (hd window_yaws))"
    unfolding window_grid_def by (rule grid_hd(2)[OF ne(1) ne(1) ne(2)])
  have la: "last (window_grid ?best) = pose_mul ?best
              (make_pose (last window_offsets) (last window_offsets) (last window_yaws))"
    unfolding window_grid_def by (rule grid_last[OF ne(1) ne(1) ne(2)])
  have ends: "hd window_offsets = - (5404319552844595 / 18014398509481984)" "hd window_yaws = - 1"
    "last window_offsets = 7205759403792795 / 36028797018963968"
    "last window_yaws = 4503599627370495 / 4503599627370496"
    by (simp_all add: window_offsets_def window_yaws_def)
  have p1: "(?best # window_grid ?best) ! 1 = hd (window_grid ?best)"
    using gne by (simp add: hd_conv_nth)
  have tv: "vec3_add (mat3_vec (pose_R ?best) (Vector3 (- (5404319552844595 / 18014398509481984))
                        (- (5404319552844595 / 18014398509481984)) 0)) (pose_t ?best)
             = Vector3 (41433116571808563 / 18014398509481984)
                 (12610078956637389 / 18014398509481984) 0"
    by (simp add: make_pose_def setRPY_def)
  show ?thesis
    using cs len gne p1 hd la t tv
    by (intro exI[of _ "?best # window_grid ?best"]) (simp add: ends)
qed

subsection \<open>Claims about the state\<close>

lemma ring_renderer_in_place: "renders_in_place ring_renderer"
proof -
  have "finite_ranges (mr[0 := Fin v])" if "finite_ranges mr" for mr v
    unfolding finite_ranges_def list_all_length
  proof (intro allI impI)
    fix n assume n: "n < length (mr[0 := Fin v])"
    show "case mr[0 := Fin v] ! n of Fin v \<Rightarrow> True | _ \<Rightarrow> False"
    proof (cases n)
      case 0
      then show ?thesis using n by simp
    next
      case (Suc k)
      then show ?thesis using n that by (simp add: finite_ranges_def list_all_length)
    qed
  qed
  then show ?thesis by (simp add: renders_in_place_def ring_renderer_def)
qed

lemma ring_sample_error:
  "sample_error ring_renderer l [(p1, p2)] (replicate 100 (Fin 1)) p
     = Some (Fin ((min \<bar>1 - ((v2_x (transform2_apply (sample_transform p) p1))\<^sup>2
                               + (v2_y (transform2_apply (sample_transform p) p1))\<^sup>2)\<bar> 0.3)\<^sup>2
                  + 8.91))"
proof -
  let ?g = "(v2_x (transform2_apply (sample_transform p) p1))\<^sup>2
              + (v2_y (transform2_apply (sample_transform p) p1))\<^sup>2"
  let ?mrs = "(replicate 100 (Fin 0))[0 := Fin ?g]"
  let ?e = "\<lambda>i::nat. if i = 0 then (min \<bar>1 - ?g\<bar> 0.3)\<^sup>2 else (0.09::real)"
  have m: "model_ranges ring_renderer l (sample_transform p) [(p1, p2)] 100 = ?mrs"
    by (simp add: model_ranges_def ring_renderer_def)
  have "\<forall>i\<in>set [0..<100]. i < length ?mrs
          \<and> beam_error (replicate 100 (Fin 1) ! i) (?mrs ! i) = Fin (?e i)"
    by (auto simp: beam_error_finite nth_list_update power2_eq_square)
  from error_loop_sum[OF this, of 0]
  have "error_loop (replicate 100 (Fin 1)) ?mrs [0..<100] (Fin 0)
          = Some (Fin (0 + sum_list (map ?e [0..<100])))" .
  moreover have "sum_list (map ?e [0..<100]) = ?e 0 + sum_list (map ?e [1..<100])"
    by (simp add: upt_conv_Cons[of 0 100])
  moreover have "sum_list (map ?e [1..<100]) = sum_list (map (\<lambda>i. 0.09) [1..<100])"
    by (rule arg_cong[where f = sum_list], rule map_cong) simp_all
  moreover have "sum_list (map (\<lambda>i. 0.09::real) [1..<100]) = 8.91"
    by (simp add: sum_list_triv)
  ultimately show ?thesis by (simp add: sample_error_def sum_sq_error_def m)
qed

lemma ring_sample_error_ge: "\<exists>d. sample_error ring_renderer l [(p1, p2)] (replicate 100 (Fin 1)) p
     = Some (Fin (d + 8.91)) \<and> 0 \<le> d"
  using ring_sample_error[of l p1 p2 p] by (intro exI conjI, assumption) simp

lemma make_pose_yaw:
  "make_pose x y a
     = Pose3D (Matrix3 (cos a) (- sin a) 0 (sin a) (cos a) 0 0 0 1) (Vector3 x y 0)"
  by (simp add: make_pose_def setRPY_def Let_def)

lemma ring_at_unit_distance:
  "(v2_x (transform2_apply (sample_transform (make_pose x y a)) (Vec2 (x + 1) y)))\<^sup>2
     + (v2_y (transform2_apply (sample_transform (make_pose x y a)) (Vec2 (x + 1) y)))\<^sup>2 = 1"
proof -
  have "transform2_apply (sample_transform (make_pose x y a)) (Vec2 (x + 1) y)
          = Vec2 (cos a) (- sin a)"
    by (simp add: sample_transform_def make_pose_yaw algebra_simps)
  then show ?thesis by simp
qed

lemma pose_mul_identity: "pose_mul (make_pose 0 0 0) p = p"
proof -
  obtain r tr where p: "p = Pose3D r tr" by (cases p)
  show ?thesis unfolding p make_pose_no_yaw by (cases r; cases tr) simp
qed

lemma ring_error_at_origin:
  "sample_error ring_renderer l
     [(Vec2 (12610078956637389 / 18014398509481984) (- (5404319552844595 / 18014398509481984)),
       Vec2 9 9)] (replicate 100 (Fin 1)) (make_pose 0 0 0) = Some (Fin 9)"
proof -
  have t: "transform2_apply (sample_transform (make_pose 0 0 0)) p = p" for p
    by (cases p) (simp add: sample_transform_def make_pose_no_yaw)
  have g: "(min \<bar>1 - ((12610078956637389 / 18014398509481984)\<^sup>2
                 + (- (5404319552844595 / 18014398509481984))\<^sup>2)\<bar> 0.3)\<^sup>2 = (0.09::real)"
    by (simp add: power2_eq_square)
  show ?thesis by (simp only: ring_sample_error t Vec2.sel g) simp
qed

lemma ring_error_at_second:
  "sample_error ring_renderer l
     [(Vec2 (12610078956637389 / 18014398509481984) (- (5404319552844595 / 18014398509481984)),
       Vec2 9 9)] (replicate 100 (Fin 1))
     (make_pose (- (5404319552844595 / 18014398509481984))
        (- (5404319552844595 / 18014398509481984)) a) = Some (Fin 8.91)"
proof -
  have p1: "Vec2 (12610078956637389 / 18014398509481984) (- (5404319552844595 / 18014398509481984))
      = Vec2 (- (5404319552844595 / 18014398509481984) + 1) (- (5404319552844595 / 18014398509481984))"
    by simp
  show ?thesis by (simp only: ring_sample_error p1 ring_at_unit_distance) simp
qed

text \<open>Where the first minimum is, in two situations of the examples.\<close>

lemma first_minimum_all_equal:
  fixes err :: "'p \<Rightarrow> dbl option"
  assumes "k < length poses" and "err (poses ! k) = Some (Fin m)"
    and "\<forall>j<length poses. \<exists>e. err (poses ! j) = Some (Fin e) \<and> m \<le> e \<and> (j < k \<longrightarrow> m < e)"
    and "\<And>p. err p = Some (Fin c)"
  shows "k = 0"
proof (rule ccontr)
  assume "k \<noteq> 0"
  then have "0 < length poses" "0 < k" using assms(1) by auto
  with assms(3) obtain e where "err (poses ! 0) = Some (Fin e)" "m < e" by blast
  moreover have "e = c" "m = c" using assms(2,4) calculation(1) by simp_all
  ultimately show False by simp
qed

lemma first_minimum_second:
  fixes err :: "'p \<Rightarrow> dbl option"
  assumes "k < length poses" and "err (poses ! k) = Some (Fin m)"
    and "\<forall>j<length poses. \<exists>e. err (poses ! j) = Some (Fin e) \<and> m \<le> e \<and> (j < k \<longrightarrow> m < e)"
    and "1 < length poses" and "err (poses ! 0) = Some (Fin c0)" and "err (poses ! 1) = Some (Fin c1)"
    and "c1 < c0" and "\<And>p. \<exists>d. err p = Some (Fin (d + c1)) \<and> 0 \<le> d"
  shows "k = 1"
proof -
  from assms(8)[of "poses ! k"] assms(2) obtain d where "m = d + c1" "0 \<le> d" by auto
  then have lo: "c1 \<le> m" by simp
  from assms(3,4) obtain e where e: "err (poses ! 1) = Some (Fin e)" "m \<le> e" "1 < k \<longrightarrow> m < e"
    by blast
  with assms(6) have "e = c1" by simp
  with e lo have m: "m = c1" and "\<not> 1 < k" by auto
  moreover have "k \<noteq> 0"
  proof
    assume "k = 0"
    with assms(2,5) have "m = c0" by simp
    with m assms(7) show False by simp
  qed
  ultimately show ?thesis by linarith
qed

lemma world_grid_first: "world_grid ! 0 = make_pose (- 5) (- 5) 0"
proof -
  have ne: "global_coords \<noteq> []" "global_yaws \<noteq> []"
    by (simp_all add: global_coords_def global_yaws_def)
  have "world_grid \<noteq> []" unfolding world_grid_def by (rule grid_hd(1)[OF ne(1) ne(1) ne(2)])
  then have "world_grid ! 0 = hd world_grid" by (simp add: hd_conv_nth)
  also have "\<dots> = make_pose (hd global_coords) (hd global_coords) (hd global_yaws)"
    unfolding world_grid_def by (rule grid_hd(2)[OF ne(1) ne(1) ne(2)])
  also have "\<dots> = make_pose (- 5) (- 5) 0" by (simp add: global_coords_def global_yaws_def)
  finally show ?thesis .
qed

lemma window_grid_first:
  "1 < length (best # window_grid best)"
  "(best # window_grid best) ! 1
     = pose_mul best (make_pose (- (5404319552844595 / 18014398509481984))
                        (- (5404319552844595 / 18014398509481984)) (- 1))"
proof -
  have ne: "window_offsets \<noteq> []" "window_yaws \<noteq> []"
    by (simp_all add: window_offsets_def window_yaws_def)
  have wne: "window_grid best \<noteq> []"
    unfolding window_grid_def by (rule grid_hd(1)[OF ne(1) ne(1) ne(2)])
  then show "1 < length (best # window_grid best)" by (cases "window_grid best") simp_all
  have "(best # window_grid best) ! 1 = hd (window_grid best)" using wne by (simp add: hd_conv_nth)
  also have "\<dots> = pose_mul best (make_pose (hd window_offsets) (hd window_offsets) (hd window_yaws))"
    unfolding window_grid_def by (rule grid_hd(2)[OF ne(1) ne(1) ne(2)])
  also have "hd window_offsets = - (5404319552844595 / 18014398509481984)"
    by (simp add: window_offsets_def)
  also have "hd window_yaws = - 1" by (simp add: window_yaws_def)
  finally show "(best # window_grid best) ! 1
     = pose_mul best (make_pose (- (5404319552844595 / 18014398509481984))
                        (- (5404319552844595 / 18014398509481984)) (- 1))" .
qed

lemma empty_world_error:
  "sample_error rl l [] (replicate 100 (Fin 1)) p = Some (Fin 9)"
proof -
  have "\<forall>i\<in>set [0..<100]. i < length (replicate 100 (Fin 0))
          \<and> beam_error (replicate 100 (Fin 1) ! i) (replicate 100 (Fin 0) ! i) = Fin ((\<lambda>i. 0.09) i)"
    by (auto simp: beam_error_finite power2_eq_square)
  from error_loop_sum[OF this, of 0]
  have "error_loop (replicate 100 (Fin 1)) (replicate 100 (Fin 0)) [0..<100] (Fin 0)
          = Some (Fin (0 + sum_list (map (\<lambda>i. 0.09) [0..<100])))" .
  moreover have "sum_list (map (\<lambda>i. 0.09::real) [0..<100]) = 9" by (simp add: sum_list_triv)
  ultimately show ?thesis by (simp add: sample_error_def sum_sq_error_def model_ranges_def)
qed

lemma same_error: "a = b" if "x = Some (Fin a)" "x = Some (Fin b)"
  for x :: "dbl option" and a b :: real
  using that by simp

text \<open>
  C8. A cycle that has a scan whose subsampling ends (so at least one sample is scored)
  completes with \<open>pose_initialized\<close> set and the best pose set to the winner: the first
  sample, in the order of generation, whose error is minimal. This holds from any state,
  the uninitialized one included. A flag that is set stays set through every later cycle.
\<close>

theorem pose_initialized_monotonic:
  "(renders_in_place render_line \<and> laser_msg inp = Some msg \<and> subsample msg = Some srs \<longrightarrow>
      (\<exists>st' poses k min_e.
          create_samples (case odom_msg inp of None \<Rightarrow> st
                          | Some new_pose \<Rightarrow> odom_update st new_pose) = Some poses
        \<and> process render_line st inp = Completes st' \<and> pose_initialized st'
        \<and> k < length poses \<and> best_laser_pose st' = poses ! k
        \<and> sample_error render_line (lrf st') (world_lines inp) srs (poses ! k) = Some (Fin min_e)
        \<and> (\<forall>j<length poses. \<exists>e.
               sample_error render_line (lrf st') (world_lines inp) srs (poses ! j) = Some (Fin e)
             \<and> min_e \<le> e \<and> (j < k \<longrightarrow> min_e < e))))
   \<and> (process render_line st inp = Completes st1 \<and> pose_initialized st \<longrightarrow> pose_initialized st1)
   \<and> (run render_line st inps = Completes st2 \<and> pose_initialized st \<longrightarrow> pose_initialized st2)"
  using process_with_scan[of render_line inp msg srs st] process_flags(2)[of render_line st inp st1]
    run_flags[of render_line st inps st2]
  by blast

text \<open>
  From the constructed plugin, in an empty world: every sample has the error 9, and the
  cycle ends initialized on the first sample of the uniform grid. From an initialized
  plugin at the origin, with one line whose first end point is at distance 1 of the second
  sample: the best pose itself has the error 9, the second sample has the least possible
  error 8.91, and the cycle ends on the second sample; two more cycles keep the flag.
\<close>

theorem pose_initialized_monotonic_witness:
  "\<not> pose_initialized (LocalizationPlugin (make_pose 0 0 0) (make_pose 0 0 0) example_lrf)
   \<and> (\<exists>st1.
        process beam0_renderer (LocalizationPlugin (make_pose 0 0 0) (make_pose 0 0 0) example_lrf)
          \<lparr>laser_msg = Some (flat_scan 100), odom_msg = None, world_lines = []\<rparr> = Completes st1
      \<and> pose_initialized st1 \<and> best_laser_pose st1 = make_pose (- 5) (- 5) 0)
   \<and> (\<exists>st1 st2.
        process ring_renderer
          \<lparr>pose_initialized = True, have_previous_pose = False, previous_pose = make_pose 0 0 0,
           best_laser_pose = make_pose 0 0 0, lrf = example_lrf\<rparr>
          \<lparr>laser_msg = Some (flat_scan 100), odom_msg = None,
           world_lines = [(Vec2 (12610078956637389 / 18014398509481984)
                              (- (5404319552844595 / 18014398509481984)), Vec2 9 9)]\<rparr>
          = Completes st1
      \<and> pose_initialized st1
      \<and> best_laser_pose st1 = make_pose (- (5404319552844595 / 18014398509481984))
                                  (- (5404319552844595 / 18014398509481984)) (- 1)
      \<and> run ring_renderer st1
          [\<lparr>laser_msg = Some (flat_scan 100), odom_msg = Some (make_pose 1 0 0),
            world_lines = []\<rparr>,
           \<lparr>laser_msg = None, odom_msg = Some (make_pose 2 0 0), world_lines = []\<rparr>]
          = Completes st2
      \<and> pose_initialized st2)"
proof -
  let ?st0 = "LocalizationPlugin (make_pose 0 0 0) (make_pose 0 0 0) example_lrf"
  let ?inpA = "\<lparr>laser_msg = Some (flat_scan 100), odom_msg = None, world_lines = []\<rparr>"
  let ?x = "- (5404319552844595 / 18014398509481984) :: real"
  let ?p1 = "Vec2 (12610078956637389 / 18014398509481984) ?x"
  let ?stI = "\<lparr>pose_initialized = True, have_previous_pose = False,
           previous_pose = make_pose 0 0 0, best_laser_pose = make_pose 0 0 0, lrf = example_lrf\<rparr>"
  let ?inpB = "\<lparr>laser_msg = Some (flat_scan 100), odom_msg = None,
           world_lines = [(?p1, Vec2 9 9)]\<rparr>"
  let ?inpC = "\<lparr>laser_msg = Some (flat_scan 100), odom_msg = Some (make_pose 1 0 0),
            world_lines = []\<rparr>"
  let ?inpD = "\<lparr>laser_msg = None, odom_msg = Some (make_pose 2 0 0), world_lines = []\<rparr>"
  let ?srs = "replicate 100 (Fin 1)"
  have u: "\<not> pose_initialized ?st0" by (simp add: LocalizationPlugin_def)
  have hA: "renders_in_place beam0_renderer \<and> laser_msg ?inpA = Some (flat_scan 100)
              \<and> subsample (flat_scan 100) = Some ?srs"
    by (simp add: beam0_renderer_in_place subsample_flat_scan_100)
  with pose_initialized_monotonic[of beam0_renderer ?inpA "flat_scan 100" ?srs ?st0]
  obtain stA posesA kA mA where
    csA: "create_samples (case odom_msg ?inpA of None \<Rightarrow> ?st0
                          | Some new_pose \<Rightarrow> odom_update ?st0 new_pose) = Some posesA"
    and pA: "process beam0_renderer ?st0 ?inpA = Completes stA" and iA: "pose_initialized stA"
    and kA: "kA < length posesA" and bA: "best_laser_pose stA = posesA ! kA"
    and eA: "sample_error beam0_renderer (lrf stA) (world_lines ?inpA) ?srs (posesA ! kA)
               = Some (Fin mA)"
    and allA: "\<forall>j<length posesA. \<exists>e.
               sample_error beam0_renderer (lrf stA) (world_lines ?inpA) ?srs (posesA ! j)
                 = Some (Fin e) \<and> mA \<le> e \<and> (j < kA \<longrightarrow> mA < e)"
    by blast
  have gA: "posesA = world_grid" using csA u by (simp add: create_samples_eq)
  have "kA = 0"
  proof (rule first_minimum_all_equal[OF kA eA allA])
    show "sample_error beam0_renderer (lrf stA) (world_lines ?inpA) ?srs p = Some (Fin 9)" for p
      by (simp only: cycle_input.simps empty_world_error)
  qed
  with bA gA world_grid_first have bA': "best_laser_pose stA = make_pose (- 5) (- 5) 0"
    by simp
  have hB: "renders_in_place ring_renderer \<and> laser_msg ?inpB = Some (flat_scan 100)
              \<and> subsample (flat_scan 100) = Some ?srs"
    by (simp add: ring_renderer_in_place subsample_flat_scan_100)
  with pose_initialized_monotonic[of ring_renderer ?inpB "flat_scan 100" ?srs ?stI]
  obtain stB posesB kB mB where
    csB: "create_samples (case odom_msg ?inpB of None \<Rightarrow> ?stI
                          | Some new_pose \<Rightarrow> odom_update ?stI new_pose) = Some posesB"
    and pB: "process ring_renderer ?stI ?inpB = Completes stB" and iB: "pose_initialized stB"
    and kB: "kB < length posesB" and bB: "best_laser_pose stB = posesB ! kB"
    and eB: "sample_error ring_renderer (lrf stB) (world_lines ?inpB) ?srs (posesB ! kB)
               = Some (Fin mB)"
    and allB: "\<forall>j<length posesB. \<exists>e.
               sample_error ring_renderer (lrf stB) (world_lines ?inpB) ?srs (posesB ! j)
                 = Some (Fin e) \<and> mB \<le> e \<and> (j < kB \<longrightarrow> mB < e)"
    by blast
  have wl: "world_lines ?inpB = [(?p1, Vec2 9 9)]" by simp
  have gB: "posesB = make_pose 0 0 0 # window_grid (make_pose 0 0 0)"
    using csB by (simp add: create_samples_eq)
  have l1: "1 < length posesB" unfolding gB by (rule window_grid_first(1))
  have s1: "posesB ! 1 = make_pose ?x ?x (- 1)"
    unfolding gB by (simp only: window_grid_first(2) pose_mul_identity)
  have s0: "posesB ! 0 = make_pose 0 0 0" unfolding gB by simp
  have e0: "sample_error ring_renderer (lrf stB) (world_lines ?inpB) ?srs (posesB ! 0)
              = Some (Fin 9)"
    unfolding s0 wl by (rule ring_error_at_origin)
  have e1: "sample_error ring_renderer (lrf stB) (world_lines ?inpB) ?srs (posesB ! 1)
              = Some (Fin 8.91)"
    unfolding s1 wl by (rule ring_error_at_second)
  have "kB = 1"
  proof (rule first_minimum_second[OF kB eB allB l1 e0 e1])
    show "(8.91::real) < 9" by simp
    show "\<exists>d. sample_error ring_renderer (lrf stB) (world_lines ?inpB) ?srs p
                 = Some (Fin (d + 8.91)) \<and> 0 \<le> d" for p
      unfolding wl by (rule ring_sample_error_ge)
  qed
  with bB s1 have bB': "best_laser_pose stB = make_pose ?x ?x (- 1)" by simp
  have hC: "renders_in_place ring_renderer \<and> laser_msg ?inpC = Some (flat_scan 100)
              \<and> subsample (flat_scan 100) = Some ?srs"
    by (simp add: ring_renderer_in_place subsample_flat_scan_100)
  with pose_initialized_monotonic[of ring_renderer ?inpC "flat_scan 100" ?srs stB]
  obtain stC where pC: "process ring_renderer stB ?inpC = Completes stC" by blast
  have pD: "process ring_renderer stC ?inpD = Completes stC" by (simp add: process_def)
  have r: "run ring_renderer stB [?inpC, ?inpD] = Completes stC" using pC pD by simp
  with iB pose_initialized_monotonic[of ring_renderer ?inpC "flat_scan 100" ?srs
      stB stC "[?inpC, ?inpD]" stC]
  have iC: "pose_initialized stC" by blast
  from u pA iA bA' pB iB bB' r iC show ?thesis by blast
qed




end
